(* ===== verification/Atlas_Prelude.thy ===== *)
theory Atlas_Prelude
  imports Main "HOL-Library.Sublist" "HOL-Library.List_Lexorder"
begin

text \<open>
  Shared vocabulary of the development: Python text as a list of Unicode code points,
  the character classes and string methods of the Python runtime that the code of
  \<open>src/functions/atlas_chat.py\<close> calls (\<open>str.strip\<close>, \<open>str.lower\<close>,
  \<open>str.upper\<close>, \<open>str.isalpha\<close>, \<open>in\<close>, \<open>str.startswith\<close>, \<open>re.split\<close>,
  \<open>str.join\<close>), and the list lemmas the component theories share.
  Character classes are exact on Latin-1 (U+0000 to U+00FF), and \<open>py_isspace\<close> is
  exact on all of Unicode; above U+00FF letters are not classified (see the header of
  \<open>Spec2Isabelle\<close>).
\<close>

named_theorems eval_simps "evaluation rules of the model's definitions, used on closed instances"

type_synonym cp = nat
type_synonym pystr = "cp list"

definition ascii :: "string \<Rightarrow> pystr" where
  "ascii s = map of_char s"

subsection \<open>Character classes\<close>

text \<open>\<open>str.isspace\<close>, which is also what \<open>str.strip()\<close> removes and what the
  regular expression class \<open>\s\<close> matches.\<close>

definition py_isspace :: "cp \<Rightarrow> bool" where
  "py_isspace c \<longleftrightarrow> (9 \<le> c \<and> c \<le> 13) \<or> (28 \<le> c \<and> c \<le> 32) \<or> c = 133 \<or> c = 160
     \<or> c = 5760 \<or> (8192 \<le> c \<and> c \<le> 8202) \<or> c = 8232 \<or> c = 8233 \<or> c = 8239
     \<or> c = 8287 \<or> c = 12288"

definition is_ascii_upper :: "cp \<Rightarrow> bool" where
  "is_ascii_upper c \<longleftrightarrow> 65 \<le> c \<and> c \<le> 90"

definition is_ascii_lower :: "cp \<Rightarrow> bool" where
  "is_ascii_lower c \<longleftrightarrow> 97 \<le> c \<and> c \<le> 122"

definition is_ascii_digit :: "cp \<Rightarrow> bool" where
  "is_ascii_digit c \<longleftrightarrow> 48 \<le> c \<and> c \<le> 57"

text \<open>\<open>str.isalpha\<close> on one code point (Latin-1 letters: ASCII letters, the
  ordinal indicators, micro sign and the accented letters).\<close>

definition py_isalpha_cp :: "cp \<Rightarrow> bool" where
  "py_isalpha_cp c \<longleftrightarrow> is_ascii_upper c \<or> is_ascii_lower c \<or> c = 170 \<or> c = 181 \<or> c = 186
     \<or> (192 \<le> c \<and> c \<le> 255 \<and> c \<noteq> 215 \<and> c \<noteq> 247)"

definition py_isalpha :: "pystr \<Rightarrow> bool" where
  "py_isalpha s \<longleftrightarrow> s \<noteq> [] \<and> list_all py_isalpha_cp s"

text \<open>\<open>str.upper\<close> and \<open>str.lower\<close> per code point; a code point may map to
  several (\<open>\<ss>\<close> upper-cases to \<open>SS\<close>).\<close>

definition upper_cp :: "cp \<Rightarrow> cp list" where
  "upper_cp c =
     (if is_ascii_lower c then [c - 32]
      else if c = 181 then [924]
      else if c = 223 then [83, 83]
      else if 224 \<le> c \<and> c \<le> 254 \<and> c \<noteq> 247 then [c - 32]
      else if c = 255 then [376]
      else [c])"

definition lower_cp :: "cp \<Rightarrow> cp list" where
  "lower_cp c =
     (if is_ascii_upper c then [c + 32]
      else if 192 \<le> c \<and> c \<le> 222 \<and> c \<noteq> 215 then [c + 32]
      else if c = 304 then [105, 775]
      else if c = 8490 then [107]
      else [c])"

definition py_upper :: "pystr \<Rightarrow> pystr" where
  "py_upper s = concat (map upper_cp s)"

definition py_lower :: "pystr \<Rightarrow> pystr" where
  "py_lower s = concat (map lower_cp s)"

subsection \<open>Stripping, slicing, searching\<close>

definition py_lstrip :: "pystr \<Rightarrow> pystr" where
  "py_lstrip s = dropWhile py_isspace s"

definition py_rstrip :: "pystr \<Rightarrow> pystr" where
  "py_rstrip s = rev (dropWhile py_isspace (rev s))"

definition py_strip :: "pystr \<Rightarrow> pystr" where
  "py_strip s = py_rstrip (py_lstrip s)"

text \<open>\<open>s.startswith(p)\<close> and \<open>n in h\<close>, as the loops CPython runs.\<close>

fun starts_with :: "'a list \<Rightarrow> 'a list \<Rightarrow> bool" where
  "starts_with s [] = True"
| "starts_with [] (p # ps) = False"
| "starts_with (c # cs) (p # ps) = (c = p \<and> starts_with cs ps)"

fun py_in :: "'a list \<Rightarrow> 'a list \<Rightarrow> bool" where
  "py_in n [] = (n = [])"
| "py_in n (c # cs) = (starts_with (c # cs) n \<or> py_in n cs)"

text \<open>\<open>re.split(r"[...]", s)\<close> for a one-character class: the pieces between
  separators, empty pieces included.\<close>

fun py_split :: "(cp \<Rightarrow> bool) \<Rightarrow> pystr \<Rightarrow> pystr list" where
  "py_split p [] = [[]]"
| "py_split p (c # cs) =
     (if p c then [] # py_split p cs
      else (case py_split p cs of [] \<Rightarrow> [[c]] | w # ws \<Rightarrow> (c # w) # ws))"

text \<open>\<open>sep.join(parts)\<close>.\<close>

fun py_join :: "pystr \<Rightarrow> pystr list \<Rightarrow> pystr" where
  "py_join sep [] = []"
| "py_join sep [x] = x"
| "py_join sep (x # y # ys) = x @ sep @ py_join sep (y # ys)"

declare py_isspace_def [eval_simps] is_ascii_upper_def [eval_simps]
  is_ascii_lower_def [eval_simps] is_ascii_digit_def [eval_simps]
  py_isalpha_cp_def [eval_simps] py_isalpha_def [eval_simps]
  upper_cp_def [eval_simps] lower_cp_def [eval_simps] py_upper_def [eval_simps]
  py_lower_def [eval_simps] py_lstrip_def [eval_simps] py_rstrip_def [eval_simps]
  py_strip_def [eval_simps] Let_def [eval_simps]

subsection \<open>Lemmas\<close>

lemma ascii_Nil [simp]: "ascii [] = []"
  and ascii_Cons [simp]: "ascii (c # s) = of_char c # ascii s"
  and ascii_append [simp]: "ascii (s @ t) = ascii s @ ascii t"
  by (simp_all add: ascii_def)

lemma length_ascii [simp]: "length (ascii s) = length s"
  by (simp add: ascii_def)

lemma starts_with_prefix: "starts_with s p \<longleftrightarrow> prefix p s"
  by (induction s p rule: starts_with.induct) auto

text \<open>The substring loop is the library's contiguous-sublist relation.\<close>

lemma py_in_sublist: "py_in n h \<longleftrightarrow> sublist n h"
  by (induction h) (auto simp: sublist_Cons_right starts_with_prefix)

lemma py_in_Nil [simp]: "py_in [] h"
  by (cases h) simp_all

lemma py_split_nonempty [simp]: "py_split p s \<noteq> []"
  by (induction s) (auto split: list.splits)

lemma py_split_no_sep: "w \<in> set (py_split p s) \<Longrightarrow> c \<in> set w \<Longrightarrow> \<not> p c"
proof (induction s arbitrary: w)
  case Nil
  then show ?case by simp
next
  case (Cons a s)
  then show ?case by (fastforce split: if_splits list.splits)
qed


lemma py_lstrip_hd: "py_lstrip s = c # cs \<Longrightarrow> \<not> py_isspace c"
  unfolding py_lstrip_def by (metis dropWhile_eq_Cons_conv)

lemma py_lstrip_idem [simp]: "py_lstrip (py_lstrip s) = py_lstrip s"
  unfolding py_lstrip_def by (induction s) auto

lemma py_rstrip_Cons:
  "py_rstrip (x # xs) =
     (if \<forall>c \<in> set xs. py_isspace c then (if py_isspace x then [] else [x]) else x # py_rstrip xs)"
  by (simp add: py_rstrip_def dropWhile_append)

lemma py_rstrip_idem [simp]: "py_rstrip (py_rstrip s) = py_rstrip s"
  by (simp add: py_rstrip_def)

lemma py_rstrip_Nil_iff: "py_rstrip s = [] \<longleftrightarrow> (\<forall>c \<in> set s. py_isspace c)"
  by (simp add: py_rstrip_def)

lemma py_lstrip_Nil_iff: "py_lstrip s = [] \<longleftrightarrow> (\<forall>c \<in> set s. py_isspace c)"
  by (simp add: py_lstrip_def)

lemma py_lstrip_rstrip: "py_lstrip (py_rstrip s) = py_rstrip (py_lstrip s)"
proof (induction s)
  case Nil
  then show ?case by (simp add: py_lstrip_def py_rstrip_def)
next
  case (Cons x xs)
  show ?case
  proof (cases "py_isspace x")
    case True
    then have l: "py_lstrip (x # xs) = py_lstrip xs" and l': "py_lstrip (x # ys) = py_lstrip ys" for ys
      by (simp_all add: py_lstrip_def)
    show ?thesis
    proof (cases "\<forall>c \<in> set xs. py_isspace c")
      case all: True
      then have e: "py_lstrip xs = []" by (simp add: py_lstrip_Nil_iff)
      have "py_rstrip (x # xs) = []" using all True by (simp add: py_rstrip_Cons)
      then show ?thesis by (simp only: l e) (simp add: py_lstrip_def py_rstrip_def)
    next
      case False
      then have "py_rstrip (x # xs) = x # py_rstrip xs" by (auto simp: py_rstrip_Cons)
      with Cons.IH show ?thesis by (simp add: l l')
    qed
  next
    case False
    then show ?thesis by (simp add: py_rstrip_Cons py_lstrip_def)
  qed
qed

lemma py_strip_idem [simp]: "py_strip (py_strip s) = py_strip s"
  unfolding py_strip_def by (metis py_lstrip_idem py_lstrip_rstrip py_rstrip_idem)

lemma length_py_rstrip_le: "length (py_rstrip s) \<le> length s"
  by (simp add: py_rstrip_def) (metis length_dropWhile_le length_rev)

lemma py_lstrip_take:
  assumes "py_lstrip t = t" shows "py_lstrip (take n t) = take n t"
proof (cases t)
  case Nil
  then show ?thesis by (simp add: py_lstrip_def)
next
  case (Cons c cs)
  with assms have "\<not> py_isspace c" by (metis py_lstrip_hd)
  with Cons show ?thesis by (cases n) (simp_all add: py_lstrip_def)
qed

lemma py_strip_rstrip_take:
  assumes "py_lstrip t = t" shows "py_strip (py_rstrip (take n t)) = py_rstrip (take n t)"
  unfolding py_strip_def using assms by (metis py_lstrip_rstrip py_lstrip_take py_rstrip_idem)

lemma py_strip_fixed:
  assumes "s \<noteq> []" "\<not> py_isspace (hd s)" "\<not> py_isspace (last s)"
  shows "py_strip s = s"
proof -
  have l: "py_lstrip s = s" using assms by (cases s) (simp_all add: py_lstrip_def)
  have "py_rstrip s = s" using assms
    by (cases "rev s") (simp_all add: py_rstrip_def last_rev [symmetric] hd_rev)
  with l show ?thesis by (simp add: py_strip_def)
qed

lemma length_py_strip_le: "length (py_strip s) \<le> length s"
  unfolding py_strip_def py_lstrip_def by (metis length_py_rstrip_le length_dropWhile_le order_trans)

lemma set_py_strip: "set (py_strip s) \<subseteq> set s"
  unfolding py_strip_def py_lstrip_def py_rstrip_def
  by (metis set_dropWhileD set_rev subsetI)

lemma py_strip_last: "py_strip s \<noteq> [] \<Longrightarrow> \<not> py_isspace (last (py_strip s))"
  unfolding py_strip_def py_rstrip_def
  by (metis hd_dropWhile last_rev rev_is_Nil_conv)

subsection \<open>Order-preserving duplicate removal\<close>

text \<open>The abstract specification of the code's two "seen set" loops: the first
  occurrence of each element, in order.\<close>

fun dedup :: "'a list \<Rightarrow> 'a list" where
  "dedup [] = []"
| "dedup (x # xs) = x # dedup (filter (\<lambda>y. y \<noteq> x) xs)"

lemma set_dedup [simp]: "set (dedup xs) = set xs"
  by (induction xs rule: dedup.induct) auto

lemma distinct_dedup [simp]: "distinct (dedup xs)"
  by (induction xs rule: dedup.induct) auto

lemma dedup_Nil_iff [simp]: "dedup xs = [] \<longleftrightarrow> xs = []"
  by (cases xs) simp_all

lemma dedup_filter: "dedup (filter P xs) = filter P (dedup xs)"
proof (induction xs rule: dedup.induct)
  case 1
  then show ?case by simp
next
  case (2 x xs)
  show ?case
  proof (cases "P x")
    case True
    with 2 show ?thesis by (simp add: filter_filter conj_commute)
  next
    case False
    then have "filter P xs = filter (\<lambda>y. P y \<and> y \<noteq> x) xs" by (auto intro: filter_cong)
    with False 2 show ?thesis by (simp add: filter_filter conj_commute)
  qed
qed

lemma dedup_distinct_id: "distinct xs \<Longrightarrow> dedup xs = xs"
proof (induction xs rule: dedup.induct)
  case (2 x xs)
  then have "filter (\<lambda>y. y \<noteq> x) xs = xs" by (auto simp: filter_id_conv)
  with 2 show ?case by simp
qed simp

lemma py_split_set: "w \<in> set (py_split p s) \<Longrightarrow> set w \<subseteq> set s"
proof (induction s arbitrary: w)
  case Nil
  then show ?case by simp
next
  case (Cons a s)
  obtain w' ws where sp: "py_split p s = w' # ws" using py_split_nonempty by (cases "py_split p s") auto
  then have "set w' \<subseteq> set s" "\<forall>v\<in>set ws. set v \<subseteq> set s" using Cons.IH by auto
  moreover from Cons.prems sp have "w = [] \<or> w = a # w' \<or> w = w' \<or> w \<in> set ws"
    by (simp split: if_splits; blast)
  ultimately show ?case by auto
qed

lemma py_join_all: "list_all P sep \<Longrightarrow> list_all (list_all P) ws \<Longrightarrow> list_all P (py_join sep ws)"
  by (induction sep ws rule: py_join.induct) auto

end
