(* ===== verification/PyVal.thy ===== *)
theory PyVal
  imports Atlas_Prelude
begin

text \<open>
  The Python objects the code receives from outside: the documents of the store
  (\<open>doc.to_dict()\<close>), the request body (\<open>req.get_json()\<close>) and the parsed model
  output (\<open>json.loads\<close>). A dictionary is an association list in insertion order (the
  iteration order of \<open>dict.values()\<close>), with distinct keys. The theory gives the
  Python semantics the code relies on: truthiness (\<open>x or y\<close>), \<open>dict.get\<close>,
  \<open>str(x)\<close> with \<open>repr\<close> for containers, \<open>int(x)\<close> with its exceptions, and
  the exceptions themselves. \<open>pyval_ascii\<close> names the values whose strings are
  all ASCII; \<open>str()\<close> of such a value is ASCII (\<open>py_str_ascii\<close>).
\<close>

datatype pyval =
    PNone
  | PBool bool
  | PInt int
  | PStr pystr
  | PList "pyval list"
  | PDict "(pystr \<times> pyval) list"

text \<open>The exceptions that can leave a function of the program.\<close>

datatype exc =
    ValueError
  | TypeError
  | AttributeError
  | RuntimeError pystr
  | StoreError
  | NetworkError

fun py_truthy :: "pyval \<Rightarrow> bool" where
  "py_truthy PNone = False"
| "py_truthy (PBool b) = b"
| "py_truthy (PInt i) = (i \<noteq> 0)"
| "py_truthy (PStr s) = (s \<noteq> [])"
| "py_truthy (PList xs) = (xs \<noteq> [])"
| "py_truthy (PDict d) = (d \<noteq> [])"

definition py_or :: "pyval \<Rightarrow> pyval \<Rightarrow> pyval" where
  "py_or a b = (if py_truthy a then a else b)"

definition dict_get :: "(pystr \<times> pyval) list \<Rightarrow> pystr \<Rightarrow> pyval" where
  "dict_get d k = (case map_of d k of Some v \<Rightarrow> v | None \<Rightarrow> PNone)"

definition dict_has :: "(pystr \<times> pyval) list \<Rightarrow> pystr \<Rightarrow> bool" where
  "dict_has d k \<longleftrightarrow> k \<in> set (map fst d)"

text \<open>\<open>v.get(k)\<close> on a value: \<open>AttributeError\<close> unless it is a dictionary.\<close>

definition py_get :: "pyval \<Rightarrow> pystr \<Rightarrow> exc + pyval" where
  "py_get v k = (case v of PDict d \<Rightarrow> Inr (dict_get d k) | _ \<Rightarrow> Inl AttributeError)"

definition is_str :: "pyval \<Rightarrow> bool" where
  "is_str v \<longleftrightarrow> (case v of PStr _ \<Rightarrow> True | _ \<Rightarrow> False)"

definition is_list :: "pyval \<Rightarrow> bool" where
  "is_list v \<longleftrightarrow> (case v of PList _ \<Rightarrow> True | _ \<Rightarrow> False)"

definition list_of :: "pyval \<Rightarrow> pyval list" where
  "list_of v = (case v of PList xs \<Rightarrow> xs | _ \<Rightarrow> [])"

subsection \<open>\<open>str()\<close> and \<open>repr()\<close>\<close>

fun show_nat :: "nat \<Rightarrow> pystr" where
  "show_nat n = (if n < 10 then [48 + n] else show_nat (n div 10) @ [48 + n mod 10])"

declare show_nat.simps [simp del]

definition show_int :: "int \<Rightarrow> pystr" where
  "show_int i = (if i < 0 then 45 # show_nat (nat (- i)) else show_nat (nat i))"

definition hex_digit :: "nat \<Rightarrow> cp" where
  "hex_digit d = (if d < 10 then 48 + d else 87 + d)"

text \<open>One code point inside a string literal printed with quote \<open>q\<close>; the
  non-printable code points of Latin-1 are printed as \<open>\xhh\<close>.\<close>

definition escape_cp :: "cp \<Rightarrow> cp \<Rightarrow> pystr" where
  "escape_cp q c =
     (if c = 92 then [92, 92]
      else if c = q then [92, q]
      else if c = 9 then [92, 116]
      else if c = 10 then [92, 110]
      else if c = 13 then [92, 114]
      else if c < 32 \<or> (127 \<le> c \<and> c \<le> 160) \<or> c = 173
        then [92, 120, hex_digit (c div 16), hex_digit (c mod 16)]
      else [c])"

definition repr_str :: "pystr \<Rightarrow> pystr" where
  "repr_str s = (let q = (if 39 \<in> set s \<and> 34 \<notin> set s then 34 else 39)
                 in q # concat (map (escape_cp q) s) @ [q])"

fun py_repr :: "pyval \<Rightarrow> pystr" where
  "py_repr PNone = ascii ''None''"
| "py_repr (PBool b) = (if b then ascii ''True'' else ascii ''False'')"
| "py_repr (PInt i) = show_int i"
| "py_repr (PStr s) = repr_str s"
| "py_repr (PList xs) = 91 # py_join (ascii '', '') (map py_repr xs) @ [93]"
| "py_repr (PDict d) =
     123 # py_join (ascii '', '') (map (\<lambda>(k, v). repr_str k @ ascii '': '' @ py_repr v) d) @ [125]"

definition py_str :: "pyval \<Rightarrow> pystr" where
  "py_str v = (case v of PStr s \<Rightarrow> s | _ \<Rightarrow> py_repr v)"

subsection \<open>\<open>int()\<close>\<close>

text \<open>Decimal digits with single underscores between them, as \<open>int(str)\<close> accepts.\<close>

fun dec_value :: "pystr \<Rightarrow> nat \<Rightarrow> nat option" where
  "dec_value [] acc = Some acc"
| "dec_value (c # cs) acc =
     (if is_ascii_digit c then dec_value cs (10 * acc + (c - 48))
      else if c = 95 \<and> cs \<noteq> [] \<and> is_ascii_digit (hd cs) then dec_value cs acc
      else None)"

definition parse_unsigned :: "pystr \<Rightarrow> nat option" where
  "parse_unsigned s = (case s of c # _ \<Rightarrow> if is_ascii_digit c then dec_value s 0 else None
                               | [] \<Rightarrow> None)"

definition int_of_str :: "pystr \<Rightarrow> exc + int" where
  "int_of_str s =
     (let t = py_strip s in
      case t of
        [] \<Rightarrow> Inl ValueError
      | c # r \<Rightarrow>
          (let (neg, ds) = (if c = 45 then (True, r) else if c = 43 then (False, r) else (False, t))
           in case parse_unsigned ds of
                None \<Rightarrow> Inl ValueError
              | Some n \<Rightarrow> Inr (if neg then - int n else int n)))"

definition py_int :: "pyval \<Rightarrow> exc + int" where
  "py_int v = (case v of
       PBool b \<Rightarrow> Inr (if b then 1 else 0)
     | PInt i \<Rightarrow> Inr i
     | PStr s \<Rightarrow> int_of_str s
     | _ \<Rightarrow> Inl TypeError)"

text \<open>Values whose strings, keys included, are all ASCII.\<close>

fun pyval_ascii :: "pyval \<Rightarrow> bool" where
  "pyval_ascii (PStr s) = list_all (\<lambda>c. c < 128) s"
| "pyval_ascii (PList xs) = list_all pyval_ascii xs"
| "pyval_ascii (PDict d) = list_all (\<lambda>kv. list_all (\<lambda>c. c < 128) (fst kv) \<and> pyval_ascii (snd kv)) d"
| "pyval_ascii _ = True"

declare py_or_def [eval_simps] dict_get_def [eval_simps] dict_has_def [eval_simps]
  py_get_def [eval_simps] is_str_def [eval_simps] is_list_def [eval_simps] list_of_def [eval_simps]
  py_str_def [eval_simps] show_int_def [eval_simps] show_nat.simps [eval_simps]
  repr_str_def [eval_simps] escape_cp_def [eval_simps] hex_digit_def [eval_simps]
  int_of_str_def [eval_simps] parse_unsigned_def [eval_simps] py_int_def [eval_simps]


subsection \<open>Lemmas\<close>

lemma show_nat_ascii: "list_all (\<lambda>c. c < 128) (show_nat n)"
proof (induction n rule: show_nat.induct)
  case (1 n)
  have "n mod 10 < 10" by simp
  then show ?case using 1 by (subst show_nat.simps) (simp, linarith)
qed

lemma hex_digit_ascii: "d < 16 \<Longrightarrow> hex_digit d < 128"
  by (simp add: hex_digit_def)

lemma escape_cp_ascii: "c < 128 \<Longrightarrow> q < 128 \<Longrightarrow> list_all (\<lambda>c. c < 128) (escape_cp q c)"
proof -
  assume c: "c < 128" and q: "q < 128"
  have "c div 16 < 16" "c mod 16 < 16" using c by simp_all
  then have "hex_digit (c div 16) < 128" "hex_digit (c mod 16) < 128" by (simp_all add: hex_digit_ascii)
  then show ?thesis using c q unfolding escape_cp_def by simp
qed

lemma repr_str_ascii: "list_all (\<lambda>c. c < 128) s \<Longrightarrow> list_all (\<lambda>c. c < 128) (repr_str s)"
proof -
  assume s: "list_all (\<lambda>c. c < 128) s"
  have "list_all (\<lambda>c. c < 128) (concat (map (escape_cp q) s))" if "q < 128" for q :: cp
    using s escape_cp_ascii[OF _ that] by (induction s) auto
  then show ?thesis by (simp add: repr_str_def Let_def)
qed

lemma py_repr_ascii: "pyval_ascii v \<Longrightarrow> list_all (\<lambda>c. c < 128) (py_repr v)"
proof (induction v rule: py_repr.induct)
  case (5 xs)
  have "\<forall>x\<in>set xs. pyval_ascii x" using 5(2) by (simp add: list_all_iff)
  then have "\<forall>w\<in>set (map py_repr xs). list_all (\<lambda>c. c < 128) w" using 5(1) by auto
  then have "list_all (\<lambda>c. c < 128) (py_join (ascii '', '') (map py_repr xs))"
    by (intro py_join_all) (simp_all add: list_all_iff)
  then show ?case by simp
next
  case (6 d)
  have "\<forall>w\<in>set (map (\<lambda>(k, v). repr_str k @ ascii '': '' @ py_repr v) d). list_all (\<lambda>c. c < 128) w"
  proof
    fix w assume "w \<in> set (map (\<lambda>(k, v). repr_str k @ ascii '': '' @ py_repr v) d)"
    then obtain k v where kv: "(k, v) \<in> set d" "w = repr_str k @ ascii '': '' @ py_repr v" by auto
    then have "list_all (\<lambda>c. c < 128) k" "pyval_ascii v" using 6(2) by (auto simp: list_all_iff)
    then show "list_all (\<lambda>c. c < 128) w" using 6(1)[OF kv(1) refl] repr_str_ascii kv(2) by simp
  qed
  then have "list_all (\<lambda>c. c < 128) (py_join (ascii '', '') (map (\<lambda>(k, v). repr_str k @ ascii '': '' @ py_repr v) d))"
    by (intro py_join_all) (simp_all add: list_all_iff)
  then show ?case by simp
qed (simp_all add: show_int_def show_nat_ascii repr_str_ascii)

lemma py_str_ascii: "pyval_ascii v \<Longrightarrow> list_all (\<lambda>c. c < 128) (py_str v)"
  using py_repr_ascii[of v] by (cases v) (simp_all add: py_str_def del: py_repr.simps)

lemma dict_get_ascii: "pyval_ascii (PDict d) \<Longrightarrow> pyval_ascii (dict_get d k)"
proof (cases "map_of d k")
  case (Some w)
  then have "(k, w) \<in> set d" by (rule map_of_SomeD)
  moreover assume "pyval_ascii (PDict d)"
  ultimately show ?thesis using Some by (auto simp: dict_get_def list_all_iff)
qed (simp add: dict_get_def)

end
