(* ===== verification/Book.thy ===== *)
theory Book
  imports PyVal
begin

text \<open>
  The catalog record of \<open>_load_atlas_books_cached\<close> (lines 232--252 of
  \<open>src/functions/atlas_chat.py\<close>). The fields read from the document form
  \<open>book_src\<close>; the record \<open>book\<close> extends it with the three fields computed at
  index time (\<open>_places\<close>, \<open>_iso2_sets\<close>, \<open>_blob\<close>). Functions that read only
  the document fields are stated over \<open>'a book_src_scheme\<close>, so they apply to both.
  A place \<open>{"iso2": c, "name": n}\<close> is the pair \<open>(c, n)\<close>.
\<close>

type_synonym place = "pystr \<times> pystr"

record places =
  pl_override :: "place list"
  pl_setting :: "place list"
  pl_author_country :: "place list"
  pl_author_origin :: "place list"

record iso2_sets =
  set_override :: "pystr set"
  set_setting :: "pystr set"
  set_author :: "pystr set"
  set_any :: "pystr set"

record book_src =
  book_id :: pystr
  title :: pystr
  author :: pystr
  summary :: pystr
  description :: pystr
  year :: pystr
  page_count :: int
  tags :: "pyval list"
  categories :: "pyval list"
  country_override :: pyval
  setting_country :: pyval
  author_country :: pyval
  author_origin :: pyval
  cover_url :: pystr
  bookshop_url :: pystr

record book = book_src +
  b_places :: places
  b_iso2_sets :: iso2_sets
  b_blob :: pystr

text \<open>The catalog's ID index \<open>by_id\<close>.\<close>

type_synonym 'a catalog_index = "pystr \<rightharpoonup> 'a book_src_scheme"

end
