(* ===== verification/Text.thy ===== *)
theory Text
  imports PyVal
begin

text \<open>
  Text normalisation (\<open>_normalize_text\<close>) and the intent classifier
  (\<open>_user_wants_single\<close>) of \<open>src/functions/atlas_chat.py\<close>. The two
  \<open>re.sub\<close> calls of the normaliser are one function, \<open>sub_runs\<close>, which replaces
  every maximal run of code points of a class by one space, as a greedy \<open>[...]+\<close>
  pattern does.
\<close>

function sub_runs :: "(cp \<Rightarrow> bool) \<Rightarrow> pystr \<Rightarrow> pystr" where
  "sub_runs P [] = []"
| "sub_runs P (c # cs) =
     (if P c then 32 # sub_runs P (dropWhile P cs) else c # sub_runs P cs)"
  by pat_completeness auto
termination
  by (relation "measure (\<lambda>(P, s). length s)") (auto simp: le_imp_less_Suc length_dropWhile_le)

definition is_az09 :: "cp \<Rightarrow> bool" where
  "is_az09 c \<longleftrightarrow> is_ascii_lower c \<or> is_ascii_digit c"

text \<open>\<open>_normalize_text\<close>, lines 50--58; every caller passes a \<open>str\<close>, for which
  \<open>str(s or "")\<close> is \<open>s\<close>.\<close>

definition normalize_text :: "pystr \<Rightarrow> pystr" where
  "normalize_text s =
     (let txt = py_lower (py_strip s);
          txt = sub_runs (\<lambda>c. \<not> is_az09 c) txt
      in py_strip (sub_runs py_isspace txt))"

text \<open>\<open>_user_wants_single\<close>, lines 277--291: the trigger tests in the order of the
  code.\<close>

definition user_wants_single :: "pystr \<Rightarrow> bool" where
  "user_wants_single user_text =
     (let q = normalize_text user_text in
      if q = [] then False
      else if py_in (ascii ''top rec'') q \<or> py_in (ascii ''top recommendation'') q then True
      else if py_in (ascii ''just one'') q \<or> py_in (ascii ''only one'') q
              \<or> py_in (ascii ''one book'') q then True
      else if py_in (ascii ''one recommendation'') q \<or> py_in (ascii ''one rec'') q then True
      else if py_in (ascii ''single recommendation'') q \<or> py_in (ascii ''single rec'') q then True
      else if starts_with q (ascii ''give me a book'') \<or> starts_with q (ascii ''recommend a book'')
        then True
      else False)"

declare is_az09_def [eval_simps] normalize_text_def [eval_simps] user_wants_single_def [eval_simps]

subsection \<open>The normal form\<close>

text \<open>After the first substitution every code point is a letter, a digit or a space,
  and no two spaces are adjacent.\<close>

fun runs_ok :: "pystr \<Rightarrow> bool" where
  "runs_ok [] = True"
| "runs_ok (c # cs) = ((is_az09 c \<or> c = 32) \<and> (c = 32 \<longrightarrow> cs = [] \<or> hd cs \<noteq> 32) \<and> runs_ok cs)"

text \<open>A normalised text: lower-case letters and digits in words separated by single
  spaces, with no space at either end.\<close>

definition normal_form :: "pystr \<Rightarrow> bool" where
  "normal_form s \<longleftrightarrow> runs_ok s \<and> (case s of [] \<Rightarrow> True | c # cs \<Rightarrow> c \<noteq> 32 \<and> last s \<noteq> 32)"

text \<open>The eight trigger patterns that decide \<open>_user_wants_single\<close>: the two long
  patterns of lines 282, 285 and 287 contain a shorter one of the same line.\<close>

definition single_triggers :: "pystr list" where
  "single_triggers = map ascii [''top rec'', ''just one'', ''only one'', ''one book'', ''one rec'', ''single rec'']"

definition single_prefixes :: "pystr list" where
  "single_prefixes = map ascii [''give me a book'', ''recommend a book'']"

subsection \<open>Lemmas\<close>

lemma is_az09_not_space [simp]: "is_az09 c \<Longrightarrow> \<not> py_isspace c"
  by (auto simp: is_az09_def is_ascii_lower_def is_ascii_digit_def py_isspace_def)

lemma space_not_az09 [simp]: "\<not> is_az09 32"
  by (simp add: is_az09_def is_ascii_lower_def is_ascii_digit_def)

lemma is_az09_ne_32 [simp]: "is_az09 c \<Longrightarrow> c \<noteq> 32"
  by auto

lemma py_isspace_32 [simp]: "py_isspace 32"
  by (simp add: py_isspace_def)

lemma sub_runs_az09: "runs_ok (sub_runs (\<lambda>c. \<not> is_az09 c) s)"
proof (induction "\<lambda>c. \<not> is_az09 c" s rule: sub_runs.induct)
  case 1
  then show ?case by simp
next
  case (2 c cs)
  show ?case
  proof (cases "is_az09 c")
    case True
    with 2 show ?thesis by simp
  next
    case False
    let ?r = "dropWhile (\<lambda>c. \<not> is_az09 c) cs"
    have "sub_runs (\<lambda>c. \<not> is_az09 c) ?r = [] \<or> hd (sub_runs (\<lambda>c. \<not> is_az09 c) ?r) \<noteq> 32"
    proof (cases ?r)
      case Nil
      show ?thesis unfolding Nil by simp
    next
      case (Cons x xs)
      then have "is_az09 x" by (metis (mono_tags, lifting) hd_dropWhile list.sel(1) list.simps(3))
      with Cons show ?thesis by simp
    qed
    with False 2 show ?thesis by simp
  qed
qed

lemma runs_ok_iff: "runs_ok s \<longleftrightarrow> (\<forall>c \<in> set s. is_az09 c \<or> c = 32) \<and> \<not> sublist [32, 32] s"
proof (induction s)
  case Nil
  then show ?case by simp
next
  case (Cons c cs)
  then show ?case by (cases cs) (auto simp: sublist_Cons_right)
qed

lemma runs_ok_sublist: "runs_ok s \<Longrightarrow> sublist t s \<Longrightarrow> runs_ok t"
  unfolding runs_ok_iff by (meson set_mono_sublist subsetD sublist_order.dual_order.trans)

lemma suffix_dropWhile: "suffix (dropWhile P xs) xs"
  by (induction xs) (auto intro: suffix_ConsI)

lemma py_strip_sublist: "sublist (py_strip s) s"
proof -
  have "prefix (py_rstrip t) t" for t
    unfolding py_rstrip_def by (metis suffix_to_prefix rev_rev_ident suffix_dropWhile)
  with suffix_dropWhile[of py_isspace s] show ?thesis unfolding py_strip_def py_lstrip_def
    by (meson prefix_imp_sublist suffix_imp_sublist sublist_order.dual_order.trans)
qed

lemma py_strip_Cons_hd: "py_strip s = c # cs \<Longrightarrow> \<not> py_isspace c"
  unfolding py_strip_def by (metis py_lstrip_rstrip py_lstrip_hd)

lemma normal_form_strip: "runs_ok s \<Longrightarrow> normal_form (py_strip s)"
proof (cases "py_strip s")
  case (Cons c cs)
  assume "runs_ok s"
  then have "runs_ok (py_strip s)" using py_strip_sublist by (rule runs_ok_sublist)
  moreover have "\<not> py_isspace c" using Cons by (rule py_strip_Cons_hd)
  moreover have "\<not> py_isspace (last (py_strip s))" using Cons py_strip_last[of s] by simp
  ultimately show ?thesis using Cons by (auto simp: normal_form_def)
qed (simp add: normal_form_def)

lemma sub_runs_runs_ok_id:
  "runs_ok s \<Longrightarrow> P 32 \<Longrightarrow> (\<And>c. is_az09 c \<Longrightarrow> \<not> P c) \<Longrightarrow> sub_runs P s = s"
proof (induction s)
  case Nil
  then show ?case by simp
next
  case (Cons c cs)
  show ?case
  proof (cases "c = 32")
    case True
    with Cons.prems have "cs = [] \<or> is_az09 (hd cs)" by (cases cs) auto
    with Cons.prems(3) have "dropWhile P cs = cs" by (cases cs) auto
    with True Cons show ?thesis by simp
  next
    case False
    with Cons.prems show ?thesis using Cons.IH by auto
  qed
qed

lemma sub_runs_space_id: "runs_ok s \<Longrightarrow> sub_runs py_isspace s = s"
  by (rule sub_runs_runs_ok_id) auto

lemma py_lower_runs_ok: "runs_ok s \<Longrightarrow> py_lower s = s"
  by (induction s)
     (auto simp: py_lower_def lower_cp_def is_az09_def is_ascii_lower_def is_ascii_digit_def is_ascii_upper_def)

lemma normal_form_fixed: "normal_form t \<Longrightarrow> normalize_text t = t"
proof -
  assume n: "normal_form t"
  then have r: "runs_ok t" by (simp add: normal_form_def)
  have s: "py_strip t = t"
  proof (cases t)
    case (Cons c cs)
    have "last t \<in> set t" "c \<in> set t" using Cons by auto
    moreover have "last t \<noteq> 32" "c \<noteq> 32" using n Cons by (auto simp: normal_form_def)
    ultimately have "is_az09 (last t)" "is_az09 c" using r unfolding runs_ok_iff by auto
    then show ?thesis using Cons by (intro py_strip_fixed) auto
  qed (simp add: py_strip_def py_lstrip_def py_rstrip_def)
  have a: "sub_runs (\<lambda>c. \<not> is_az09 c) t = t" by (rule sub_runs_runs_ok_id[OF r]) auto
  have b: "sub_runs py_isspace t = t" using r by (rule sub_runs_space_id)
  show ?thesis by (simp add: normalize_text_def s py_lower_runs_ok[OF r] a b)
qed

lemma sublist_append_left: "sublist (a @ b) q \<Longrightarrow> sublist a q"
proof -
  have "sublist a (a @ b)" by (intro prefix_imp_sublist) simp
  then show "sublist (a @ b) q \<Longrightarrow> sublist a q" by (rule sublist_order.order_trans)
qed

lemma someone_recommend_normalized:
  "normalize_text (ascii ''Can someone recommend three books about Kenya?'') =
     ascii ''can someone recommend three books about kenya''"
  by (simp add: eval_simps)

subsection \<open>Properties\<close>

text \<open>C21: \<open>_normalize_text\<close> returns lower-case ASCII letters and digits in words
  separated by single spaces, with no space at either end, and normalising its output
  again changes nothing.\<close>

theorem normalize_text_normal_form:
  "normal_form (normalize_text s) \<and> normalize_text (normalize_text s) = normalize_text s"
proof -
  have "normalize_text s = py_strip (sub_runs (\<lambda>c. \<not> is_az09 c) (py_lower (py_strip s)))"
    by (simp add: normalize_text_def sub_runs_space_id[OF sub_runs_az09])
  then have "normal_form (normalize_text s)" by (simp add: normal_form_strip sub_runs_az09)
  then show ?thesis using normal_form_fixed by blast
qed


text \<open>C22: \<open>_user_wants_single\<close> holds exactly when the normalised text contains
  one of six trigger phrases or starts with one of two prefixes: the empty-text test and
  the three longer phrases never decide the result.\<close>

theorem user_wants_single_triggers:
  "user_wants_single s \<longleftrightarrow>
     list_ex (\<lambda>t. sublist t (normalize_text s)) single_triggers \<or>
     list_ex (\<lambda>p. prefix p (normalize_text s)) single_prefixes"
proof -
  have e1: "ascii ''top recommendation'' = ascii ''top rec'' @ ascii ''ommendation''"
    and e2: "ascii ''one recommendation'' = ascii ''one rec'' @ ascii ''ommendation''"
    and e3: "ascii ''single recommendation'' = ascii ''single rec'' @ ascii ''ommendation''"
    by (simp_all add: ascii_def)
  have ne: "ascii (c # cs) \<noteq> []" for c cs by simp
  show ?thesis
    unfolding user_wants_single_def Let_def py_in_sublist starts_with_prefix e1 e2 e3
      single_triggers_def single_prefixes_def
    by (auto simp del: ascii_Cons simp: ne dest: sublist_append_left)
qed

text \<open>The triggers are tested as substrings across word boundaries, so
  "Can someone recommend three books about Kenya?" asks for a single book: its
  normal form contains "one rec" (in "some\<^bold>\<open>one rec\<close>ommend").\<close>

theorem user_wants_single_someone:
  "user_wants_single (ascii ''Can someone recommend three books about Kenya?'')"
  by (simp add: user_wants_single_def someone_recommend_normalized eval_simps)

end
