(* ===== verification/Markdown.thy ===== *)
theory Markdown
  imports Text
begin

text \<open>
  The prose sanitiser \<open>_sanitize_assistant_markdown\<close> (lines 459--472). Each
  \<open>re.sub\<close> with a pattern anchored by \<open>(?m)^\<close> is \<open>strip_marks\<close>: a left-to-right
  scan of the input that, at a position where \<open>^\<close> holds (the start, or right after a
  newline of the input), tries the pattern and, when it matches \<open>k\<close> code points,
  deletes them and resumes after them; elsewhere it keeps one code point and moves on.
  A matcher returns the length of its match. Each pattern's greedy quantifiers meet a
  class disjoint from the one that follows, so the first match the regular-expression
  engine finds is the maximal one the matcher computes.
\<close>

type_synonym matcher = "pystr \<Rightarrow> nat option"

function strip_marks :: "matcher \<Rightarrow> bool \<Rightarrow> pystr \<Rightarrow> pystr" where
  "strip_marks m bol [] = []"
| "strip_marks m bol (c # cs) =
     (case (if bol then m (c # cs) else None) of
        Some (Suc k) \<Rightarrow> strip_marks m ((c # cs) ! k = 10) (drop k cs)
      | _ \<Rightarrow> c # strip_marks m (c = 10) cs)"
  by pat_completeness auto
termination
  by (relation "measure (\<lambda>(m, b, s). length s)") auto

definition ws_len :: "pystr \<Rightarrow> nat" where
  "ws_len s = length (takeWhile py_isspace s)"

text \<open>\<open>\s*#{1,6}\s*\<close>\<close>

definition match_heading :: matcher where
  "match_heading s =
     (let w = ws_len s; r = drop w s; h = min 6 (length (takeWhile (\<lambda>c. c = 35) r))
      in if h = 0 then None else Some (w + h + ws_len (drop h r)))"

text \<open>\<open>\s*[-*\<bullet>]\s+\<close> (U+2022 is the bullet)\<close>

definition match_bullet :: matcher where
  "match_bullet s =
     (let w = ws_len s; r = drop w s
      in case r of
           c # r' \<Rightarrow> if (c = 45 \<or> c = 42 \<or> c = 8226) \<and> ws_len r' \<noteq> 0
                     then Some (w + 1 + ws_len r') else None
         | [] \<Rightarrow> None)"

text \<open>\<open>\s*\d+\.\s+\<close>\<close>

definition match_numbered :: matcher where
  "match_numbered s =
     (let w = ws_len s; r = drop w s; d = length (takeWhile is_ascii_digit r); r' = drop d r
      in if d \<noteq> 0 \<and> r' \<noteq> [] \<and> hd r' = 46 \<and> ws_len (tl r') \<noteq> 0
         then Some (w + d + 1 + ws_len (tl r')) else None)"

text \<open>\<open>re.sub(r"\n{3,}", "\n\n", text)\<close>\<close>

function collapse_nl :: "pystr \<Rightarrow> pystr" where
  "collapse_nl [] = []"
| "collapse_nl (c # cs) =
     (if c = 10 then
        (let n = length (takeWhile (\<lambda>x. x = 10) (c # cs))
         in (if 3 \<le> n then [10, 10] else replicate n 10)
            @ collapse_nl (dropWhile (\<lambda>x. x = 10) cs))
      else c # collapse_nl cs)"
  by pat_completeness auto
termination
  by (relation "measure length") (auto simp: le_imp_less_Suc length_dropWhile_le)

definition md_limit :: nat where
  "md_limit = 900"

definition sanitize_assistant_markdown :: "pystr \<Rightarrow> pystr" where
  "sanitize_assistant_markdown md =
     (let text = py_strip md in
      if text = [] then []
      else
        (let text = strip_marks match_heading True text;
             text = strip_marks match_bullet True text;
             text = strip_marks match_numbered True text;
             text = py_strip (collapse_nl text)
         in if length text > md_limit then py_rstrip (take md_limit text) else text))"

text \<open>A line that starts with no marker and holds no newline passes unchanged.\<close>

definition plain_line :: "pystr \<Rightarrow> bool" where
  "plain_line s \<longleftrightarrow> s \<noteq> [] \<and> 10 \<notin> set s \<and> \<not> py_isspace (hd s) \<and> \<not> py_isspace (last s)
     \<and> hd s \<notin> {35, 42, 45, 8226} \<and> \<not> is_ascii_digit (hd s) \<and> length s \<le> md_limit"

declare ws_len_def [eval_simps] match_heading_def [eval_simps] match_bullet_def [eval_simps]
  match_numbered_def [eval_simps] md_limit_def [eval_simps] sanitize_assistant_markdown_def [eval_simps]

subsection \<open>Lemmas\<close>

lemma sanitize_length: "length (sanitize_assistant_markdown s) \<le> md_limit"
  unfolding sanitize_assistant_markdown_def Let_def
  using length_py_rstrip_le[of "take md_limit _"] by (auto simp: md_limit_def)

lemma sanitize_stripped:
  "py_strip (sanitize_assistant_markdown md) = sanitize_assistant_markdown md"
proof -
  have lfix: "py_lstrip (py_strip t) = py_strip t" for t
    by (metis py_strip_def py_lstrip_idem py_lstrip_rstrip)
  show ?thesis
    unfolding sanitize_assistant_markdown_def Let_def
    by (auto simp: py_strip_rstrip_take lfix) (simp add: py_strip_def py_lstrip_def py_rstrip_def)
qed

lemma strip_marks_no_nl: "10 \<notin> set s \<Longrightarrow> strip_marks m False s = s"
  by (induction s) auto

lemma collapse_nl_no_nl: "10 \<notin> set s \<Longrightarrow> collapse_nl s = s"
  by (induction s rule: collapse_nl.induct) auto

lemma strip_marks_plain:
  assumes "s \<noteq> []" "10 \<notin> set s" "m s = None"
  shows "strip_marks m True s = s"
  using assms by (cases s) (auto simp: strip_marks_no_nl)

lemma matchers_plain:
  assumes "plain_line s"
  shows "match_heading s = None" "match_bullet s = None" "match_numbered s = None"
proof -
  obtain c cs where s: "s = c # cs" and c: "\<not> py_isspace c" "c \<notin> {35, 42, 45, 8226}" "\<not> is_ascii_digit c"
    using assms by (cases s) (auto simp: plain_line_def)
  then have w: "ws_len s = 0" by (simp add: ws_len_def)
  show "match_heading s = None" using s c w by (simp add: match_heading_def)
  show "match_bullet s = None" using s c w by (simp add: match_bullet_def)
  show "match_numbered s = None" using s c w by (simp add: match_numbered_def)
qed

lemma sanitize_plain: "plain_line s \<Longrightarrow> sanitize_assistant_markdown s = s"
proof -
  assume p: "plain_line s"
  then have s: "s \<noteq> []" "10 \<notin> set s" "length s \<le> md_limit" and st: "py_strip s = s"
    by (auto simp: plain_line_def intro: py_strip_fixed)
  show ?thesis
    unfolding sanitize_assistant_markdown_def Let_def
    using s st strip_marks_plain[OF s(1,2)] matchers_plain[OF p] collapse_nl_no_nl[OF s(2)]
    by simp
qed

lemma collapse_nl_hd: "xs = [] \<or> hd xs \<noteq> 10 \<Longrightarrow> collapse_nl xs = [] \<or> hd (collapse_nl xs) \<noteq> 10"
  by (cases xs) auto

lemma nl_block_no_triple:
  assumes "\<not> sublist [10, 10, 10] r" "r = [] \<or> hd r \<noteq> 10" "0 < n" "n \<le> 2"
  shows "\<not> sublist [10, 10, 10 :: nat] (replicate n 10 @ r)"
proof -
  have n: "n = 1 \<or> n = 2" using assms(3,4) by auto
  show ?thesis
  proof (cases r)
    case Nil
    then show ?thesis using n by (auto simp: sublist_Cons_right numeral_2_eq_2)
  next
    case (Cons d r')
    then show ?thesis using n assms(1,2) by (auto simp: sublist_Cons_right numeral_2_eq_2)
  qed
qed

lemma collapse_nl_no_triple: "\<not> sublist [10, 10, 10] (collapse_nl s)"
proof (induction s rule: collapse_nl.induct)
  case 1
  then show ?case by simp
next
  case (2 c cs)
  show ?case
  proof (cases "c = 10")
    case False
    then show ?thesis using 2 by (simp add: sublist_Cons_right)
  next
    case True
    define r where "r = collapse_nl (dropWhile (\<lambda>x. x = 10) cs)"
    define n where "n = length (takeWhile (\<lambda>x. x = 10) (c # cs))"
    have ih: "\<not> sublist [10, 10, 10] r" using 2 True unfolding r_def by simp
    have "dropWhile (\<lambda>x. x = 10) cs = [] \<or> hd (dropWhile (\<lambda>x. x = 10) cs) \<noteq> 10"
      by (metis (mono_tags) hd_dropWhile)
    then have hd: "r = [] \<or> hd r \<noteq> 10" unfolding r_def by (rule collapse_nl_hd)
    have n0: "0 < n" using True by (simp add: n_def)
    have eq: "collapse_nl (c # cs) = (if 3 \<le> n then replicate 2 10 else replicate n 10) @ r"
      using True by (simp add: r_def n_def numeral_2_eq_2)
    show ?thesis
      unfolding eq using nl_block_no_triple[OF ih hd] n0 by auto
  qed
qed

lemma sublist_no_triple: "sublist a b \<Longrightarrow> \<not> sublist [10, 10, 10] b \<Longrightarrow> \<not> sublist [10, 10, 10 :: nat] a"
  by (meson sublist_order.order_trans)

lemma py_rstrip_prefix: "prefix (py_rstrip t) t"
  unfolding py_rstrip_def by (metis suffix_to_prefix rev_rev_ident suffix_dropWhile)

subsection \<open>Properties\<close>

text \<open>C8: whatever the model wrote, the sanitised prose is at most 900 code points,
  has no leading or trailing white space, and holds no run of three newlines.\<close>

theorem sanitize_bounds:
  "length (sanitize_assistant_markdown md) \<le> md_limit \<and>
   py_strip (sanitize_assistant_markdown md) = sanitize_assistant_markdown md \<and>
   \<not> sublist [10, 10, 10] (sanitize_assistant_markdown md)"
proof -
  have "\<not> sublist [10, 10, 10] (py_strip (collapse_nl t))" for t
    using py_strip_sublist collapse_nl_no_triple by (rule sublist_no_triple)
  moreover have "sublist (py_rstrip (take md_limit t)) t" for t
    by (meson prefix_imp_sublist prefix_order.order_trans py_rstrip_prefix take_is_prefix)
  ultimately have "\<not> sublist [10, 10, 10] (sanitize_assistant_markdown md)"
    unfolding sanitize_assistant_markdown_def Let_def by (auto dest: sublist_no_triple)
  then show ?thesis using sanitize_length sanitize_stripped by blast
qed

end
