(* ===== verification/Validator.thy ===== *)
theory Validator
  imports Book Markdown
begin

text \<open>
  The response validator and repairer of \<open>src/functions/atlas_chat.py\<close>:
  \<open>_build_synced_markdown\<close> (lines 475--512) and \<open>_validate_payload\<close>
  (lines 515--581). The validator reads the parsed model output, a \<open>pyval\<close>, and the
  catalog index \<open>by_id\<close>, and returns the response envelope. The build identifier
  \<open>ATLAS_CHAT_BUILD\<close> is a parameter.
\<close>

record recitem =
  rec_book_id :: pystr
  rec_reason :: pystr

record envelope =
  assistant_markdown :: pystr
  recommendations :: "recitem list"
  follow_up_questions :: "pystr list"
  actions :: "pyval list"
  build :: pystr

subsection \<open>Fixed messages\<close>

definition msg_no_match :: pystr where
  "msg_no_match =
     ascii ''I couldn'' @ [8217] @ ascii ''t find a match for that in the Atlas catalog yet. ''
     @ ascii ''Try a different country/region or tell me a different vibe, and I'' @ [8217]
     @ ascii ''ll stick to what'' @ [8217] @ ascii ''s in the list.''"

definition msg_prompt :: pystr where
  "msg_prompt =
     ascii ''Tell me what kind of book you're looking for '' @ [8212]
     @ ascii '' vibe, setting, themes, anything. I'' @ [8217]
     @ ascii ''ll only recommend from the Atlas list.''"

subsection \<open>Synthesised prose\<close>

text \<open>\<open>_fmt\<close>: the stripped title and author of a catalog book, empty when absent.\<close>

definition fmt :: "'a catalog_index \<Rightarrow> pystr \<Rightarrow> pystr \<times> pystr" where
  "fmt by_id bid = (case by_id bid of
       Some b \<Rightarrow> (py_strip (title b), py_strip (author b))
     | None \<Rightarrow> ([], []))"

definition bold_by :: "pystr \<Rightarrow> pystr \<Rightarrow> pystr" where
  "bold_by t a = ascii ''**'' @ t @ ascii ''** by '' @ a"

definition top_pick :: "pystr \<Rightarrow> pystr \<Rightarrow> pystr" where
  "top_pick t1 a1 =
     (if t1 \<noteq> [] \<and> a1 \<noteq> []
      then sanitize_assistant_markdown (ascii ''My top pick is '' @ bold_by t1 a1 @ ascii ''.'')
      else [])"

definition build_synced_markdown :: "'a catalog_index \<Rightarrow> recitem list \<Rightarrow> pystr" where
  "build_synced_markdown by_id clean_recs =
     (case clean_recs of
        [] \<Rightarrow> []
      | [r] \<Rightarrow>
          (let (t, a) = fmt by_id (rec_book_id r); reason = py_strip (rec_reason r)
           in if t \<noteq> [] \<and> a \<noteq> []
              then (if reason \<noteq> []
                    then sanitize_assistant_markdown
                           (ascii ''I recommend '' @ bold_by t a @ ascii ''. '' @ reason)
                    else sanitize_assistant_markdown (ascii ''I recommend '' @ bold_by t a @ ascii ''.''))
              else [])
      | r1 # r2 # rest \<Rightarrow>
          (let (t1, a1) = fmt by_id (rec_book_id r1); (t2, a2) = fmt by_id (rec_book_id r2)
           in case rest of
                [] \<Rightarrow>
                  (if t1 \<noteq> [] \<and> a1 \<noteq> [] \<and> t2 \<noteq> [] \<and> a2 \<noteq> []
                   then sanitize_assistant_markdown
                          (ascii ''Two good picks: '' @ bold_by t1 a1 @ ascii '' and '' @ bold_by t2 a2
                           @ ascii ''.'')
                   else top_pick t1 a1)
              | r3 # _ \<Rightarrow>
                  (let (t3, a3) = fmt by_id (rec_book_id r3)
                   in if t1 \<noteq> [] \<and> a1 \<noteq> [] \<and> t2 \<noteq> [] \<and> a2 \<noteq> [] \<and> t3 \<noteq> [] \<and> a3 \<noteq> []
                      then sanitize_assistant_markdown
                             (ascii ''Three picks: '' @ bold_by t1 a1 @ ascii '', '' @ bold_by t2 a2
                              @ ascii '', and '' @ bold_by t3 a3 @ ascii ''.'')
                      else top_pick t1 a1)))"

subsection \<open>The validator\<close>

text \<open>The filtering loop of lines 522--531, with the set \<open>seen_ids\<close>.\<close>

fun clean_recs_loop :: "'a catalog_index \<Rightarrow> pystr set \<Rightarrow> pyval list \<Rightarrow> recitem list" where
  "clean_recs_loop by_id seen [] = []"
| "clean_recs_loop by_id seen (r # rs) =
     (case r of
        PDict d \<Rightarrow>
          (case dict_get d (ascii ''book_id'') of
             PStr bid \<Rightarrow>
               (if by_id bid \<noteq> None \<and> bid \<notin> seen
                then \<lparr>rec_book_id = bid,
                      rec_reason = take 240 (py_strip (py_str (py_or (dict_get d (ascii ''reason'')) (PStr []))))\<rparr>
                     # clean_recs_loop by_id (insert bid seen) rs
                else clean_recs_loop by_id seen rs)
           | _ \<Rightarrow> clean_recs_loop by_id seen rs)
      | _ \<Rightarrow> clean_recs_loop by_id seen rs)"

text \<open>Lines 533--536.\<close>

definition limit_recs :: "bool \<Rightarrow> recitem list \<Rightarrow> recitem list" where
  "limit_recs wants_single recs =
     (let recs = (if wants_single \<and> length recs > 1 then take 1 recs else recs)
      in if \<not> wants_single \<and> length recs > 3 then take 3 recs else recs)"

text \<open>The loop of lines 539--541, run over \<open>fups[:2]\<close>.\<close>

fun clean_fups :: "pyval list \<Rightarrow> pystr list" where
  "clean_fups [] = []"
| "clean_fups (q # qs) =
     (case q of
        PStr s \<Rightarrow> (if py_strip s \<noteq> [] then take 180 (py_strip s) # clean_fups qs else clean_fups qs)
      | _ \<Rightarrow> clean_fups qs)"

text \<open>The consistency check of lines 555--562: every recommended book with a title has
  its normalised title inside the normalised prose.\<close>

definition titles_mentioned :: "'a catalog_index \<Rightarrow> recitem list \<Rightarrow> pystr \<Rightarrow> bool" where
  "titles_mentioned by_id clean_recs md =
     (let md_norm = normalize_text md
      in list_all (\<lambda>r. let t = fst (fmt by_id (rec_book_id r))
                       in t = [] \<or> py_in (normalize_text t) md_norm) clean_recs)"

definition field_of :: "pyval \<Rightarrow> pystr \<Rightarrow> pyval" where
  "field_of parsed k = (case parsed of PDict d \<Rightarrow> dict_get d k | _ \<Rightarrow> PNone)"

definition list_field :: "pyval \<Rightarrow> pystr \<Rightarrow> pyval list" where
  "list_field parsed k = (case field_of parsed k of PList xs \<Rightarrow> xs | _ \<Rightarrow> [])"

text \<open>Lines 554--573: keep the model's prose when it names every recommended title,
  otherwise the synthesised prose when there is one; the prompt message when nothing
  is left.\<close>

definition sync_markdown :: "'a catalog_index \<Rightarrow> recitem list \<Rightarrow> pystr \<Rightarrow> pystr" where
  "sync_markdown by_id clean md =
     (let md = (if md \<noteq> []
                then (if titles_mentioned by_id clean md then md
                      else (let fb = build_synced_markdown by_id clean in if fb \<noteq> [] then fb else md))
                else (let fb = build_synced_markdown by_id clean in if fb \<noteq> [] then fb else md))
      in if md = [] then msg_prompt else md)"

text \<open>Line 518: the model's prose, sanitised.\<close>

definition raw_markdown :: "pyval \<Rightarrow> pystr" where
  "raw_markdown parsed =
     sanitize_assistant_markdown
       (py_str (py_or (case parsed of PDict d \<Rightarrow> dict_get d (ascii ''assistant_markdown'')
                                    | _ \<Rightarrow> PStr [])
                      (PStr [])))"

definition validate_payload :: "pyval \<Rightarrow> 'a catalog_index \<Rightarrow> pystr \<Rightarrow> pystr \<Rightarrow> envelope" where
  "validate_payload parsed by_id user_text build_id =
     (let wants_single = user_wants_single user_text;
          md = raw_markdown parsed;
          recs = list_field parsed (ascii ''recommendations'');
          fups = list_field parsed (ascii ''follow_up_questions'');
          clean = limit_recs wants_single (clean_recs_loop by_id {} recs);
          cfups = clean_fups (take 2 fups)
      in if clean = []
         then \<lparr>assistant_markdown = (if md = [] then msg_no_match else md),
               recommendations = [], follow_up_questions = cfups, actions = [], build = build_id\<rparr>
         else \<lparr>assistant_markdown = sync_markdown by_id clean md, recommendations = clean,
               follow_up_questions = cfups, actions = [], build = build_id\<rparr>)"

subsection \<open>What the validator promises\<close>

text \<open>One entry of the model's \<open>recommendations\<close>: the \<open>book_id\<close> when the entry
  is an object whose \<open>book_id\<close> is a string, and its cleaned reason.\<close>

definition entry_id :: "pyval \<Rightarrow> pystr option" where
  "entry_id r = (case r of
       PDict d \<Rightarrow> (case dict_get d (ascii ''book_id'') of PStr b \<Rightarrow> Some b | _ \<Rightarrow> None)
     | _ \<Rightarrow> None)"

definition entry_reason :: "pyval \<Rightarrow> pystr" where
  "entry_reason r = (case r of
       PDict d \<Rightarrow> take 240 (py_strip (py_str (py_or (dict_get d (ascii ''reason'')) (PStr []))))
     | _ \<Rightarrow> [])"

fun proposed_ids :: "pyval list \<Rightarrow> pystr list" where
  "proposed_ids [] = []"
| "proposed_ids (r # rs) = (case entry_id r of Some b \<Rightarrow> b # proposed_ids rs | None \<Rightarrow> proposed_ids rs)"

text \<open>The abstract view of the filtering loops: the entries naming a catalog book, each
  kept only at the first entry of its key, and the string entries of a list.\<close>

fun dedup_by :: "('a \<Rightarrow> 'b) \<Rightarrow> 'a list \<Rightarrow> 'a list" where
  "dedup_by f [] = []"
| "dedup_by f (x # xs) = x # dedup_by f (filter (\<lambda>y. f y \<noteq> f x) xs)"

definition catalog_entry :: "'a catalog_index \<Rightarrow> pyval \<Rightarrow> bool" where
  "catalog_entry by_id r = (case entry_id r of Some b \<Rightarrow> by_id b \<noteq> None | None \<Rightarrow> False)"

definition rec_of_entry :: "pyval \<Rightarrow> recitem" where
  "rec_of_entry r = \<lparr>rec_book_id = the (entry_id r), rec_reason = entry_reason r\<rparr>"

fun str_items :: "pyval list \<Rightarrow> pystr list" where
  "str_items [] = []"
| "str_items (v # vs) = (case v of PStr s \<Rightarrow> s # str_items vs | _ \<Rightarrow> str_items vs)"

text \<open>The response contract of the spec (section 3 and 4.5): non-empty prose of at most
  900 code points, catalog books only, no book twice, at most one or three of them, at
  most two non-empty follow-up questions of at most 180 code points, no action.\<close>

definition envelope_ok :: "'a catalog_index \<Rightarrow> bool \<Rightarrow> envelope \<Rightarrow> bool" where
  "envelope_ok by_id single e \<longleftrightarrow>
     assistant_markdown e \<noteq> [] \<and> length (assistant_markdown e) \<le> md_limit \<and>
     list_all (\<lambda>r. by_id (rec_book_id r) \<noteq> None \<and> length (rec_reason r) \<le> 240) (recommendations e) \<and>
     distinct (map rec_book_id (recommendations e)) \<and>
     length (recommendations e) \<le> (if single then 1 else 3) \<and>
     length (follow_up_questions e) \<le> 2 \<and>
     list_all (\<lambda>q. q \<noteq> [] \<and> length q \<le> 180) (follow_up_questions e) \<and>
     actions e = []"

text \<open>The envelope as the JSON object \<open>json.dumps\<close> sends (lines 575--581); what a
  client that replays the response would hand back to the validator.\<close>

definition envelope_json :: "envelope \<Rightarrow> pyval" where
  "envelope_json e = PDict
     [(ascii ''assistant_markdown'', PStr (assistant_markdown e)),
      (ascii ''recommendations'',
         PList (map (\<lambda>r. PDict [(ascii ''book_id'', PStr (rec_book_id r)),
                                 (ascii ''reason'', PStr (rec_reason r))]) (recommendations e))),
      (ascii ''follow_up_questions'', PList (map PStr (follow_up_questions e))),
      (ascii ''actions'', PList (actions e)),
      (ascii ''build'', PStr (build e))]"

subsection \<open>An example catalog\<close>

text \<open>Three books and a helper for the model's recommendation entries, used by the
  witnesses below.\<close>

definition demo_book :: book_src where
  "demo_book = \<lparr>book_id = ascii ''b1'', title = ascii ''Purple Hibiscus'',
     author = ascii ''Chimamanda Ngozi Adichie'', summary = [], description = [], year = [],
     page_count = 0, tags = [], categories = [], country_override = PStr [],
     setting_country = PList [], author_country = PList [], author_origin = PList [],
     cover_url = [], bookshop_url = []\<rparr>"

definition demo_index :: "unit catalog_index" where
  "demo_index = [ascii ''b1'' \<mapsto> demo_book, ascii ''b2'' \<mapsto> demo_book\<lparr>book_id := ascii ''b2''\<rparr>,
                 ascii ''b3'' \<mapsto> demo_book\<lparr>book_id := ascii ''b3''\<rparr>]"

definition rec_entry :: "pystr \<Rightarrow> pystr \<Rightarrow> pyval" where
  "rec_entry bid r = PDict [(ascii ''book_id'', PStr bid), (ascii ''reason'', PStr r)]"

declare fmt_def [eval_simps] bold_by_def [eval_simps] top_pick_def [eval_simps]
  build_synced_markdown_def [eval_simps] limit_recs_def [eval_simps] titles_mentioned_def [eval_simps]
  field_of_def [eval_simps] list_field_def [eval_simps] sync_markdown_def [eval_simps]
  raw_markdown_def [eval_simps] validate_payload_def [eval_simps] entry_id_def [eval_simps]
  entry_reason_def [eval_simps] envelope_ok_def [eval_simps] envelope_json_def [eval_simps]
  msg_no_match_def [eval_simps] msg_prompt_def [eval_simps]

subsection \<open>Lemmas\<close>

lemma limit_recs_take [simp]: "limit_recs ws xs = take (if ws then 1 else 3) xs"
  by (simp add: limit_recs_def Let_def)

lemma top_pick_length: "length (top_pick t a) \<le> md_limit"
  by (simp add: top_pick_def sanitize_length)

lemma synced_length: "length (build_synced_markdown by_id rs) \<le> md_limit"
  unfolding build_synced_markdown_def
  by (auto simp: sanitize_length top_pick_length Let_def split: list.splits prod.splits)

lemma msg_lengths: "length msg_no_match \<le> md_limit" "length msg_prompt \<le> md_limit"
  by (simp_all add: msg_no_match_def msg_prompt_def md_limit_def)

lemma clean_recs_loop_Cons:
  "clean_recs_loop by_id seen (r # rs) =
     (case entry_id r of
        Some b \<Rightarrow> if by_id b \<noteq> None \<and> b \<notin> seen
                  then \<lparr>rec_book_id = b, rec_reason = entry_reason r\<rparr> # clean_recs_loop by_id (insert b seen) rs
                  else clean_recs_loop by_id seen rs
      | None \<Rightarrow> clean_recs_loop by_id seen rs)"
  by (simp add: entry_id_def entry_reason_def split: pyval.splits)

declare clean_recs_loop.simps(2) [simp del]

lemma clean_recs_loop_ids:
  "map rec_book_id (clean_recs_loop by_id seen rs) = dedup (filter (\<lambda>b. by_id b \<noteq> None \<and> b \<notin> seen) (proposed_ids rs))"
proof (induction rs arbitrary: seen)
  case Nil
  then show ?case by simp
next
  case (Cons r rs)
  then show ?case
    by (auto simp: clean_recs_loop_Cons conj_commute conj_left_commute split: option.splits)
qed

lemma clean_recs_loop_items:
  "x \<in> set (clean_recs_loop by_id seen rs) \<Longrightarrow> by_id (rec_book_id x) \<noteq> None \<and> rec_book_id x \<notin> seen \<and> length (rec_reason x) \<le> 240"
proof (induction rs arbitrary: seen)
  case Nil
  then show ?case by simp
next
  case (Cons r rs)
  then show ?case by (fastforce simp: clean_recs_loop_Cons entry_reason_def split: option.splits if_splits pyval.splits)
qed

lemma clean_fups_items: "q \<in> set (clean_fups qs) \<Longrightarrow> q \<noteq> [] \<and> length q \<le> 180"
  by (induction qs rule: clean_fups.induct) (auto split: pyval.splits if_splits)

lemma clean_fups_length: "length (clean_fups qs) \<le> length qs"
  by (induction qs rule: clean_fups.induct) (auto split: pyval.splits)

lemma clean_recs_distinct: "distinct (map rec_book_id (clean_recs_loop by_id seen rs))"
  by (simp add: clean_recs_loop_ids)

lemma validate_recommendations:
  "recommendations (validate_payload parsed by_id user_text build_id) =
     take (if user_wants_single user_text then 1 else 3)
       (clean_recs_loop by_id {} (list_field parsed (ascii ''recommendations'')))"
  by (simp add: validate_payload_def Let_def)

lemma validate_follow_ups:
  "follow_up_questions (validate_payload parsed by_id user_text build_id) =
     clean_fups (take 2 (list_field parsed (ascii ''follow_up_questions'')))"
  by (simp add: validate_payload_def Let_def)

lemma validate_actions_build:
  "actions (validate_payload parsed by_id user_text build_id) = []"
  "build (validate_payload parsed by_id user_text build_id) = build_id"
  by (simp_all add: validate_payload_def Let_def)

lemma msgs_nonempty [simp]: "msg_no_match \<noteq> []" "msg_prompt \<noteq> []"
  by (simp_all add: msg_no_match_def msg_prompt_def)

lemma sync_markdown_bounds:
  "length md \<le> md_limit \<Longrightarrow> sync_markdown by_id clean md \<noteq> [] \<and> length (sync_markdown by_id clean md) \<le> md_limit"
  unfolding sync_markdown_def Let_def
  using msg_lengths synced_length[of by_id clean] by auto

lemma validate_markdown:
  "assistant_markdown (validate_payload parsed by_id user_text build_id) =
     (let md = raw_markdown parsed;
          clean = take (if user_wants_single user_text then 1 else 3)
                    (clean_recs_loop by_id {} (list_field parsed (ascii ''recommendations'')))
      in if clean = [] then (if md = [] then msg_no_match else md) else sync_markdown by_id clean md)"
  by (simp add: validate_payload_def raw_markdown_def Let_def)

lemma markdown_choice_bounds:
  assumes "length md \<le> md_limit"
  shows "(if clean = [] then (if md = [] then msg_no_match else md) else sync_markdown by_id clean md) \<noteq> [] \<and>
         length (if clean = [] then (if md = [] then msg_no_match else md) else sync_markdown by_id clean md) \<le> md_limit"
  using assms msg_lengths sync_markdown_bounds[OF assms] by auto

lemma validate_markdown_bounds:
  "assistant_markdown (validate_payload parsed by_id user_text build_id) \<noteq> [] \<and>
   length (assistant_markdown (validate_payload parsed by_id user_text build_id)) \<le> md_limit"
  unfolding validate_markdown Let_def
  by (rule markdown_choice_bounds) (simp add: raw_markdown_def sanitize_length)

lemma take_clean_items:
  "list_all (\<lambda>r. by_id (rec_book_id r) \<noteq> None \<and> length (rec_reason r) \<le> 240) (take n (clean_recs_loop by_id seen rs))"
  unfolding list_all_iff by (metis in_set_takeD clean_recs_loop_items)

lemma take_clean_distinct: "distinct (map rec_book_id (take n (clean_recs_loop by_id seen rs)))"
  by (simp add: take_map [symmetric] clean_recs_distinct)

lemma clean_fups_ok:
  "length (clean_fups (take 2 qs)) \<le> 2 \<and> list_all (\<lambda>q. q \<noteq> [] \<and> length q \<le> 180) (clean_fups (take 2 qs))"
  using clean_fups_length[of "take 2 qs"] clean_fups_items[of _ "take 2 qs"]
  by (auto simp: list_all_iff)

lemma demo_proposes_catalog_books: "list_ex (\<lambda>b. demo_index b \<noteq> None)
     (proposed_ids (list_field (PDict [(ascii ''recommendations'',
        PList [rec_entry (ascii ''b1'') (ascii ''a''), rec_entry (ascii ''b2'') (ascii ''b''),
               rec_entry (ascii ''b3'') (ascii ''c'')])]) (ascii ''recommendations'')))"
  by (simp add: eval_simps rec_entry_def demo_index_def)

lemma demo_single_request: "user_wants_single (ascii ''Just one book please'')"
  by (simp add: eval_simps)
lemma single_template_plain:
  assumes "t \<noteq> []" "a \<noteq> []" "10 \<notin> set t" "10 \<notin> set a" "10 \<notin> set r"
    and "py_strip r = r" "length r \<le> 240" "length t + length a \<le> 600"
  shows "plain_line (ascii ''I recommend '' @ bold_by t a @ (if r = [] then ascii ''.'' else ascii ''. '' @ r))"
proof -
  have last: "\<not> py_isspace (last (ascii ''I recommend '' @ bold_by t a @ (if r = [] then ascii ''.'' else ascii ''. '' @ r)))"
  proof (cases "r = []")
    case True
    then show ?thesis by (simp add: bold_by_def py_isspace_def)
  next
    case False
    then have "\<not> py_isspace (last r)" using py_strip_last[of r] assms(6) by simp
    with False show ?thesis by simp
  qed
  show ?thesis using assms last
    by (auto simp: plain_line_def bold_by_def md_limit_def py_isspace_def is_ascii_digit_def)
qed

lemma clean_recs_loop_refine:
  "clean_recs_loop by_id seen rs =
     map rec_of_entry (dedup_by entry_id
       (filter (\<lambda>r. case entry_id r of Some b \<Rightarrow> by_id b \<noteq> None \<and> b \<notin> seen | None \<Rightarrow> False) rs))"
proof (induction rs arbitrary: seen)
  case Nil
  then show ?case by simp
next
  case (Cons r rs)
  show ?case
  proof (cases "entry_id r")
    case None
    then show ?thesis using Cons.IH by (simp add: clean_recs_loop_Cons)
  next
    case (Some b)
    have f: "filter (\<lambda>y. entry_id y \<noteq> Some b)
               (filter (\<lambda>r. case entry_id r of Some b \<Rightarrow> by_id b \<noteq> None \<and> b \<notin> seen | None \<Rightarrow> False) rs) =
             filter (\<lambda>r. case entry_id r of Some c \<Rightarrow> by_id c \<noteq> None \<and> c \<notin> insert b seen | None \<Rightarrow> False) rs"
      by (auto simp: filter_filter intro!: filter_cong split: option.splits)
    show ?thesis using Some Cons.IH f by (simp add: clean_recs_loop_Cons rec_of_entry_def)
  qed
qed

lemma clean_fups_refine:
  "clean_fups qs = map (\<lambda>s. take 180 (py_strip s)) (filter (\<lambda>s. py_strip s \<noteq> []) (str_items qs))"
  by (induction qs rule: clean_fups.induct) (auto split: pyval.splits)

lemma validate_payload_ok:
  "envelope_ok by_id (user_wants_single user_text) (validate_payload parsed by_id user_text build_id)"
  unfolding envelope_ok_def validate_recommendations validate_follow_ups validate_actions_build
  by (simp only: validate_markdown_bounds take_clean_items take_clean_distinct clean_fups_ok
      simp_thms if_bool_eq_conj) (simp add: list_all_length)

subsection \<open>Properties\<close>

text \<open>C1: for every parsed model output (any Python value, malformed or not), every
  catalog and every user text, the validator returns a well-formed envelope: non-empty
  prose of at most 900 code points, only catalog books, each at most once, at most one
  recommendation when the user asked for one and at most three otherwise, reasons of at
  most 240 code points, at most two non-empty follow-up questions of at most 180, and no
  action.\<close>

theorem validate_payload_envelope_ok:
  "envelope_ok by_id (user_wants_single user_text) (validate_payload parsed by_id user_text build_id)"
  by (rule validate_payload_ok)


text \<open>C2: the validator refines an abstract specification: the recommended book IDs are
  the first one (single intent) or three of the catalog IDs the model proposed, each kept
  at its first occurrence, in the model's order.\<close>

theorem validate_recommendations_refine:
  "map rec_book_id (recommendations (validate_payload parsed by_id user_text build_id)) =
     take (if user_wants_single user_text then 1 else 3)
       (dedup (filter (\<lambda>b. by_id b \<noteq> None) (proposed_ids (list_field parsed (ascii ''recommendations'')))))"
  unfolding validate_recommendations take_map [symmetric] clean_recs_loop_ids by simp

text \<open>C3: when the user asks for a single book and the model proposes at least one
  catalog book, exactly one recommendation is returned.\<close>

theorem validate_single_intent:
  assumes "user_wants_single user_text"
    and "list_ex (\<lambda>b. by_id b \<noteq> None) (proposed_ids (list_field parsed (ascii ''recommendations'')))"
  shows "length (recommendations (validate_payload parsed by_id user_text build_id)) = 1"
proof -
  let ?rs = "list_field parsed (ascii ''recommendations'')"
  have "filter (\<lambda>b. by_id b \<noteq> None) (proposed_ids ?rs) \<noteq> []"
    using assms(2) by (simp add: list_ex_iff filter_empty_conv)
  moreover have "map rec_book_id (clean_recs_loop by_id {} ?rs) =
                   dedup (filter (\<lambda>b. by_id b \<noteq> None) (proposed_ids ?rs))"
    using clean_recs_loop_ids [of by_id "{}" ?rs] by simp
  ultimately have "map rec_book_id (clean_recs_loop by_id {} ?rs) \<noteq> []" by simp
  then obtain x xs where "clean_recs_loop by_id {} ?rs = x # xs" by (cases "clean_recs_loop by_id {} ?rs") auto
  then show ?thesis using assms(1) by (simp add: validate_recommendations)
qed

theorem validate_single_intent_witness:
  "user_wants_single (ascii ''Just one book please'') \<and>
   list_ex (\<lambda>b. demo_index b \<noteq> None)
     (proposed_ids (list_field (PDict [(ascii ''recommendations'',
        PList [rec_entry (ascii ''b1'') (ascii ''a''), rec_entry (ascii ''b2'') (ascii ''b''),
               rec_entry (ascii ''b3'') (ascii ''c'')])]) (ascii ''recommendations''))) \<and>
   length (recommendations (validate_payload (PDict [(ascii ''recommendations'',
        PList [rec_entry (ascii ''b1'') (ascii ''a''), rec_entry (ascii ''b2'') (ascii ''b''),
               rec_entry (ascii ''b3'') (ascii ''c'')])]) demo_index (ascii ''Just one book please'') [])) = 1"
  by (intro conjI demo_single_request demo_proposes_catalog_books validate_single_intent [OF demo_single_request demo_proposes_catalog_books])

text \<open>C4: when the model returns no prose and one catalog book whose title and author
  are present (single-line, of moderate length), the validator synthesises the prose
  "I recommend **Title** by Author. Reason" naming that book.\<close>

theorem validate_synthesises_prose:
  assumes "list_field parsed (ascii ''recommendations'') =
             [PDict [(ascii ''book_id'', PStr bid), (ascii ''reason'', PStr rsn)]]"
    and "raw_markdown parsed = []"
    and "by_id bid = Some b"
    and "py_strip (title b) \<noteq> []" "py_strip (author b) \<noteq> []"
    and "10 \<notin> set (title b)" "10 \<notin> set (author b)" "10 \<notin> set rsn"
    and "length (title b) + length (author b) \<le> 600"
  shows "assistant_markdown (validate_payload parsed by_id user_text build_id) =
           (let t = py_strip (title b); a = py_strip (author b); r = py_strip (take 240 (py_strip rsn))
            in ascii ''I recommend '' @ bold_by t a @ (if r = [] then ascii ''.'' else ascii ''. '' @ r))"
proof -
  define t where "t = py_strip (title b)"
  define a where "a = py_strip (author b)"
  define r where "r = py_strip (take 240 (py_strip rsn))"
  have reason: "py_strip (py_str (py_or (PStr rsn) (PStr []))) = py_strip rsn"
    by (simp add: py_or_def py_str_def)
  have clean: "clean_recs_loop by_id {} (list_field parsed (ascii ''recommendations'')) =
                 [\<lparr>rec_book_id = bid, rec_reason = take 240 (py_strip rsn)\<rparr>]"
    using assms(1,3) reason by (simp add: clean_recs_loop.simps dict_get_def)
  have sub: "10 \<notin> set t" "10 \<notin> set a" "10 \<notin> set r"
    using assms(6-8) set_py_strip set_take_subset unfolding t_def a_def r_def by (metis subsetD)+
  have lens: "length r \<le> 240" "length t + length a \<le> 600"
    using assms(9) length_py_strip_le[of "take 240 (py_strip rsn)"] length_py_strip_le[of "title b"]
      length_py_strip_le[of "author b"] unfolding t_def a_def r_def by auto
  have "plain_line (ascii ''I recommend '' @ bold_by t a @ (if r = [] then ascii ''.'' else ascii ''. '' @ r))"
    using single_template_plain[OF assms(4,5)[folded t_def a_def] sub _ lens] unfolding r_def by simp
  then have fb: "build_synced_markdown by_id [\<lparr>rec_book_id = bid, rec_reason = take 240 (py_strip rsn)\<rparr>] =
           ascii ''I recommend '' @ bold_by t a @ (if r = [] then ascii ''.'' else ascii ''. '' @ r)"
    using assms(3-5) sanitize_plain
    by (auto simp: build_synced_markdown_def fmt_def t_def a_def r_def)
  show ?thesis
    using clean assms(2) fb
    by (simp add: validate_markdown sync_markdown_def t_def a_def r_def Let_def)
qed

theorem validate_synthesises_prose_witness:
  "list_field (PDict [(ascii ''recommendations'', PList [rec_entry (ascii ''b1'') (ascii ''x'')]),
                      (ascii ''assistant_markdown'', PStr [])]) (ascii ''recommendations'') =
     [PDict [(ascii ''book_id'', PStr (ascii ''b1'')), (ascii ''reason'', PStr (ascii ''x''))]] \<and>
   assistant_markdown (validate_payload
     (PDict [(ascii ''recommendations'', PList [rec_entry (ascii ''b1'') (ascii ''x'')]),
             (ascii ''assistant_markdown'', PStr [])]) demo_index (ascii ''hi'') []) =
     ascii ''I recommend **Purple Hibiscus** by Chimamanda Ngozi Adichie. x''"
proof -
  let ?p = "PDict [(ascii ''recommendations'', PList [rec_entry (ascii ''b1'') (ascii ''x'')]),
                   (ascii ''assistant_markdown'', PStr [])]"
  have h1: "list_field ?p (ascii ''recommendations'') =
     [PDict [(ascii ''book_id'', PStr (ascii ''b1'')), (ascii ''reason'', PStr (ascii ''x''))]]"
    by (simp add: eval_simps rec_entry_def)
  have h2: "raw_markdown ?p = []" by (simp add: eval_simps)
  have h3: "demo_index (ascii ''b1'') = Some demo_book" by (simp add: demo_index_def)
  have h4: "py_strip (title demo_book) \<noteq> []" "py_strip (author demo_book) \<noteq> []"
    "10 \<notin> set (title demo_book)" "10 \<notin> set (author demo_book)" "10 \<notin> set (ascii ''x'')"
    "length (title demo_book) + length (author demo_book) \<le> 600"
    by (simp_all add: eval_simps demo_book_def)
  have "assistant_markdown (validate_payload ?p demo_index (ascii ''hi'') []) =
          ascii ''I recommend **Purple Hibiscus** by Chimamanda Ngozi Adichie. x''"
    using validate_synthesises_prose [where parsed = ?p and bid = "ascii ''b1''" and rsn = "ascii ''x''"
        and by_id = demo_index and b = demo_book and user_text = "ascii ''hi''" and build_id = "[]",
        OF h1 h2 h3 h4]
    by (simp add: eval_simps demo_book_def)
  with h1 show ?thesis by simp
qed

text \<open>C5: a recommendation whose book is not in the catalog is dropped; when the model
  proposed no catalog book at all, no recommendation is returned and the prose is the
  model's own (sanitised) or, when that is empty, the fixed no-match message.\<close>

theorem validate_unknown_ids:
  assumes "list_all (\<lambda>b. by_id b = None) (proposed_ids (list_field parsed (ascii ''recommendations'')))"
  shows "recommendations (validate_payload parsed by_id user_text build_id) = [] \<and>
         assistant_markdown (validate_payload parsed by_id user_text build_id) =
           (if raw_markdown parsed = [] then msg_no_match else raw_markdown parsed)"
proof -
  let ?rs = "list_field parsed (ascii ''recommendations'')"
  have f: "filter (\<lambda>b. by_id b \<noteq> None) (proposed_ids ?rs) = []"
    using assms by (simp add: list_all_iff filter_empty_conv)
  have "map rec_book_id (clean_recs_loop by_id {} ?rs) = []"
    using clean_recs_loop_ids [of by_id "{}" ?rs] f by simp
  then have e: "clean_recs_loop by_id {} ?rs = []" by simp
  show ?thesis using e by (simp add: validate_recommendations validate_markdown)
qed

theorem validate_unknown_ids_witness:
  "list_all (\<lambda>b. demo_index b = None)
     (proposed_ids (list_field (PDict [(ascii ''assistant_markdown'', PStr []),
        (ascii ''recommendations'', PList [rec_entry (ascii ''nope'') (ascii ''x'')])]) (ascii ''recommendations''))) \<and>
   recommendations (validate_payload (PDict [(ascii ''assistant_markdown'', PStr []),
        (ascii ''recommendations'', PList [rec_entry (ascii ''nope'') (ascii ''x'')])]) demo_index (ascii ''hi'') []) = [] \<and>
   assistant_markdown (validate_payload (PDict [(ascii ''assistant_markdown'', PStr []),
        (ascii ''recommendations'', PList [rec_entry (ascii ''nope'') (ascii ''x'')])]) demo_index (ascii ''hi'') []) =
     msg_no_match"
proof -
  let ?p = "PDict [(ascii ''assistant_markdown'', PStr []),
        (ascii ''recommendations'', PList [rec_entry (ascii ''nope'') (ascii ''x'')])]"
  have h: "list_all (\<lambda>b. demo_index b = None) (proposed_ids (list_field ?p (ascii ''recommendations'')))"
    by (simp add: eval_simps rec_entry_def demo_index_def)
  have r: "raw_markdown ?p = []" by (simp add: eval_simps)
  show ?thesis using h validate_unknown_ids [OF h, of "ascii ''hi''" "[]"] r by simp
qed

text \<open>C6: the validator refines an abstract specification of the recommendations
  with their reasons: the model's entries that name a catalog book, each book kept at
  its first entry with that entry's cleaned reason (empty when the entry has none,
  where the spec says such entries are dropped), the first one or three of them.\<close>

theorem validate_reasons_refine:
  "recommendations (validate_payload parsed by_id user_text build_id) =
     take (if user_wants_single user_text then 1 else 3)
       (map rec_of_entry (dedup_by entry_id
          (filter (catalog_entry by_id) (list_field parsed (ascii ''recommendations'')))))"
proof -
  have "(\<lambda>r. case entry_id r of Some b \<Rightarrow> by_id b \<noteq> None \<and> b \<notin> {} | None \<Rightarrow> False) = catalog_entry by_id"
    by (auto simp: catalog_entry_def split: option.splits)
  then show ?thesis unfolding validate_recommendations clean_recs_loop_refine by simp
qed

text \<open>C7: on every path, the no-match path included, the follow-up questions are the
  model's first two entries, then only the strings that are not blank, stripped and cut
  to 180 code points: an empty first entry hides the third, where the spec keeps the
  first two non-empty strings, and the no-match response keeps them, where the spec
  says they are empty.\<close>

theorem validate_follow_ups_refine:
  "follow_up_questions (validate_payload parsed by_id user_text build_id) =
     map (\<lambda>s. take 180 (py_strip s))
       (filter (\<lambda>s. py_strip s \<noteq> []) (str_items (take 2 (list_field parsed (ascii ''follow_up_questions'')))))"
  unfolding validate_follow_ups clean_fups_refine ..

subsection \<open>A concrete run behind a finding\<close>

text \<open>The validator is not idempotent, contrary to the spec's testable property:
  the sanitiser removes one list marker per line, so prose "- - x" becomes "- x" on the
  first pass and "x" when the envelope is validated again.\<close>

theorem validate_not_idempotent:
  "assistant_markdown (validate_payload (PDict [(ascii ''assistant_markdown'', PStr (ascii ''- - x''))]) Map.empty user_text b) = ascii ''- x'' \<and>
   assistant_markdown (validate_payload (envelope_json (validate_payload
     (PDict [(ascii ''assistant_markdown'', PStr (ascii ''- - x''))]) Map.empty user_text b)) Map.empty user_text b) = ascii ''x''"
proof -
  have first: "validate_payload (PDict [(ascii ''assistant_markdown'', PStr (ascii ''- - x''))]) Map.empty user_text b
     = \<lparr>assistant_markdown = ascii ''- x'', recommendations = [], follow_up_questions = [], actions = [], build = b\<rparr>"
    by (simp add: eval_simps)
  show ?thesis unfolding first by (simp add: eval_simps)
qed

end
