(* ===== verification/Geo.thy ===== *)
theory Geo
  imports PyVal
begin

text \<open>
  The geography normaliser of \<open>src/functions/atlas_chat.py\<close>:
  \<open>_country_string_to_iso2\<close> (lines 61--93), \<open>_extract_iso2_candidates\<close>
  (lines 96--131) and \<open>_iso2_to_country_name\<close> (lines 134--145). The optional
  \<open>pycountry\<close> package is an interface: \<open>None\<close> when the import failed, otherwise
  the three look-ups the code makes, each returning the attribute it reads
  (\<open>alpha_2\<close> or \<open>name\<close>) or \<open>None\<close> when the look-up finds nothing or raises
  (the code catches every exception there).
\<close>

record country_db =
  get_alpha3 :: "pystr \<Rightarrow> pystr option"  \<comment> \<open>\<open>countries.get(alpha_3=x).alpha_2\<close>\<close>
  lookup_name :: "pystr \<Rightarrow> pystr option"  \<comment> \<open>\<open>countries.lookup(x).alpha_2\<close>\<close>
  get_alpha2_name :: "pystr \<Rightarrow> pystr option"  \<comment> \<open>\<open>countries.get(alpha_2=x).name\<close>\<close>

type_synonym pycountry = "country_db option"

text \<open>\<open>if c and getattr(c, "alpha_2", None): return str(c.alpha_2).upper()\<close>\<close>

definition found_code :: "pystr option \<Rightarrow> pystr option" where
  "found_code r = (case r of Some a \<Rightarrow> if a \<noteq> [] then Some (py_upper a) else None | None \<Rightarrow> None)"

definition underscore_dash_to_space :: "pystr \<Rightarrow> pystr" where
  "underscore_dash_to_space s = map (\<lambda>c. if c = 95 \<or> c = 45 then 32 else c) s"

definition country_string_to_iso2 :: "pycountry \<Rightarrow> pyval \<Rightarrow> pystr option" where
  "country_string_to_iso2 pc val =
     (if val = PNone then None
      else
        (let raw = py_strip (py_str val) in
         if raw = [] then None
         else
           (let t = py_strip (underscore_dash_to_space (py_strip raw)) in
            if length t = 2 \<and> py_isalpha t then Some (py_upper t)
            else
              (let alpha3 = (if length t = 3 \<and> py_isalpha t
                             then (case pc of Some db \<Rightarrow> found_code (get_alpha3 db (py_upper t))
                                            | None \<Rightarrow> None)
                             else None)
               in case alpha3 of
                    Some c \<Rightarrow> Some c
                  | None \<Rightarrow> (case pc of Some db \<Rightarrow> found_code (lookup_name db raw) | None \<Rightarrow> None)))))"

text \<open>\<open>_add\<close>: the code of one value, as a list of zero or one element.\<close>

definition add_iso :: "pycountry \<Rightarrow> pyval \<Rightarrow> pystr list" where
  "add_iso pc x = (case country_string_to_iso2 pc x of Some c \<Rightarrow> if c \<noteq> [] then [c] else [] | None \<Rightarrow> [])"

definition iso_keys :: "pystr list" where
  "iso_keys = [ascii ''iso2'', ascii ''code'', ascii ''country'', ascii ''value'', ascii ''name'']"

definition is_sep :: "cp \<Rightarrow> bool" where
  "is_sep c \<longleftrightarrow> c = 44 \<or> c = 59 \<or> c = 124 \<or> c = 47"

text \<open>Lines 104--122: the list \<open>out\<close> before duplicates are removed.\<close>

definition raw_candidates :: "pycountry \<Rightarrow> pyval \<Rightarrow> pystr list" where
  "raw_candidates pc val =
     (case val of
        PDict d \<Rightarrow>
          concat (map (\<lambda>k. if dict_has d k then add_iso pc (dict_get d k) else []) iso_keys)
          @ concat (map (\<lambda>(k, v). case v of
                                     PStr _ \<Rightarrow> add_iso pc v
                                   | PList vs \<Rightarrow> concat (map (add_iso pc) vs)
                                   | _ \<Rightarrow> []) d)
      | PList items \<Rightarrow> concat (map (add_iso pc) items)
      | PStr s \<Rightarrow> concat (map (\<lambda>p. add_iso pc (PStr p))
                      (filter (\<lambda>p. p \<noteq> []) (map py_strip (py_split is_sep s))))
      | _ \<Rightarrow> add_iso pc val)"

text \<open>Lines 124--130: the \<open>seen\<close>/\<open>uniq\<close> loop.\<close>

fun uniq_loop :: "pystr set \<Rightarrow> pystr list \<Rightarrow> pystr list" where
  "uniq_loop seen [] = []"
| "uniq_loop seen (x # xs) = (if x \<in> seen then uniq_loop seen xs else x # uniq_loop (insert x seen) xs)"

definition extract_iso2_candidates :: "pycountry \<Rightarrow> pyval \<Rightarrow> pystr list" where
  "extract_iso2_candidates pc val = uniq_loop {} (raw_candidates pc val)"

definition iso2_to_country_name :: "pycountry \<Rightarrow> pystr \<Rightarrow> pystr" where
  "iso2_to_country_name pc iso2 =
     (let code = py_upper (py_strip iso2) in
      if \<not> (length code = 2 \<and> py_isalpha code) then []
      else (case pc of
              Some db \<Rightarrow> (case get_alpha2_name db code of Some n \<Rightarrow> if n \<noteq> [] then n else code
                                                      | None \<Rightarrow> code)
            | None \<Rightarrow> code))"

text \<open>An ISO2 code as the spec describes it: two upper-case ASCII letters. A country
  table is well formed when every code it returns has that shape.\<close>

definition iso2_shape :: "pystr \<Rightarrow> bool" where
  "iso2_shape c \<longleftrightarrow> length c = 2 \<and> list_all is_ascii_upper c"

definition db_codes_ok :: "pycountry \<Rightarrow> bool" where
  "db_codes_ok pc = (case pc of None \<Rightarrow> True
     | Some db \<Rightarrow> (\<forall>x a. (get_alpha3 db x = Some a \<or> lookup_name db x = Some a) \<longrightarrow> a = [] \<or> iso2_shape a))"

text \<open>An example table, used by the witnesses.\<close>

definition demo_db :: country_db where
  "demo_db = \<lparr>get_alpha3 = [ascii ''USA'' \<mapsto> ascii ''US''],
              lookup_name = [ascii ''south africa'' \<mapsto> ascii ''ZA''],
              get_alpha2_name = [ascii ''US'' \<mapsto> ascii ''United States'']\<rparr>"

declare found_code_def [eval_simps] underscore_dash_to_space_def [eval_simps]
  country_string_to_iso2_def [eval_simps] add_iso_def [eval_simps] iso_keys_def [eval_simps]
  is_sep_def [eval_simps] raw_candidates_def [eval_simps] extract_iso2_candidates_def [eval_simps]
  iso2_to_country_name_def [eval_simps] iso2_shape_def [eval_simps]

subsection \<open>Lemmas\<close>

lemma uniq_loop_dedup: "uniq_loop seen xs = dedup (filter (\<lambda>x. x \<notin> seen) xs)"
proof (induction xs arbitrary: seen)
  case Nil
  then show ?case by simp
next
  case (Cons x xs)
  then show ?case by (simp add: conj_commute)
qed

lemma upper_cp_ascii_alpha:
  "x < 128 \<Longrightarrow> py_isalpha_cp x \<Longrightarrow> \<exists>y. upper_cp x = [y] \<and> is_ascii_upper y"
  by (auto simp: upper_cp_def py_isalpha_cp_def is_ascii_upper_def is_ascii_lower_def)

lemma py_upper_ascii_alpha:
  assumes "list_all (\<lambda>x. x < 128 \<and> py_isalpha_cp x) t"
  shows "length (py_upper t) = length t \<and> list_all is_ascii_upper (py_upper t)"
  using assms
proof (induction t)
  case Nil
  then show ?case by (simp add: py_upper_def)
next
  case (Cons x t)
  then obtain y where "upper_cp x = [y]" "is_ascii_upper y" using upper_cp_ascii_alpha by auto
  with Cons show ?case by (simp add: py_upper_def)
qed

lemma py_upper_iso2_shape: "iso2_shape a \<Longrightarrow> py_upper a = a"
proof -
  have "list_all is_ascii_upper a \<Longrightarrow> py_upper a = a" for a
    by (induction a) (auto simp: py_upper_def upper_cp_def is_ascii_upper_def is_ascii_lower_def)
  then show "iso2_shape a \<Longrightarrow> py_upper a = a" by (simp add: iso2_shape_def)
qed

lemma found_code_shape:
  "found_code r = Some c \<Longrightarrow> (\<And>a. r = Some a \<Longrightarrow> a = [] \<or> iso2_shape a) \<Longrightarrow> iso2_shape c"
  by (auto simp: found_code_def py_upper_iso2_shape split: option.splits if_splits)

lemma set_underscore_dash: "set (underscore_dash_to_space s) \<subseteq> set s \<union> {32}"
  by (auto simp: underscore_dash_to_space_def)

lemma demo_db_codes_ok: "db_codes_ok (Some demo_db)"
  by (auto simp: db_codes_ok_def demo_db_def eval_simps split: if_splits)

lemma string_to_iso2_shape:
  assumes "db_codes_ok pc" and "list_all (\<lambda>x. x < 128) (py_str v)"
    and "country_string_to_iso2 pc v = Some c"
  shows "iso2_shape c"
proof -
  define raw where "raw = py_strip (py_str v)"
  define t where "t = py_strip (underscore_dash_to_space (py_strip raw))"
  have "set t \<subseteq> set (py_str v) \<union> {32}"
    using set_py_strip set_underscore_dash unfolding t_def raw_def by blast
  then have ascii_t: "list_all (\<lambda>x. x < 128) t" using assms(2) by (auto simp: list_all_iff)
  have db: "\<And>db a x. pc = Some db \<Longrightarrow> get_alpha3 db x = Some a \<or> lookup_name db x = Some a \<Longrightarrow> a = [] \<or> iso2_shape a"
    using assms(1) by (auto simp: db_codes_ok_def)
  show ?thesis
  proof (cases "length t = 2 \<and> py_isalpha t")
    case True
    then have "list_all (\<lambda>x. x < 128 \<and> py_isalpha_cp x) t"
      using ascii_t by (auto simp: py_isalpha_def list_all_iff)
    then have "iso2_shape (py_upper t)" using True py_upper_ascii_alpha by (simp add: iso2_shape_def)
    moreover have "c = py_upper t"
      using assms(3) True by (auto simp: country_string_to_iso2_def Let_def raw_def [symmetric] t_def [symmetric] split: if_splits)
    ultimately show ?thesis by simp
  next
    case False
    with assms(3) obtain db where pc: "pc = Some db" and
      "found_code (get_alpha3 db (py_upper t)) = Some c \<or> found_code (lookup_name db raw) = Some c"
      by (auto simp: country_string_to_iso2_def Let_def raw_def [symmetric] t_def [symmetric]
               split: if_splits option.splits)
    then show ?thesis using db[OF pc] found_code_shape by metis
  qed
qed

lemma add_iso_shape: "db_codes_ok pc \<Longrightarrow> pyval_ascii x \<Longrightarrow> list_all iso2_shape (add_iso pc x)"
  using string_to_iso2_shape[OF _ py_str_ascii] by (auto simp: add_iso_def split: option.splits)

lemma raw_candidates_shape:
  assumes pc: "db_codes_ok pc" and v: "pyval_ascii v"
  shows "list_all iso2_shape (raw_candidates pc v)"
proof (cases v)
  case (PDict d)
  have keys: "list_all iso2_shape (add_iso pc (dict_get d k))" for k
    using add_iso_shape[OF pc dict_get_ascii] v PDict by simp
  have "list_all iso2_shape (case w of PStr _ \<Rightarrow> add_iso pc w | PList vs \<Rightarrow> concat (map (add_iso pc) vs) | _ \<Rightarrow> [])"
    if "(k, w) \<in> set d" for k w
  proof -
    have w: "pyval_ascii w" using that v PDict by (auto simp: list_all_iff)
    show ?thesis
    proof (cases w)
      case (PStr x)
      then show ?thesis using add_iso_shape[OF pc w] by simp
    next
      case (PList vs)
      then show ?thesis using w add_iso_shape[OF pc] by (auto simp: list_all_iff)
    qed simp_all
  qed
  then show ?thesis using PDict keys by (auto simp: raw_candidates_def list_all_iff)
next
  case (PList items)
  then show ?thesis using v add_iso_shape[OF pc] by (auto simp: raw_candidates_def list_all_iff)
next
  case (PStr s)
  have "pyval_ascii (PStr p)" if "p \<in> set (map py_strip (py_split is_sep s))" for p
    using that v PStr set_py_strip py_split_set by (fastforce simp: list_all_iff)
  then have "list_all iso2_shape (add_iso pc (PStr p))" if "p \<in> set (map py_strip (py_split is_sep s))" for p
    using that add_iso_shape[OF pc] by blast
  then show ?thesis using PStr by (auto simp: raw_candidates_def list_all_iff)
qed (use add_iso_shape[OF pc v] in \<open>simp_all add: raw_candidates_def\<close>)

subsection \<open>Properties\<close>

text \<open>C9: for input text in ASCII and a country table whose codes are ISO2-shaped, every
  code \<open>_country_string_to_iso2\<close> returns is exactly two upper-case ASCII letters.\<close>

theorem country_string_to_iso2_shape:
  assumes "db_codes_ok pc" and "list_all (\<lambda>x. x < 128) (py_str v)"
    and "country_string_to_iso2 pc v = Some c"
  shows "iso2_shape c"
  using assms by (rule string_to_iso2_shape)

theorem country_string_to_iso2_shape_witness:
  "db_codes_ok (Some demo_db) \<and> list_all (\<lambda>x. x < 128) (py_str (PStr (ascii ''usa''))) \<and>
   country_string_to_iso2 (Some demo_db) (PStr (ascii ''usa'')) = Some (ascii ''US'') \<and> iso2_shape (ascii ''US'')"
proof -
  have h2: "list_all (\<lambda>x. x < 128) (py_str (PStr (ascii ''usa'')))" by (simp add: eval_simps)
  have h3: "country_string_to_iso2 (Some demo_db) (PStr (ascii ''usa'')) = Some (ascii ''US'')"
    by (simp add: eval_simps demo_db_def)
  show ?thesis using demo_db_codes_ok h2 h3 country_string_to_iso2_shape [OF demo_db_codes_ok h2 h3] by simp
qed

text \<open>C10: for a value whose strings are ASCII (any shape the extractor accepts: a
  dictionary, a list, a separated string, a scalar) and a country table whose codes are
  ISO2-shaped, every candidate \<open>_extract_iso2_candidates\<close> returns is exactly two
  upper-case ASCII letters.\<close>

theorem extract_iso2_candidates_shape:
  assumes "db_codes_ok pc" and "pyval_ascii v"
  shows "list_all iso2_shape (extract_iso2_candidates pc v)"
  using raw_candidates_shape[OF assms]
  by (simp add: extract_iso2_candidates_def uniq_loop_dedup list_all_iff)

theorem extract_iso2_candidates_shape_witness:
  "db_codes_ok (Some demo_db) \<and>
   pyval_ascii (PStr (ascii ''usa; ZA / fr'')) \<and>
   extract_iso2_candidates (Some demo_db)
(PStr (ascii ''usa; ZA / fr'')) =
     [ascii ''US'', ascii ''ZA'', ascii ''FR''] \<and>
   list_all iso2_shape [ascii ''US'', ascii ''ZA'', ascii ''FR'']"
proof -
  let ?v = "PStr (ascii ''usa; ZA / fr'')"
  have h: "pyval_ascii ?v" by simp
  have e: "extract_iso2_candidates (Some demo_db) ?v = [ascii ''US'', ascii ''ZA'', ascii ''FR'']"
    by (simp add: eval_simps demo_db_def)
  show ?thesis using demo_db_codes_ok h e extract_iso2_candidates_shape [OF demo_db_codes_ok h] by simp
qed
text \<open>C11: the candidate list is the raw candidate list with duplicates removed, first
  occurrences kept in order; in particular it has no duplicate code.\<close>

theorem extract_iso2_candidates_dedup:
  "extract_iso2_candidates pc v = dedup (raw_candidates pc v)"
  by (simp add: extract_iso2_candidates_def uniq_loop_dedup)

text \<open>C12: a name longer than three letters is looked up as the stripped raw text, not
  the text with underscores and dashes turned into spaces, so "south_africa" does not
  resolve through a table that knows "south africa"; without the table such a name
  resolves to nothing.\<close>

theorem country_string_to_iso2_raw_lookup:
  assumes "v \<noteq> PNone" and "3 < length (py_strip (underscore_dash_to_space (py_strip (py_str v))))"
  shows "country_string_to_iso2 (Some db) v = found_code (lookup_name db (py_strip (py_str v))) \<and>
         country_string_to_iso2 None v = None"
proof -
  have "py_strip (py_str v) \<noteq> []"
  proof
    assume "py_strip (py_str v) = []"
    then show False using assms(2) by (simp add: underscore_dash_to_space_def) (simp add: py_strip_def py_lstrip_def py_rstrip_def)
  qed
  then show ?thesis using assms by (simp add: country_string_to_iso2_def Let_def)
qed

theorem country_string_to_iso2_raw_lookup_witness:
  "PStr (ascii ''south_africa'') \<noteq> PNone \<and>
   3 < length (py_strip (underscore_dash_to_space (py_strip (py_str (PStr (ascii ''south_africa'')))))) \<and>
   lookup_name demo_db (ascii ''south africa'') = Some (ascii ''ZA'') \<and>
   country_string_to_iso2 (Some demo_db) (PStr (ascii ''south_africa'')) = None"
proof -
  have h1: "PStr (ascii ''south_africa'') \<noteq> PNone" by simp
  have h2: "3 < length (py_strip (underscore_dash_to_space (py_strip (py_str (PStr (ascii ''south_africa''))))))"
    by (simp add: eval_simps)
  have l: "lookup_name demo_db (ascii ''south africa'') = Some (ascii ''ZA'')"
    "found_code (lookup_name demo_db (py_strip (py_str (PStr (ascii ''south_africa''))))) = None"
    by (simp_all add: demo_db_def eval_simps)
  show ?thesis using h1 h2 l country_string_to_iso2_raw_lookup [OF h1 h2, of demo_db] by simp
qed

subsection \<open>Concrete runs behind findings\<close>

text \<open>Outside ASCII the spec's "exactly 2 uppercase letters" fails: the Latin-1
  letters of \<open>"\<ss>a"\<close> pass \<open>isalpha\<close>, and \<open>upper()\<close> turns them into the
  three-letter code \<open>"SSA"\<close>.\<close>

theorem extract_iso2_non_ascii_code:
  "extract_iso2_candidates pc (PStr [223, 97]) = [ascii ''SSA''] \<and> \<not> iso2_shape (ascii ''SSA'')"
  by (simp add: eval_simps)

text \<open>\<open>_iso2_to_country_name\<close> returns the empty string for a value that is not
  two letters, and otherwise falls back to the stripped, upper-cased code (not the input
  unchanged) when no name is found.\<close>

theorem iso2_to_country_name_fallback:
  "iso2_to_country_name pc (ascii ''usa'') = [] \<and>
   iso2_to_country_name None (ascii '' us '') = ascii ''US'' \<and>
   iso2_to_country_name (Some (db\<lparr>get_alpha2_name := Map.empty\<rparr>)) (ascii ''us'') = ascii ''US''"
  by (simp add: eval_simps)

end
