(* ===== verification/Catalog.thy ===== *)
theory Catalog
  imports Complex_Main Book Geo Text
begin

text \<open>
  The catalog indexer of \<open>src/functions/atlas_chat.py\<close>: \<open>_places_for_book\<close>
  (lines 149--162), \<open>_iso2_sets_for_book\<close> (165--182), \<open>_build_book_search_blob\<close>
  (185--206) and \<open>_load_atlas_books_cached\<close> (209--274). The four module globals of
  the cache are the record \<open>cache\<close>, passed in and returned. The store is an input:
  the outcome of \<open>db.collection("atlasBooks").stream()\<close> and of iterating it. A
  document is its ID and the result of \<open>doc.to_dict()\<close>, \<open>None\<close> when that was
  \<open>None\<close> or raised (both become \<open>{}\<close>). Exceptions that leave the function are
  \<open>Inl\<close> values.
\<close>

record doc =
  doc_id :: pystr
  doc_data :: "(pystr \<times> pyval) list option"

datatype store_read =
    Stream_fail  \<comment> \<open>\<open>stream()\<close> raised: caught, line 218\<close>
  | Stream "doc list"  \<comment> \<open>every document read\<close>
  | Stream_broken "doc list"  \<comment> \<open>these documents, then the iteration raised\<close>

record cache =
  cache_ts :: real
  cache_books :: "book list"
  cache_by_id :: "pystr \<rightharpoonup> book"
  cache_countries :: "place list"

definition cache_init :: cache where
  "cache_init = \<lparr>cache_ts = 0, cache_books = [], cache_by_id = Map.empty, cache_countries = []\<rparr>"

subsection \<open>Derived fields\<close>

text \<open>\<open>name or iso2\<close>\<close>

definition name_or_code :: "pycountry \<Rightarrow> pystr \<Rightarrow> pystr" where
  "name_or_code pc code = (let nm = iso2_to_country_name pc code in if nm \<noteq> [] then nm else code)"

definition build_places :: "pycountry \<Rightarrow> pyval \<Rightarrow> place list" where
  "build_places pc v = map (\<lambda>code. (code, name_or_code pc code)) (extract_iso2_candidates pc v)"

definition places_for_book :: "pycountry \<Rightarrow> 'a book_src_scheme \<Rightarrow> places" where
  "places_for_book pc b =
     \<lparr>pl_override = build_places pc (country_override b),
      pl_setting = build_places pc (setting_country b),
      pl_author_country = build_places pc (author_country b),
      pl_author_origin = build_places pc (author_origin b)\<rparr>"

text \<open>\<open>as_set\<close>: the upper-cased codes of one role.\<close>

definition as_set :: "place list \<Rightarrow> pystr set" where
  "as_set xs = set (map (\<lambda>p. py_upper (fst p)) xs)"

definition iso2_sets_for_book :: "places \<Rightarrow> iso2_sets" where
  "iso2_sets_for_book pl =
     (let override = as_set (pl_override pl);
          setting = as_set (pl_setting pl);
          author = as_set (pl_author_country pl) \<union> as_set (pl_author_origin pl)
      in \<lparr>set_override = override, set_setting = setting, set_author = author,
          set_any = override \<union> setting \<union> author\<rparr>)"

text \<open>The record's \<open>tags\<close> and \<open>categories\<close> are lists by construction, so the
  branch of line 196 for a string value is not reachable from the indexer.\<close>

definition blob_geo_parts :: "pycountry \<Rightarrow> pyval \<Rightarrow> pystr list" where
  "blob_geo_parts pc v =
     concat (map (\<lambda>code. code # (let nm = iso2_to_country_name pc code
                               in if nm \<noteq> [] \<and> nm \<noteq> code then [nm] else []))
                 (extract_iso2_candidates pc v))"

definition build_book_search_blob :: "pycountry \<Rightarrow> 'a book_src_scheme \<Rightarrow> pystr" where
  "build_book_search_blob pc b =
     (let parts = filter (\<lambda>v. v \<noteq> []) [title b, author b, summary b, description b, year b];
          parts = parts @ concat (map (\<lambda>v. map py_str (filter (\<lambda>x. py_strip (py_str x) \<noteq> []) v))
                                     [tags b, categories b]);
          parts = parts @ concat (map (blob_geo_parts pc)
                    [country_override b, setting_country b, author_country b, author_origin b])
      in normalize_text (py_join [32] parts))"

subsection \<open>Building one record\<close>

definition str_field :: "(pystr \<times> pyval) list \<Rightarrow> pystr \<Rightarrow> pystr" where
  "str_field d k = py_strip (py_str (py_or (dict_get d k) (PStr [])))"

definition list_or_empty :: "(pystr \<times> pyval) list \<Rightarrow> pystr \<Rightarrow> pyval list" where
  "list_or_empty d k = (case dict_get d k of PList xs \<Rightarrow> xs | _ \<Rightarrow> [])"

definition not_none_or :: "(pystr \<times> pyval) list \<Rightarrow> pystr \<Rightarrow> pyval \<Rightarrow> pyval" where
  "not_none_or d k dflt = (case dict_get d k of PNone \<Rightarrow> dflt | v \<Rightarrow> v)"

text \<open>Lines 232--248; \<open>int(data.get("page_count") or 0)\<close> is the one field that
  can raise.\<close>

definition make_record :: "pystr \<Rightarrow> (pystr \<times> pyval) list \<Rightarrow> exc + book_src" where
  "make_record bid data =
     (case py_int (py_or (dict_get data (ascii ''page_count'')) (PInt 0)) of
        Inl e \<Rightarrow> Inl e
      | Inr pages \<Rightarrow> Inr
          \<lparr>book_id = bid,
           title = str_field data (ascii ''title''),
           author = str_field data (ascii ''author''),
           summary = str_field data (ascii ''summary''),
           description = str_field data (ascii ''description''),
           year = str_field data (ascii ''year''),
           page_count = pages,
           tags = list_or_empty data (ascii ''tags''),
           categories = list_or_empty data (ascii ''categories''),
           country_override = not_none_or data (ascii ''country_override'') (PStr []),
           setting_country = not_none_or data (ascii ''setting_country'') (PList []),
           author_country = not_none_or data (ascii ''author_country'') (PList []),
           author_origin = not_none_or data (ascii ''author_origin'') (PList []),
           cover_url = str_field data (ascii ''cover_url''),
           bookshop_url = str_field data (ascii ''bookshop_url'')\<rparr>)"

text \<open>Lines 226--252: one document to one indexed book.\<close>

definition index_doc :: "pycountry \<Rightarrow> doc \<Rightarrow> exc + book" where
  "index_doc pc d =
     (case make_record (doc_id d) (case doc_data d of Some m \<Rightarrow> m | None \<Rightarrow> []) of
        Inl e \<Rightarrow> Inl e
      | Inr r \<Rightarrow>
          (let pl = places_for_book pc r
           in Inr (book_src.extend r
                    \<lparr>b_places = pl, b_iso2_sets = iso2_sets_for_book pl,
                     b_blob = build_book_search_blob pc r\<rparr>)))"

text \<open>The loop of lines 225--255, with \<open>items\<close> and \<open>by_id\<close> as accumulators.\<close>

fun index_docs :: "pycountry \<Rightarrow> doc list \<Rightarrow> book list \<Rightarrow> (pystr \<rightharpoonup> book)
                   \<Rightarrow> exc + book list \<times> (pystr \<rightharpoonup> book)" where
  "index_docs pc [] items by_id = Inr (items, by_id)"
| "index_docs pc (d # ds) items by_id =
     (case index_doc pc d of
        Inl e \<Rightarrow> Inl e
      | Inr r \<Rightarrow> index_docs pc ds (items @ [r]) (by_id(doc_id d \<mapsto> r)))"

text \<open>Lines 257--266: the union of the \<open>any\<close> sets, its two-character codes sorted,
  each with its name.\<close>

definition all_iso :: "book list \<Rightarrow> pystr set" where
  "all_iso items = fold (\<lambda>b acc. acc \<union> set_any (b_iso2_sets b)) items {}"

definition available_countries :: "pycountry \<Rightarrow> book list \<Rightarrow> place list" where
  "available_countries pc items =
     map (\<lambda>code. (code, name_or_code pc code))
       (sorted_list_of_set (Set.filter (\<lambda>x. length x = 2) (all_iso items)))"

subsection \<open>The cached loader\<close>

definition cache_fresh :: "real \<Rightarrow> real \<Rightarrow> cache \<Rightarrow> bool" where
  "cache_fresh ttl now c \<longleftrightarrow> cache_books c \<noteq> [] \<and> now - cache_ts c < ttl"

definition load_atlas_books_cached :: "real \<Rightarrow> pycountry \<Rightarrow> real \<Rightarrow> store_read \<Rightarrow> cache \<Rightarrow> exc + cache" where
  "load_atlas_books_cached ttl pc now rd c =
     (if cache_fresh ttl now c then Inr c
      else (case rd of
              Stream_fail \<Rightarrow> Inr c
            | Stream_broken docs \<Rightarrow>
                (case index_docs pc docs [] Map.empty of Inl e \<Rightarrow> Inl e | Inr _ \<Rightarrow> Inl StoreError)
            | Stream docs \<Rightarrow>
                (case index_docs pc docs [] Map.empty of
                   Inl e \<Rightarrow> Inl e
                 | Inr (items, by_id) \<Rightarrow>
                     Inr \<lparr>cache_ts = now, cache_books = items, cache_by_id = by_id,
                          cache_countries = available_countries pc items\<rparr>)))"

subsection \<open>Invariant of the snapshot\<close>

text \<open>A book is well formed when its derived fields are what lines 250--252 compute
  from its source fields (the spec's "derived fields are a pure function of the source
  fields"); the ID map points only at listed books under their own IDs; the country list
  is the one lines 257--266 compute from the books.\<close>

definition book_wf :: "pycountry \<Rightarrow> book \<Rightarrow> bool" where
  "book_wf pc b \<longleftrightarrow> b_places b = places_for_book pc b \<and> b_iso2_sets b = iso2_sets_for_book (b_places b)
     \<and> b_blob b = build_book_search_blob pc b"

definition index_ok :: "book list \<Rightarrow> (pystr \<rightharpoonup> book) \<Rightarrow> bool" where
  "index_ok items by_id \<longleftrightarrow> (\<forall>k b. by_id k = Some b \<longrightarrow> book_id b = k \<and> b \<in> set items)"

definition cache_wf :: "pycountry \<Rightarrow> cache \<Rightarrow> bool" where
  "cache_wf pc c \<longleftrightarrow> list_all (book_wf pc) (cache_books c) \<and> index_ok (cache_books c) (cache_by_id c)
     \<and> cache_countries c = available_countries pc (cache_books c)"

text \<open>Two store documents used by the examples.\<close>

definition demo_doc :: doc where
  "demo_doc = \<lparr>doc_id = ascii ''b1'', doc_data = Some [(ascii ''title'', PStr (ascii ''Purple Hibiscus'')),
     (ascii ''page_count'', PInt 307), (ascii ''setting_country'', PStr (ascii ''NG; ke''))]\<rparr>"

definition bad_page_doc :: doc where
  "bad_page_doc = \<lparr>doc_id = ascii ''b2'', doc_data = Some [(ascii ''title'', PStr (ascii ''Kintu'')),
     (ascii ''page_count'', PStr (ascii ''n/a''))]\<rparr>"

subsection \<open>Lemmas\<close>

lemma places_for_book_extend: "places_for_book pc (book_src.extend r m) = places_for_book pc r"
  by (simp add: places_for_book_def book_src.defs)

lemma blob_extend: "build_book_search_blob pc (book_src.extend r m) = build_book_search_blob pc r"
  by (simp add: build_book_search_blob_def book_src.defs)

lemma index_doc_wf:
  assumes "index_doc pc d = Inr r" shows "book_wf pc r \<and> book_id r = doc_id d"
proof -
  obtain s where s: "make_record (doc_id d) (case doc_data d of Some m \<Rightarrow> m | None \<Rightarrow> []) = Inr s"
    and r: "r = book_src.extend s \<lparr>b_places = places_for_book pc s,
               b_iso2_sets = iso2_sets_for_book (places_for_book pc s), b_blob = build_book_search_blob pc s\<rparr>"
    using assms by (auto simp: index_doc_def Let_def split: sum.splits)
  have "book_id s = doc_id d" using s by (auto simp: make_record_def split: sum.splits)
  then show ?thesis
    by (simp add: r book_wf_def places_for_book_extend blob_extend) (simp add: book_src.defs)
qed

lemma index_docs_wf:
  assumes "index_docs pc ds items by_id = Inr (items', by_id')"
    and "list_all (book_wf pc) items" and "index_ok items by_id"
  shows "list_all (book_wf pc) items' \<and> index_ok items' by_id' \<and>
         map book_id items' = map book_id items @ map doc_id ds \<and>
         dom by_id' = dom by_id \<union> set (map doc_id ds)"
  using assms
proof (induction ds arbitrary: items by_id)
  case Nil
  then show ?case by simp
next
  case (Cons d ds)
  then obtain r where r: "index_doc pc d = Inr r"
    and rest: "index_docs pc ds (items @ [r]) (by_id(doc_id d \<mapsto> r)) = Inr (items', by_id')"
    by (auto split: sum.splits)
  from index_doc_wf[OF r] have "book_wf pc r" "book_id r = doc_id d" by auto
  with Cons.prems(2,3) have "list_all (book_wf pc) (items @ [r])" "index_ok (items @ [r]) (by_id(doc_id d \<mapsto> r))"
    by (auto simp: index_ok_def)
  from Cons.IH[OF rest this] \<open>book_id r = doc_id d\<close> show ?case by auto
qed

lemma index_docs_error:
  "index_doc pc d = Inl e \<Longrightarrow> isl (index_docs pc (ds @ d # ds') items by_id)"
  by (induction ds arbitrary: items by_id) (auto split: sum.splits)

lemma index_docs_ok:
  "isl (index_docs pc ds items by_id) \<longleftrightarrow> \<not> list_all (\<lambda>d. \<not> isl (index_doc pc d)) ds"
  by (induction ds arbitrary: items by_id) (auto split: sum.splits)

text \<open>A refresh from a complete stream: what the new snapshot holds.\<close>

lemma refresh_result:
  assumes "\<not> cache_fresh ttl now c" and "load_atlas_books_cached ttl pc now (Stream docs) c = Inr c'"
  shows "cache_wf pc c' \<and> map book_id (cache_books c') = map doc_id docs \<and>
         dom (cache_by_id c') = set (map doc_id docs) \<and> cache_ts c' = now"
proof -
  obtain items by_id where
    ix: "index_docs pc docs [] Map.empty = Inr (items, by_id)"
    and c': "c' = \<lparr>cache_ts = now, cache_books = items, cache_by_id = by_id,
                   cache_countries = available_countries pc items\<rparr>"
    using assms by (auto simp: load_atlas_books_cached_def split: sum.splits)
  have "list_all (book_wf pc) items \<and> index_ok items by_id \<and> map book_id items = map doc_id docs
        \<and> dom by_id = set (map doc_id docs)"
    using index_docs_wf[OF ix] by (simp add: index_ok_def)
  then show ?thesis by (simp add: c' cache_wf_def)
qed

lemma cache_init_wf: "cache_wf pc cache_init"
  by (simp add: cache_wf_def cache_init_def index_ok_def available_countries_def all_iso_def)

lemma demo_refresh:
  "\<exists>c. load_atlas_books_cached 600 None 1000 (Stream [demo_doc]) cache_init = Inr c"
  by (simp add: load_atlas_books_cached_def cache_fresh_def cache_init_def index_doc_def make_record_def
      demo_doc_def eval_simps split: sum.splits)

lemma demo_stale: "\<not> cache_fresh 600 1000 cache_init"
  by (simp add: cache_fresh_def cache_init_def)

lemma book_wf_any:
  "book_wf pc b \<Longrightarrow> set_any (b_iso2_sets b) =
     set_override (b_iso2_sets b) \<union> set_setting (b_iso2_sets b) \<union> set_author (b_iso2_sets b)"
  by (simp add: book_wf_def iso2_sets_for_book_def Let_def)

lemma all_iso_union: "all_iso items = (\<Union>b \<in> set items. set_any (b_iso2_sets b))"
proof -
  have "fold (\<lambda>b acc. acc \<union> set_any (b_iso2_sets b)) items A = A \<union> (\<Union>b \<in> set items. set_any (b_iso2_sets b))" for A
    by (induction items arbitrary: A) auto
  then show ?thesis by (simp add: all_iso_def)
qed

lemma book_wf_finite_any: "book_wf pc b \<Longrightarrow> finite (set_any (b_iso2_sets b))"
  by (simp add: book_wf_def iso2_sets_for_book_def as_set_def Let_def)

subsection \<open>Properties of the indexer and its cache\<close>

text \<open>C13: The snapshot invariant: when the cache held well-formed books, a consistent
  ID map and the country list computed from the books, it still does after
  \<open>_load_atlas_books_cached\<close>, whichever way the store read went.\<close>

theorem load_preserves_cache_wf:
  assumes "cache_wf pc c" and "load_atlas_books_cached ttl pc now rd c = Inr c'"
  shows "cache_wf pc c'"
proof (cases "cache_fresh ttl now c")
  case True
  with assms show ?thesis by (simp add: load_atlas_books_cached_def)
next
  case False
  show ?thesis
  proof (cases rd)
    case Stream_fail
    with False assms show ?thesis by (simp add: load_atlas_books_cached_def)
  next
    case (Stream_broken docs)
    with False assms(2) show ?thesis by (simp add: load_atlas_books_cached_def split: sum.splits)
  next
    case (Stream docs)
    with False assms(2) refresh_result show ?thesis by blast
  qed
qed

lemma load_preserves_cache_wf_witness:
  "\<exists>c. cache_wf None cache_init \<and> load_atlas_books_cached 600 None 1000 (Stream [demo_doc]) cache_init = Inr c
       \<and> cache_wf None c"
proof -
  obtain c where c: "load_atlas_books_cached 600 None 1000 (Stream [demo_doc]) cache_init = Inr c"
    using demo_refresh by blast
  with load_preserves_cache_wf[OF cache_init_wf c] cache_init_wf show ?thesis by blast
qed

text \<open>C14: The snapshot's country list is sorted ascending by code, without
  duplicates, and lists exactly the two-character codes in some book's \<open>any\<close> set.\<close>

theorem cache_countries_sorted:
  assumes "cache_wf pc c"
  shows "sorted (map fst (cache_countries c)) \<and> distinct (map fst (cache_countries c)) \<and>
         set (map fst (cache_countries c)) =
           {x \<in> (\<Union>b \<in> set (cache_books c). set_any (b_iso2_sets b)). length x = 2}"
proof -
  have "finite (all_iso (cache_books c))"
    using assms book_wf_finite_any by (auto simp: cache_wf_def all_iso_union list_all_iff)
  then have f: "finite (Set.filter (\<lambda>x. length x = 2) (all_iso (cache_books c)))" by simp
  have "cache_countries c = available_countries pc (cache_books c)" using assms by (simp add: cache_wf_def)
  then show ?thesis
    using f by (auto simp: available_countries_def comp_def all_iso_union)
qed

lemma cache_countries_sorted_witness:
  "\<exists>c. load_atlas_books_cached 600 None 1000 (Stream [demo_doc]) cache_init = Inr c \<and>
       sorted (map fst (cache_countries c)) \<and> distinct (map fst (cache_countries c))"
proof -
  obtain c where c: "load_atlas_books_cached 600 None 1000 (Stream [demo_doc]) cache_init = Inr c"
    using demo_refresh by blast
  from refresh_result[OF demo_stale c] have "cache_wf None c" by simp
  from cache_countries_sorted[OF this] c show ?thesis by blast
qed

text \<open>C15: The time-to-live test of lines 213--214: the cache is returned as it is
  exactly when it holds books and is younger than the time-to-live (strictly); otherwise
  the store is read, and an empty collection gives the empty snapshot stamped now.\<close>

theorem load_ttl:
  "load_atlas_books_cached ttl pc now (Stream []) c =
     (if cache_books c \<noteq> [] \<and> now - cache_ts c < ttl then Inr c
      else Inr \<lparr>cache_ts = now, cache_books = [], cache_by_id = Map.empty, cache_countries = []\<rparr>)"
  by (simp add: load_atlas_books_cached_def cache_fresh_def available_countries_def all_iso_union)

text \<open>C16: When \<open>stream()\<close> raises, the previous snapshot is returned unchanged, even
  when it is empty or stale (lines 216--220): the stale-but-available policy.\<close>

theorem load_stream_fail_keeps:
  "load_atlas_books_cached ttl pc now Stream_fail c = Inr c"
  by (simp add: load_atlas_books_cached_def)

text \<open>C17: A document whose \<open>page_count\<close> \<open>int()\<close> rejects makes the whole refresh
  raise, whatever the other documents: the exception of line 238 is not caught in the
  loop, and the previous snapshot is not returned.\<close>

theorem load_bad_record_raises:
  assumes "\<not> cache_fresh ttl now c" and "index_doc pc d = Inl e"
  shows "isl (load_atlas_books_cached ttl pc now (Stream (ds @ d # ds')) c)"
  using index_docs_error[OF assms(2), of ds ds' "[]" Map.empty] assms(1)
  by (auto simp: load_atlas_books_cached_def split: sum.splits)

lemma load_bad_record_raises_witness:
  "\<not> cache_fresh 600 1000 cache_init \<and> index_doc None bad_page_doc = Inl ValueError \<and>
   isl (load_atlas_books_cached 600 None 1000 (Stream [demo_doc, bad_page_doc]) cache_init)"
proof -
  have e: "index_doc None bad_page_doc = Inl ValueError"
    by (simp add: index_doc_def make_record_def bad_page_doc_def eval_simps)
  show ?thesis
    using load_bad_record_raises[OF demo_stale e, of "[demo_doc]" "[]"] demo_stale e by simp
qed

lemma load_bad_page_value_error:
  "load_atlas_books_cached 600 None 1000 (Stream [demo_doc, bad_page_doc]) cache_init = Inl ValueError"
  by (simp add: load_atlas_books_cached_def demo_stale index_doc_def make_record_def
        demo_doc_def bad_page_doc_def eval_simps split: sum.splits)

text \<open>C18: When iterating the stream raises part-way, the exception leaves the loader:
  the previous snapshot is not returned (the \<open>try\<close> of line 216 covers only the call
  to \<open>stream()\<close>).\<close>

theorem load_broken_stream_raises:
  "\<not> cache_fresh ttl now c \<Longrightarrow> isl (load_atlas_books_cached ttl pc now (Stream_broken docs) c)"
  by (simp add: load_atlas_books_cached_def split: sum.splits)

lemma load_broken_stream_raises_witness:
  "\<not> cache_fresh 600 1000 cache_init \<and>
   isl (load_atlas_books_cached 600 None 1000 (Stream_broken [demo_doc]) cache_init)"
  using load_broken_stream_raises[OF demo_stale] demo_stale by blast

text \<open>C19: A refresh from a complete stream replaces the snapshot wholesale: the books
  are the documents in store order, the ID map covers exactly their IDs, and the
  timestamp is the current time.\<close>

theorem load_refresh_order:
  assumes "\<not> cache_fresh ttl now c" and "load_atlas_books_cached ttl pc now (Stream docs) c = Inr c'"
  shows "map book_id (cache_books c') = map doc_id docs \<and> dom (cache_by_id c') = set (map doc_id docs)
         \<and> cache_ts c' = now"
  using refresh_result[OF assms] by simp

lemma load_refresh_order_witness:
  "\<exists>c. load_atlas_books_cached 600 None 1000 (Stream [demo_doc]) cache_init = Inr c \<and>
       map book_id (cache_books c) = [ascii ''b1''] \<and> cache_ts c = 1000"
proof -
  obtain c where c: "load_atlas_books_cached 600 None 1000 (Stream [demo_doc]) cache_init = Inr c"
    using demo_refresh by blast
  from load_refresh_order[OF demo_stale c] c show ?thesis by (simp add: demo_doc_def)
qed

text \<open>C20: A refresh from a complete stream succeeds exactly when every document's
  record can be built.\<close>

theorem load_refresh_succeeds_iff:
  "\<not> cache_fresh ttl now c \<Longrightarrow>
   \<not> isl (load_atlas_books_cached ttl pc now (Stream docs) c) \<longleftrightarrow>
   list_all (\<lambda>d. \<not> isl (index_doc pc d)) docs"
  using index_docs_ok[of pc docs "[]" Map.empty]
  by (auto simp: load_atlas_books_cached_def split: sum.splits)

lemma load_refresh_succeeds_iff_witness:
  "\<not> cache_fresh 600 1000 cache_init \<and>
   \<not> isl (load_atlas_books_cached 600 None 1000 (Stream [demo_doc]) cache_init)"
proof -
  have "list_all (\<lambda>d. \<not> isl (index_doc None d)) [demo_doc]"
    by (simp add: index_doc_def make_record_def demo_doc_def eval_simps)
  with load_refresh_succeeds_iff[OF demo_stale] demo_stale show ?thesis by blast
qed

end
