(* ===== verification/Json.thy ===== *)
theory Json
  imports PyVal
begin

text \<open>
  The JSON text of Python values: \<open>json.dumps(v, ensure_ascii=False)\<close> with the
  default separators, as \<open>src/functions/atlas_chat.py\<close> uses it for the blocks it
  sends to the model (lines 422 and 426) and for every response body (line 47); and
  the part of \<open>json.loads\<close> that reads a JSON string back, enough to show that a
  text the code embeds reaches the reader unchanged. This is the standard library, not
  code of the repository.
\<close>

subsection \<open>Printing\<close>

text \<open>One code point inside a JSON string with \<open>ensure_ascii=False\<close>: the quote,
  the backslash and the control characters are escaped, everything else is kept.\<close>

definition json_esc :: "cp \<Rightarrow> pystr" where
  "json_esc c =
     (if c = 34 then [92, 34]
      else if c = 92 then [92, 92]
      else if c = 10 then [92, 110]
      else if c = 13 then [92, 114]
      else if c = 9 then [92, 116]
      else if c = 8 then [92, 98]
      else if c = 12 then [92, 102]
      else if c < 32 then [92, 117, 48, 48, hex_digit (c div 16), hex_digit (c mod 16)]
      else [c])"

definition json_str :: "pystr \<Rightarrow> pystr" where
  "json_str s = 34 # concat (map json_esc s) @ [34]"

fun json_dumps :: "pyval \<Rightarrow> pystr" where
  "json_dumps PNone = ascii ''null''"
| "json_dumps (PBool b) = (if b then ascii ''true'' else ascii ''false'')"
| "json_dumps (PInt i) = show_int i"
| "json_dumps (PStr s) = json_str s"
| "json_dumps (PList xs) = 91 # py_join (ascii '', '') (map json_dumps xs) @ [93]"
| "json_dumps (PDict d) =
     123 # py_join (ascii '', '') (map (\<lambda>(k, v). json_str k @ ascii '': '' @ json_dumps v) d) @ [125]"

subsection \<open>Reading a string back\<close>

text \<open>The short escapes of JSON and the value of a hexadecimal digit.\<close>

definition simple_unesc :: "cp \<Rightarrow> cp option" where
  "simple_unesc e =
     (if e = 34 then Some 34 else if e = 92 then Some 92 else if e = 47 then Some 47
      else if e = 98 then Some 8 else if e = 102 then Some 12 else if e = 110 then Some 10
      else if e = 114 then Some 13 else if e = 116 then Some 9 else None)"

definition hex_val :: "cp \<Rightarrow> nat option" where
  "hex_val c =
     (if 48 \<le> c \<and> c \<le> 57 then Some (c - 48)
      else if 97 \<le> c \<and> c \<le> 102 then Some (c - 87)
      else if 65 \<le> c \<and> c \<le> 70 then Some (c - 55)
      else None)"

definition hex4 :: "cp \<Rightarrow> cp \<Rightarrow> cp \<Rightarrow> cp \<Rightarrow> nat option" where
  "hex4 a b x y =
     (case (hex_val a, hex_val b, hex_val x, hex_val y) of
        (Some a, Some b, Some x, Some y) \<Rightarrow> Some (((a * 16 + b) * 16 + x) * 16 + y)
      | _ \<Rightarrow> None)"

text \<open>The body of a JSON string after its opening quote: the decoded text and the
  input after the closing quote; \<open>None\<close> on a bad escape, a raw control character or
  a missing closing quote (surrogate pairs are not combined).\<close>

function json_unesc :: "pystr \<Rightarrow> (pystr \<times> pystr) option" where
  "json_unesc [] = None"
| "json_unesc (c # cs) =
     (if c = 34 then Some ([], cs)
      else if c = 92 then
        (case cs of
           [] \<Rightarrow> None
         | e # r \<Rightarrow>
             (if e = 117 then
                (case r of
                   a # b # x # y # r' \<Rightarrow>
                     (case hex4 a b x y of
                        Some v \<Rightarrow> map_option (apfst (Cons v)) (json_unesc r')
                      | None \<Rightarrow> None)
                 | _ \<Rightarrow> None)
              else (case simple_unesc e of
                      Some v \<Rightarrow> map_option (apfst (Cons v)) (json_unesc r)
                    | None \<Rightarrow> None)))
      else if c < 32 then None
      else map_option (apfst (Cons c)) (json_unesc cs))"
  by pat_completeness auto
termination
  by (relation "measure length") auto

definition json_string :: "pystr \<Rightarrow> (pystr \<times> pystr) option" where
  "json_string s = (case s of c # cs \<Rightarrow> if c = 34 then json_unesc cs else None | [] \<Rightarrow> None)"

subsection \<open>Lemmas\<close>

lemma hex_val_digit: "d < 16 \<Longrightarrow> hex_val (hex_digit d) = Some d"
  by (auto simp: hex_val_def hex_digit_def)

lemma json_unesc_u:
  "hex4 a b x y = Some v \<Longrightarrow> json_unesc (92 # 117 # a # b # x # y # r) = map_option (apfst (Cons v)) (json_unesc r)"
  by simp

lemma hex4_control: "c < 32 \<Longrightarrow> hex4 48 48 (hex_digit (c div 16)) (hex_digit (c mod 16)) = Some c"
proof -
  assume "c < 32"
  then have "c div 16 < 16" "c mod 16 < 16" by auto
  moreover have "hex_val 48 = Some 0" by (simp add: hex_val_def)
  ultimately show ?thesis by (simp add: hex4_def hex_val_digit)
qed

lemma json_unesc_esc1: "json_unesc (json_esc c @ r) = map_option (apfst (Cons c)) (json_unesc r)"
proof (cases "c < 32")
  case True
  then show ?thesis
    using json_unesc_u[OF hex4_control[OF True]] by (simp add: json_esc_def simple_unesc_def)
next
  case False
  then show ?thesis by (simp add: json_esc_def simple_unesc_def)
qed

lemma json_unesc_esc: "json_unesc (concat (map json_esc s) @ 34 # rest) = Some (s, rest)"
  by (induction s) (simp_all add: json_unesc_esc1)

lemma json_string_str: "json_string (json_str s @ rest) = Some (s, rest)"
  by (simp add: json_string_def json_str_def json_unesc_esc)

end
