(* ===== verification/Requester.thy ===== *)
theory Requester
  imports Catalog Json
begin

text \<open>
  The recommendation requester of \<open>src/functions/atlas_chat.py\<close>: \<open>_call_openai\<close>
  (lines 295--304), \<open>_parse_output_text_json\<close> (307--329) and \<open>_recommend_with_llm\<close>
  (333--455), with the module configuration of lines 28--31. The request is a record
  with the fields of the \<open>payload\<close> dictionary; the text blocks the model reads are
  built with \<open>json_dumps\<close> of theory \<open>Json\<close>.
  The network call is an oracle \<open>openai\<close>: for a key and a request it gives a
  network failure or an HTTP status, the body text and the body as JSON when it is
  JSON. \<open>json.loads\<close> is a parameter \<open>loads\<close>, \<open>None\<close> when it raises.
\<close>

subsection \<open>Configuration\<close>

record config =
  cfg_model :: pystr
  cfg_ttl :: int
  cfg_debug :: bool
  cfg_build :: pystr

text \<open>Lines 28--31, over the environment: \<open>int()\<close> of a bad TTL raises at import.\<close>

definition env_or :: "(pystr \<rightharpoonup> pystr) \<Rightarrow> pystr \<Rightarrow> pystr \<Rightarrow> pystr" where
  "env_or env k dflt = (case env k of Some v \<Rightarrow> if v \<noteq> [] then v else dflt | None \<Rightarrow> dflt)"

definition config_of_env :: "(pystr \<rightharpoonup> pystr) \<Rightarrow> exc + config" where
  "config_of_env env =
     (case (case env (ascii ''ATLAS_CHAT_CACHE_TTL_SEC'') of
              Some v \<Rightarrow> if v \<noteq> [] then int_of_str v else Inr 600
            | None \<Rightarrow> Inr 600) of
        Inl e \<Rightarrow> Inl e
      | Inr ttl \<Rightarrow> Inr
          \<lparr>cfg_model = env_or env (ascii ''ATLAS_CHAT_MODEL'') (ascii ''gpt-4o-mini''),
           cfg_ttl = ttl,
           cfg_debug = (py_strip (env_or env (ascii ''ATLAS_CHAT_DEBUG'') []) = ascii ''1''),
           cfg_build = env_or env (ascii ''ATLAS_CHAT_BUILD'') (ascii ''atlas_chat_2026_01_06e'')\<rparr>)"

subsection \<open>The candidate block\<close>

definition place_json :: "place \<Rightarrow> pyval" where
  "place_json p = PDict [(ascii ''iso2'', PStr (fst p)), (ascii ''name'', PStr (snd p))]"

definition places_json :: "places \<Rightarrow> pyval" where
  "places_json pl = PDict
     [(ascii ''override'', PList (map place_json (pl_override pl))),
      (ascii ''setting'', PList (map place_json (pl_setting pl))),
      (ascii ''author_country'', PList (map place_json (pl_author_country pl))),
      (ascii ''author_origin'', PList (map place_json (pl_author_origin pl)))]"

text \<open>One entry of \<open>compact\<close> (lines 343--358) for a catalog book: its string fields
  are strings and its \<open>_places\<close> a non-empty dictionary, by construction in the
  indexer, so the \<open>isinstance\<close> tests of the loop always pass.\<close>

definition compact_book :: "book \<Rightarrow> pyval" where
  "compact_book b = PDict
     [(ascii ''id'', PStr (book_id b)),
      (ascii ''title'', PStr (title b)),
      (ascii ''author'', PStr (author b)),
      (ascii ''year'', PStr (year b)),
      (ascii ''page_count'', PInt (page_count b)),
      (ascii ''tags'', PList (take 16 (tags b))),
      (ascii ''categories'', PList (take 16 (categories b))),
      (ascii ''places'', places_json (b_places b)),
      (ascii ''summary'', PStr (take 650 (if summary b \<noteq> [] then summary b
                                           else description b)))]"

subsection \<open>The conversation\<close>

text \<open>A turn of the history the handler passes: role and content strings.\<close>

record hmsg =
  h_role :: pystr
  h_content :: pystr

text \<open>One item of the model input: its role and its single content part.\<close>

record input_item =
  ii_role :: pystr
  ii_type :: pystr
  ii_text :: pystr

text \<open>\<open>xs[-n:]\<close>.\<close>

definition py_last :: "nat \<Rightarrow> 'a list \<Rightarrow> 'a list" where
  "py_last n xs = drop (length xs - n) xs"

text \<open>The loop of lines 430--436 for one turn.\<close>

definition hist_item :: "hmsg \<Rightarrow> input_item list" where
  "hist_item m =
     (let role = py_lower (py_strip (h_role m)); content = py_strip (h_content m)
      in if role = ascii ''user'' \<and> content \<noteq> []
         then [\<lparr>ii_role = ascii ''user'', ii_type = ascii ''input_text'', ii_text = content\<rparr>]
         else if role = ascii ''assistant'' \<and> content \<noteq> []
         then [\<lparr>ii_role = ascii ''assistant'', ii_type = ascii ''output_text'', ii_text = content\<rparr>]
         else [])"

definition history_items :: "hmsg list \<Rightarrow> input_item list" where
  "history_items hist = concat (map hist_item (py_last 12 hist))"

subsection \<open>Instructions, schema and request\<close>

text \<open>The instructions of lines 360--379, one line per element; only the count of
  line 374 depends on the intent.\<close>

definition instruction_lines :: "bool \<Rightarrow> pystr list" where
  "instruction_lines ws =
     [ascii ''You are Atlas, a book recommender.'',
      ascii ''Your only hard constraint is: recommend ONLY books that exist in CANDIDATES.'',
      [],
      ascii ''Geography behavior:'',
      ascii ''- The user's prompt is authoritative.'',
      ascii ''- If the user mentions a country/continent/region (e.g., Africa, South America), you must satisfy that request.'',
      ascii ''- Use AVAILABLE_COUNTRIES as the set of ISO2 codes that exist in the catalog.'',
      ascii ''- Use your world knowledge to map continents/regions to ISO2 codes, then choose only ISO2 codes that are present in AVAILABLE_COUNTRIES.'',
      ascii ''- Match the user's requested geography primarily using places.override (country_override). If override is missing, fall back to setting/author.'',
      ascii ''- selected_iso2 is a UI hint ONLY when the user did not specify a location.'',
      ascii ''- If you cannot find any matching book(s) in CANDIDATES for the user's geography constraint, return recommendations as an empty list and explain briefly in assistant_markdown.'',
      [],
      ascii ''Output requirements:'',
      ascii ''- assistant_markdown must be prose only (1'' @ [8211] @ ascii ''3 sentences). No headings, no bullet points, no numbered lists.'',
      ascii ''- Each mentioned book must be formatted as: **Title** by Author.'',
      ascii ''- Return '' @ (if ws then ascii ''exactly 1'' else ascii ''up to 3'') @ ascii '' recommendation(s).'',
      ascii ''- assistant_markdown must mention ALL recommended books (and only those books).'',
      ascii ''- Each recommendations[i].reason must be exactly 1 sentence grounded in metadata.'',
      ascii ''- follow_up_questions should usually be empty.'',
      ascii ''- actions must be an empty list.'']"

definition instructions :: "bool \<Rightarrow> pystr" where
  "instructions ws = concat (map (\<lambda>l. l @ [10]) (instruction_lines ws))"

definition str_type :: pyval where
  "str_type = PDict [(ascii ''type'', PStr (ascii ''string''))]"

text \<open>The output schema of lines 381--411.\<close>

definition response_schema :: pyval where
  "response_schema = PDict
     [(ascii ''type'', PStr (ascii ''object'')),
      (ascii ''additionalProperties'', PBool False),
      (ascii ''properties'', PDict
         [(ascii ''assistant_markdown'', str_type),
          (ascii ''recommendations'', PDict
             [(ascii ''type'', PStr (ascii ''array'')),
              (ascii ''items'', PDict
                 [(ascii ''type'', PStr (ascii ''object'')),
                  (ascii ''additionalProperties'', PBool False),
                  (ascii ''properties'', PDict [(ascii ''book_id'', str_type), (ascii ''reason'', str_type)]),
                  (ascii ''required'', PList [PStr (ascii ''book_id''), PStr (ascii ''reason'')])])]),
          (ascii ''follow_up_questions'', PDict
             [(ascii ''type'', PStr (ascii ''array'')), (ascii ''items'', str_type)]),
          (ascii ''actions'', PDict
             [(ascii ''type'', PStr (ascii ''array'')),
              (ascii ''maxItems'', PInt 0),
              (ascii ''items'', PDict
                 [(ascii ''type'', PStr (ascii ''object'')),
                  (ascii ''additionalProperties'', PBool False),
                  (ascii ''properties'', PDict []),
                  (ascii ''required'', PList [])])])]),
      (ascii ''required'', PList (map (PStr \<circ> ascii)
         [''assistant_markdown'', ''recommendations'', ''follow_up_questions'', ''actions'']))]"

text \<open>The request body of lines 438--452; \<open>text.format\<close> is the strict JSON-schema
  format named \<open>atlas_chat_response\<close> with \<open>rq_schema\<close>.\<close>

record llm_request =
  rq_model :: pystr
  rq_instructions :: pystr
  rq_input :: "input_item list"
  rq_schema :: pyval
  rq_temperature :: real
  rq_max_output_tokens :: int

definition context_obj :: "pystr \<Rightarrow> pystr option \<Rightarrow> place list \<Rightarrow> pyval" where
  "context_obj user_text sel avail = PDict
     [(ascii ''user_text'', PStr user_text),
      (ascii ''selected_iso2'', PStr (case sel of Some s \<Rightarrow> s | None \<Rightarrow> [])),
      (ascii ''available_countries'', PList (map place_json avail))]"

definition dev_item :: "pystr \<Rightarrow> input_item" where
  "dev_item t = \<lparr>ii_role = ascii ''developer'', ii_type = ascii ''input_text'', ii_text = t\<rparr>"

definition build_request :: "config \<Rightarrow> hmsg list \<Rightarrow> pystr \<Rightarrow> pystr option \<Rightarrow> place list \<Rightarrow> book list
                               \<Rightarrow> llm_request" where
  "build_request cfg hist user_text sel avail cands =
     \<lparr>rq_model = cfg_model cfg,
      rq_instructions = instructions (user_wants_single user_text),
      rq_input =
        [dev_item (ascii ''CONTEXT:'' @ [10] @ json_dumps (context_obj user_text sel avail)),
         dev_item (ascii ''CANDIDATES:'' @ [10] @ json_dumps (PList (map compact_book cands)))]
        @ history_items hist,
      rq_schema = response_schema,
      rq_temperature = 0.35,
      rq_max_output_tokens = 900\<rparr>"

subsection \<open>The call and its output\<close>

text \<open>What \<open>requests.post\<close> gives: a failure of the connection or of the 45 s
  timeout, or a response with its status, its text and its body as JSON (\<open>None\<close> when
  \<open>r.json()\<close> raises).\<close>

datatype http_result = Net_failure | Http_resp int pystr "pyval option"

type_synonym openai = "pystr \<Rightarrow> llm_request \<Rightarrow> http_result"

type_synonym json_loads = "pystr \<Rightarrow> pyval option"

definition call_openai :: "openai \<Rightarrow> pystr \<Rightarrow> llm_request \<Rightarrow> exc + pyval" where
  "call_openai oracle api_key payload =
     (case oracle api_key payload of
        Net_failure \<Rightarrow> Inl NetworkError
      | Http_resp st txt js \<Rightarrow>
          (if 400 \<le> st then Inl (RuntimeError (ascii ''OpenAI HTTP '' @ show_int st @ ascii '': '' @ txt))
           else (case js of Some j \<Rightarrow> Inr j | None \<Rightarrow> Inl ValueError)))"

text \<open>Iterating a value with \<open>for\<close>: a list gives its elements, a string its
  characters, a dictionary its keys; anything else raises \<open>TypeError\<close>.\<close>

definition py_iter :: "pyval \<Rightarrow> pyval list option" where
  "py_iter v = (case v of
       PList xs \<Rightarrow> Some xs
     | PStr s \<Rightarrow> Some (map (\<lambda>c. PStr [c]) s)
     | PDict d \<Rightarrow> Some (map (PStr \<circ> fst) d)
     | _ \<Rightarrow> None)"

text \<open>The outcome of the \<open>try\<close> block of lines 315--327: a value returned, an
  exception (caught by line 326), or the end of the loop.\<close>

datatype scan = Found pyval | Raised | Done

definition loads_or_empty :: "json_loads \<Rightarrow> pystr \<Rightarrow> pyval" where
  "loads_or_empty loads t = (case loads t of Some v \<Rightarrow> v | None \<Rightarrow> PDict [])"

fun scan_content :: "json_loads \<Rightarrow> pyval list \<Rightarrow> scan" where
  "scan_content loads [] = Done"
| "scan_content loads (c # cs) =
     (case c of
        PDict e \<Rightarrow>
          (case dict_get e (ascii ''text'') of
             PStr t \<Rightarrow>
               (if dict_get e (ascii ''type'') = PStr (ascii ''output_text'') \<and> py_strip t \<noteq> []
                then Found (loads_or_empty loads t) else scan_content loads cs)
           | _ \<Rightarrow> scan_content loads cs)
      | _ \<Rightarrow> Raised)"

fun scan_items :: "json_loads \<Rightarrow> pyval list \<Rightarrow> scan" where
  "scan_items loads [] = Done"
| "scan_items loads (i # is) =
     (case i of
        PDict e \<Rightarrow>
          (if dict_get e (ascii ''type'') = PStr (ascii ''message'') \<and>
              dict_get e (ascii ''role'') = PStr (ascii ''assistant'')
           then (case py_iter (py_or (dict_get e (ascii ''content'')) (PList [])) of
                   None \<Rightarrow> Raised
                 | Some cs \<Rightarrow> (case scan_content loads cs of Done \<Rightarrow> scan_items loads is | r \<Rightarrow> r))
           else scan_items loads is)
      | _ \<Rightarrow> Raised)"

text \<open>Lines 315--329: \<open>resp_json.get("output") or []\<close> scanned; the empty object
  when the scan raised or found nothing.\<close>

definition scan_output :: "json_loads \<Rightarrow> (pystr \<times> pyval) list \<Rightarrow> pyval" where
  "scan_output loads d =
     (case py_iter (py_or (dict_get d (ascii ''output'')) (PList [])) of
        None \<Rightarrow> PDict []
      | Some items \<Rightarrow> (case scan_items loads items of Found v \<Rightarrow> v | _ \<Rightarrow> PDict []))"

text \<open>Lines 307--329; \<open>resp_json.get\<close> on a value that is not a dictionary raises
  outside the \<open>try\<close>.\<close>

definition parse_output_text_json :: "json_loads \<Rightarrow> pyval \<Rightarrow> exc + pyval" where
  "parse_output_text_json loads resp =
     (case resp of
        PDict d \<Rightarrow>
          (case dict_get d (ascii ''output_text'') of
             PStr t \<Rightarrow> if py_strip t \<noteq> [] then Inr (loads_or_empty loads t) else Inr (scan_output loads d)
           | _ \<Rightarrow> Inr (scan_output loads d))
      | _ \<Rightarrow> Inl AttributeError)"

subsection \<open>The requester\<close>

text \<open>\<open>_recommend_with_llm\<close>, lines 333--455: one request, one call, its output
  parsed. Exceptions of the call and of the parse leave the function.\<close>

definition recommend_with_llm :: "config \<Rightarrow> openai \<Rightarrow> json_loads \<Rightarrow> pystr \<Rightarrow> hmsg list \<Rightarrow> pystr
                                    \<Rightarrow> pystr option \<Rightarrow> place list \<Rightarrow> book list \<Rightarrow> exc + pyval" where
  "recommend_with_llm cfg oracle loads api_key hist user_text sel avail cands =
     (case call_openai oracle api_key (build_request cfg hist user_text sel avail cands) of
        Inl e \<Rightarrow> Inl e
      | Inr j \<Rightarrow> parse_output_text_json loads j)"

subsection \<open>The promised output, abstractly\<close>

text \<open>A well-formed provider output: every item is an object, and the content of
  every assistant message is a list of objects. Its texts are the non-blank
  \<open>output_text\<close> parts of the assistant messages, in order.\<close>

definition is_dict :: "pyval \<Rightarrow> bool" where
  "is_dict v \<longleftrightarrow> (case v of PDict _ \<Rightarrow> True | _ \<Rightarrow> False)"

definition is_assistant_msg :: "(pystr \<times> pyval) list \<Rightarrow> bool" where
  "is_assistant_msg e \<longleftrightarrow> dict_get e (ascii ''type'') = PStr (ascii ''message'') \<and>
                          dict_get e (ascii ''role'') = PStr (ascii ''assistant'')"

fun wf_item :: "pyval \<Rightarrow> bool" where
  "wf_item (PDict e) =
     (\<not> is_assistant_msg e \<or>
      (case py_or (dict_get e (ascii ''content'')) (PList []) of PList cs \<Rightarrow> list_all is_dict cs | _ \<Rightarrow> False))"
| "wf_item _ = False"

fun part_text :: "pyval \<Rightarrow> pystr list" where
  "part_text (PDict e) =
     (case dict_get e (ascii ''text'') of
        PStr t \<Rightarrow> if dict_get e (ascii ''type'') = PStr (ascii ''output_text'') \<and> py_strip t \<noteq> [] then [t] else []
      | _ \<Rightarrow> [])"
| "part_text _ = []"

fun item_texts :: "pyval \<Rightarrow> pystr list" where
  "item_texts (PDict e) =
     (if is_assistant_msg e then concat (map part_text (list_of (dict_get e (ascii ''content'')))) else [])"
| "item_texts _ = []"

definition output_texts :: "pyval list \<Rightarrow> pystr list" where
  "output_texts items = concat (map item_texts items)"

text \<open>Examples used by the witnesses.\<close>

definition demo_config :: config where
  "demo_config = \<lparr>cfg_model = ascii ''gpt-4o-mini'', cfg_ttl = 600, cfg_debug = False,
                   cfg_build = ascii ''atlas_chat_2026_01_06e''\<rparr>"

definition demo_output :: pyval where
  "demo_output = PList [PDict [(ascii ''type'', PStr (ascii ''reasoning''))],
     PDict [(ascii ''type'', PStr (ascii ''message'')), (ascii ''role'', PStr (ascii ''assistant'')),
            (ascii ''content'', PList [PDict [(ascii ''type'', PStr (ascii ''output_text'')),
                                              (ascii ''text'', PStr (ascii ''{}''))]])]]"

subsection \<open>Lemmas\<close>

lemma hist_item_cases:
  "hist_item m = (let role = py_lower (py_strip (h_role m)); content = py_strip (h_content m)
     in if (role = ascii ''user'' \<or> role = ascii ''assistant'') \<and> content \<noteq> []
        then [\<lparr>ii_role = role, ii_type = (if role = ascii ''user'' then ascii ''input_text'' else ascii ''output_text''),
               ii_text = content\<rparr>] else [])"
  by (auto simp: hist_item_def Let_def)

lemma length_hist_item: "length (hist_item m) \<le> 1"
  by (simp add: hist_item_cases Let_def)

lemma length_py_last: "length (py_last n xs) \<le> n"
  by (simp add: py_last_def)

lemma py_last_snoc: "py_last (Suc n) (xs @ [x]) = py_last n xs @ [x]"
  by (simp add: py_last_def Suc_diff_le)

lemma py_last_12_snoc: "py_last 12 (xs @ [x]) = py_last 11 xs @ [x]"
  using py_last_snoc[of 11 xs x] by (simp add: numeral_eq_Suc)


lemma py_last_short: "length xs \<le> n \<Longrightarrow> py_last n xs = xs"
  by (simp add: py_last_def)

lemma scan_content_ref:
  "list_all is_dict cs \<Longrightarrow>
   scan_content loads cs = (case concat (map part_text cs) of [] \<Rightarrow> Done | t # _ \<Rightarrow> Found (loads_or_empty loads t))"
  by (induction cs) (auto simp: is_dict_def split: pyval.splits)

lemma scan_items_Cons_dict:
  "scan_items loads (PDict e # rest) =
     (if is_assistant_msg e
      then (case py_iter (py_or (dict_get e (ascii ''content'')) (PList [])) of
              None \<Rightarrow> Raised
            | Some cs \<Rightarrow> (case scan_content loads cs of Done \<Rightarrow> scan_items loads rest | r \<Rightarrow> r))
      else scan_items loads rest)"
  by (simp add: is_assistant_msg_def)

lemma scan_items_ref:
  "list_all wf_item items \<Longrightarrow>
   scan_items loads items = (case output_texts items of [] \<Rightarrow> Done | t # _ \<Rightarrow> Found (loads_or_empty loads t))"
proof (induction items)
  case Nil
  then show ?case by (simp add: output_texts_def)
next
  case (Cons i rest)
  then obtain e where i: "i = PDict e" by (cases i) auto
  show ?case
  proof (cases "is_assistant_msg e")
    case False
    with Cons i show ?thesis by (simp add: scan_items_Cons_dict output_texts_def del: scan_items.simps)
  next
    case True
    with Cons.prems i obtain cs where cs: "py_or (dict_get e (ascii ''content'')) (PList []) = PList cs"
      and wf: "list_all is_dict cs" by (auto split: pyval.splits)
    then have lo: "list_of (dict_get e (ascii ''content'')) = cs"
      by (auto simp: py_or_def list_of_def split: if_splits pyval.splits)
    have s: "scan_items loads (i # rest) = (case scan_content loads cs of Done \<Rightarrow> scan_items loads rest | r \<Rightarrow> r)"
      using cs by (simp add: i scan_items_Cons_dict True py_iter_def del: scan_items.simps)
    have it: "item_texts i = concat (map part_text cs)" using lo True i by simp
    from Cons.prems have "list_all wf_item rest" by simp
    then have ih: "scan_items loads rest = (case output_texts rest of [] \<Rightarrow> Done | t # _ \<Rightarrow> Found (loads_or_empty loads t))"
      by (rule Cons.IH)
    have o: "output_texts (i # rest) = concat (map part_text cs) @ output_texts rest"
      using it by (simp add: output_texts_def)
    obtain ts where ts: "concat (map part_text cs) = ts" by blast
    have sc: "scan_content loads cs = (case ts of [] \<Rightarrow> Done | t # _ \<Rightarrow> Found (loads_or_empty loads t))"
      using scan_content_ref[OF wf, of loads] ts by simp
    show ?thesis unfolding s o ts using sc ih
      by (cases ts) (simp_all del: scan_items.simps split: list.splits)
  qed
qed

subsection \<open>Properties\<close>

text \<open>C23: The conversation turns sent to the model are at most twelve: the last twelve
  turns of the history, minus those whose role is not user or assistant or whose
  content is blank, in order, with role and content stripped.\<close>

theorem history_items_sent:
  "length (history_items hist) \<le> 12 \<and>
   map (\<lambda>i. (ii_role i, ii_text i)) (history_items hist) =
     map (\<lambda>m. (py_lower (py_strip (h_role m)), py_strip (h_content m)))
       (filter (\<lambda>m. (py_lower (py_strip (h_role m)) = ascii ''user'' \<or> py_lower (py_strip (h_role m)) = ascii ''assistant'')
                   \<and> py_strip (h_content m) \<noteq> []) (py_last 12 hist))"
proof -
  have len: "length (concat (map hist_item xs)) \<le> length xs" for xs
  proof (induction xs)
    case (Cons a xs)
    then show ?case using length_hist_item[of a] by simp
  qed simp
  have eq: "map (\<lambda>i. (ii_role i, ii_text i)) (concat (map hist_item xs)) =
        map (\<lambda>m. (py_lower (py_strip (h_role m)), py_strip (h_content m)))
          (filter (\<lambda>m. (py_lower (py_strip (h_role m)) = ascii ''user'' \<or> py_lower (py_strip (h_role m)) = ascii ''assistant'')
                   \<and> py_strip (h_content m) \<noteq> []) xs)" for xs
    by (induction xs) (auto simp: hist_item_cases Let_def)
  show ?thesis unfolding history_items_def
    by (rule conjI[OF order_trans[OF len length_py_last] eq])
qed

text \<open>C24: A response with an HTTP status of 400 or more makes \<open>_recommend_with_llm\<close>
  raise \<open>RuntimeError\<close> with the status and the response text in its message; the
  body is not parsed.\<close>

theorem recommend_http_error:
  assumes "oracle api_key (build_request cfg hist user_text sel avail cands) = Http_resp st txt js"
    and "400 \<le> st"
  shows "recommend_with_llm cfg oracle loads api_key hist user_text sel avail cands =
           Inl (RuntimeError (ascii ''OpenAI HTTP '' @ show_int st @ ascii '': '' @ txt))"
  using assms by (simp add: recommend_with_llm_def call_openai_def)

text \<open>C25: \<open>_parse_output_text_json\<close> raises exactly when the response body is not a
  JSON object; for every object it returns a value.\<close>

theorem parse_raises_iff:
  "isl (parse_output_text_json loads resp) \<longleftrightarrow> \<not> is_dict resp"
  by (cases resp) (auto simp: parse_output_text_json_def is_dict_def split: pyval.splits)

text \<open>C26: A non-blank \<open>output_text\<close> decides the result: its parse, or the empty
  object when it is not JSON; the \<open>output\<close> items are not read.\<close>

theorem parse_output_text_first:
  assumes "dict_get d (ascii ''output_text'') = PStr t" and "py_strip t \<noteq> []"
  shows "parse_output_text_json loads (PDict d) = Inr (loads_or_empty loads t)"
  using assms by (simp add: parse_output_text_json_def)

text \<open>C27: Without \<open>output_text\<close>, for a well-formed \<open>output\<close> the result is the
  parse of the first non-blank \<open>output_text\<close> part of an assistant message (the
  empty object when it is not JSON), and the empty object when there is none.\<close>

theorem parse_output_ref:
  assumes "dict_get d (ascii ''output_text'') = PNone" and "dict_get d (ascii ''output'') = PList items"
    and "list_all wf_item items"
  shows "parse_output_text_json loads (PDict d) =
           Inr (case output_texts items of [] \<Rightarrow> PDict [] | t # _ \<Rightarrow> loads_or_empty loads t)"
  using assms scan_items_ref[OF assms(3), of loads]
  by (auto simp: parse_output_text_json_def scan_output_def py_or_def py_iter_def split: list.splits)


lemma recommend_http_error_witness:
  "(\<lambda>_ _. Http_resp 503 (ascii ''busy'') None) (ascii ''k'')
      (build_request demo_config [] (ascii ''hi'') None [] []) = Http_resp 503 (ascii ''busy'') None \<and>
   (400::int) \<le> 503 \<and>
   recommend_with_llm demo_config (\<lambda>_ _. Http_resp 503 (ascii ''busy'') None) (\<lambda>_. None) (ascii ''k'') []
     (ascii ''hi'') None [] [] = Inl (RuntimeError (ascii ''OpenAI HTTP '' @ show_int 503 @ ascii '': '' @ ascii ''busy''))"
  using recommend_http_error[of "\<lambda>_ _. Http_resp 503 (ascii ''busy'') None" "ascii ''k''" demo_config "[]"
      "ascii ''hi''" None "[]" "[]" 503 "ascii ''busy''" None "\<lambda>_. None"]
  by simp

lemma parse_output_text_first_witness:
  "dict_get [(ascii ''output_text'', PStr (ascii ''not json''))] (ascii ''output_text'') = PStr (ascii ''not json'') \<and>
   py_strip (ascii ''not json'') \<noteq> [] \<and>
   parse_output_text_json (\<lambda>_. None) (PDict [(ascii ''output_text'', PStr (ascii ''not json''))]) = Inr (PDict [])"
proof -
  have h: "dict_get [(ascii ''output_text'', PStr (ascii ''not json''))] (ascii ''output_text'') = PStr (ascii ''not json'')"
    "py_strip (ascii ''not json'') \<noteq> []" by (simp_all add: eval_simps)
  show ?thesis using h parse_output_text_first[OF h, of "\<lambda>_. None"] by (simp add: loads_or_empty_def)
qed

lemma parse_output_ref_witness:
  "dict_get [(ascii ''output'', demo_output)] (ascii ''output_text'') = PNone \<and>
   list_all wf_item (list_of demo_output) \<and>
   parse_output_text_json (\<lambda>_. Some (PDict [])) (PDict [(ascii ''output'', demo_output)]) = Inr (PDict [])"
proof -
  have h: "dict_get [(ascii ''output'', demo_output)] (ascii ''output_text'') = PNone"
    "dict_get [(ascii ''output'', demo_output)] (ascii ''output'') = PList (list_of demo_output)"
    "list_all wf_item (list_of demo_output)"
    by (simp_all add: eval_simps demo_output_def list_of_def is_assistant_msg_def is_dict_def)
  have "output_texts (list_of demo_output) = [ascii ''{}'']"
    by (simp add: eval_simps demo_output_def list_of_def is_assistant_msg_def output_texts_def)
  then show ?thesis using h parse_output_ref[OF h, of "\<lambda>_. Some (PDict [])"] by (simp add: loads_or_empty_def)
qed

text \<open>C35: The user's text reaches the model unchanged: the first input item of the
  request is the developer CONTEXT block, whose JSON opens with the \<open>user_text\<close>
  field, and reading that JSON string back gives exactly the text, whatever quotes,
  backslashes or control characters it holds.\<close>

theorem request_context_user_text:
  "\<exists>v rest. hd (rq_input (build_request cfg hist ut sel avail cands)) =
              dev_item (ascii ''CONTEXT:'' @ [10] @ 123 # json_str (ascii ''user_text'') @ ascii '': '' @ v) \<and>
            json_string v = Some (ut, ascii '', '' @ rest)"
proof -
  let ?rest = "py_join (ascii '', '')
     (map (\<lambda>(k, v). json_str k @ ascii '': '' @ json_dumps v)
        [(ascii ''selected_iso2'', PStr (case sel of Some s \<Rightarrow> s | None \<Rightarrow> [])),
         (ascii ''available_countries'', PList (map place_json avail))]) @ [125]"
  have "hd (rq_input (build_request cfg hist ut sel avail cands)) =
          dev_item (ascii ''CONTEXT:'' @ [10] @ json_dumps (context_obj ut sel avail))"
    by (simp add: build_request_def)
  moreover have "json_dumps (context_obj ut sel avail) =
          123 # json_str (ascii ''user_text'') @ ascii '': '' @ (json_str ut @ ascii '', '' @ ?rest)"
    by (simp add: context_obj_def)
  moreover have "json_string (json_str ut @ ascii '', '' @ ?rest) = Some (ut, ascii '', '' @ ?rest)"
    by (rule json_string_str)
  ultimately show ?thesis by auto
qed

end
