(* ===== verification/Handler.thy ===== *)
theory Handler
  imports Requester Validator "HOL-Library.AList"
begin

text \<open>
  The HTTP handler \<open>atlasChat\<close> of \<open>src/functions/atlas_chat.py\<close> (lines 586--706)
  and the response helper \<open>_json_response\<close> (lines 40--47). One request is one call
  of \<open>atlas_chat\<close>: it takes the configuration, the process environment, the
  country tables, the model oracle, the JSON parser, the clock, the outcome of the store
  read and the request, with the catalog cache, and gives the result (a response, or an
  exception that leaves the handler), the new cache and the external calls made, in
  order. Response headers are constant and not modelled.
\<close>

record request =
  req_method :: pystr
  req_json :: "pyval option"  \<comment> \<open>\<open>req.get_json(silent=True)\<close>: \<open>None\<close> when the body is not JSON\<close>

record http_response =
  resp_status :: int
  resp_body :: pyval

text \<open>The external calls of one request.\<close>

datatype effect = Store_stream | Llm_call

text \<open>The process around the handler: environment variables, and the text Python
  prints for an exception and its traceback (used only in debug output).\<close>

record runtime =
  rt_env :: "pystr \<rightharpoonup> pystr"
  rt_err_text :: "exc \<Rightarrow> pystr"
  rt_trace :: pystr

record handler_out =
  ho_result :: "exc + http_response"
  ho_cache :: cache
  ho_calls :: "effect list"

subsection \<open>Reading the request\<close>

text \<open>Lines 593--596: \<open>req.get_json(silent=True) or {}\<close>.\<close>

definition request_body :: "request \<Rightarrow> pyval" where
  "request_body req = (case req_json req of Some v \<Rightarrow> py_or v (PDict []) | None \<Rightarrow> PDict [])"

text \<open>Lines 609--611.\<close>

definition messages_of :: "(pystr \<times> pyval) list \<Rightarrow> pyval list" where
  "messages_of bd = (case dict_get bd (ascii ''messages'') of PList xs \<Rightarrow> xs | _ \<Rightarrow> [])"

text \<open>Lines 600--607: the selected country hint, upper-cased, kept when it is two
  letters.\<close>

definition selected_iso2_of :: "pyval \<Rightarrow> pystr option" where
  "selected_iso2_of ctx =
     (case field_of ctx (ascii ''selected_iso2'') of
        PStr s \<Rightarrow> (let u = py_upper (py_strip s) in if length u = 2 \<and> py_isalpha u then Some u else None)
      | _ \<Rightarrow> None)"

text \<open>Lines 613--619: the last message whose role is \<open>user\<close> and whose content is a
  non-blank string, stripped; empty when there is none.\<close>

fun last_user_text :: "pyval list \<Rightarrow> pystr" where
  "last_user_text [] = []"
| "last_user_text (m # ms) =
     (let t = last_user_text ms in
      if t \<noteq> [] then t
      else (case m of
              PDict d \<Rightarrow>
                (case (dict_get d (ascii ''role''), dict_get d (ascii ''content'')) of
                   (PStr r, PStr c) \<Rightarrow> if r = ascii ''user'' then py_strip c else []
                 | _ \<Rightarrow> [])
            | _ \<Rightarrow> []))"

text \<open>The user text of a request: the last user message of its body.\<close>

definition request_user_text :: "request \<Rightarrow> pystr" where
  "request_user_text req = (case request_body req of PDict bd \<Rightarrow> last_user_text (messages_of bd) | _ \<Rightarrow> [])"

text \<open>Lines 648--655: the history passed to the requester, from the last twelve
  messages.\<close>

definition handler_hist_item :: "pyval \<Rightarrow> hmsg list" where
  "handler_hist_item m =
     (case m of
        PDict d \<Rightarrow>
          (let role = py_lower (py_strip (py_str (py_or (dict_get d (ascii ''role'')) (PStr []))))
           in if role = ascii ''user'' \<or> role = ascii ''assistant''
              then (case dict_get d (ascii ''content'') of
                      PStr c \<Rightarrow> if py_strip c \<noteq> [] then [\<lparr>h_role = role, h_content = py_strip c\<rparr>] else []
                    | _ \<Rightarrow> [])
              else [])
      | _ \<Rightarrow> [])"

definition handler_history :: "pyval list \<Rightarrow> hmsg list" where
  "handler_history msgs = concat (map handler_hist_item (py_last 12 msgs))"

subsection \<open>Responses\<close>

definition err_body :: "pystr \<Rightarrow> config \<Rightarrow> pyval" where
  "err_body code cfg = PDict [(ascii ''error'', PStr code), (ascii ''build'', PStr (cfg_build cfg))]"

definition with_debug :: "bool \<Rightarrow> pyval \<Rightarrow> pyval \<Rightarrow> pyval" where
  "with_debug dbg body info =
     (if dbg then (case body of PDict d \<Rightarrow> PDict (AList.update (ascii ''debug'') info d) | _ \<Rightarrow> body)
      else body)"

definition env_val :: "runtime \<Rightarrow> pystr \<Rightarrow> pyval" where
  "env_val rt k = (case rt_env rt k of Some v \<Rightarrow> PStr v | None \<Rightarrow> PNone)"

definition prompt_envelope :: "config \<Rightarrow> envelope" where
  "prompt_envelope cfg = \<lparr>assistant_markdown = msg_prompt, recommendations = [],
     follow_up_questions = [], actions = [], build = cfg_build cfg\<rparr>"

definition msg_apology :: pystr where
  "msg_apology = ascii ''Sorry '' @ [8212] @ ascii '' something went wrong talking to the book brain. Try again in a sec.''"

definition apology_envelope :: "config \<Rightarrow> envelope" where
  "apology_envelope cfg = \<lparr>assistant_markdown = msg_apology, recommendations = [],
     follow_up_questions = [], actions = [], build = cfg_build cfg\<rparr>"

definition iso_val :: "pystr option \<Rightarrow> pyval" where
  "iso_val sel = (case sel of Some s \<Rightarrow> PStr s | None \<Rightarrow> PNone)"

text \<open>\<open>_json_response\<close>, lines 40--47: the status and the body; the body text is
  \<open>json.dumps(body, ensure_ascii=False)\<close>.\<close>

definition json_response :: "pyval \<Rightarrow> int \<Rightarrow> http_response" where
  "json_response body st = \<lparr>resp_status = st, resp_body = body\<rparr>"

definition response_text :: "http_response \<Rightarrow> pystr" where
  "response_text r = json_dumps (resp_body r)"

subsection \<open>The handler\<close>

text \<open>Lines 657--681: the model call and the validation inside the \<open>try\<close>, the
  apology of lines 683--706 when the call raised.\<close>

definition answer :: "config \<Rightarrow> runtime \<Rightarrow> openai \<Rightarrow> json_loads \<Rightarrow> bool \<Rightarrow> pystr \<Rightarrow> hmsg list
                       \<Rightarrow> pystr \<Rightarrow> pystr option \<Rightarrow> cache \<Rightarrow> http_response" where
  "answer cfg rt oracle loads dbg api_key hist user_text sel c =
     (case recommend_with_llm cfg oracle loads api_key hist user_text sel (cache_countries c) (cache_books c) of
        Inr parsed \<Rightarrow>
          json_response
            (with_debug dbg (envelope_json (validate_payload parsed (cache_by_id c) user_text (cfg_build cfg)))
               (PDict [(ascii ''candidates'', PInt (int (length (cache_books c)))),
                       (ascii ''catalog_total'', PInt (int (length (cache_books c)))),
                       (ascii ''countries'', PInt (int (length (cache_countries c)))),
                       (ascii ''selected_iso2'', iso_val sel),
                       (ascii ''model'', PStr (cfg_model cfg)),
                       (ascii ''build'', PStr (cfg_build cfg))])) 200
      | Inl e \<Rightarrow>
          json_response
            (with_debug dbg (envelope_json (apology_envelope cfg))
               (PDict [(ascii ''error'', PStr (take 1800 (rt_err_text rt e))),
                       (ascii ''trace'', PStr (py_last 3000 (rt_trace rt))),
                       (ascii ''model'', PStr (cfg_model cfg)),
                       (ascii ''has_key'', PBool True),
                       (ascii ''selected_iso2'', iso_val sel),
                       (ascii ''build'', PStr (cfg_build cfg))])) 200)"

text \<open>\<open>atlasChat\<close>, lines 586--706. \<open>get_json(silent=True)\<close> does not raise; the
  \<open>try\<close> of line 593 never fires.\<close>

definition atlas_chat :: "config \<Rightarrow> runtime \<Rightarrow> pycountry \<Rightarrow> openai \<Rightarrow> json_loads \<Rightarrow> real \<Rightarrow> store_read
                           \<Rightarrow> request \<Rightarrow> cache \<Rightarrow> handler_out" where
  "atlas_chat cfg rt pc oracle loads now rd req c =
     (if req_method req = ascii ''OPTIONS'' then
        \<lparr>ho_result = Inr (json_response (PDict [(ascii ''ok'', PBool True)]) 204), ho_cache = c, ho_calls = []\<rparr>
      else if req_method req \<noteq> ascii ''POST'' then
        \<lparr>ho_result = Inr (json_response (PDict [(ascii ''error'', PStr (ascii ''method_not_allowed''))]) 405),
         ho_cache = c, ho_calls = []\<rparr>
      else
        (case request_body req of
           PDict bd \<Rightarrow>
             (let dbg = (dict_get bd (ascii ''debug'') = PBool True) \<or> cfg_debug cfg;
                  ctx = (case dict_get bd (ascii ''context'') of PDict x \<Rightarrow> PDict x | _ \<Rightarrow> PDict []);
                  sel = selected_iso2_of ctx;
                  msgs = messages_of bd;
                  user_text = last_user_text msgs
              in if user_text = [] then
                   \<lparr>ho_result = Inr (json_response (envelope_json (prompt_envelope cfg)) 200), ho_cache = c, ho_calls = []\<rparr>
                 else
                   (let reads = (if cache_fresh (of_int (cfg_ttl cfg)) now c then [] else [Store_stream])
                    in case load_atlas_books_cached (of_int (cfg_ttl cfg)) pc now rd c of
                      Inl e \<Rightarrow> \<lparr>ho_result = Inl e, ho_cache = c, ho_calls = reads\<rparr>
                    | Inr c' \<Rightarrow>
                        if cache_books c' = [] then
                          \<lparr>ho_result = Inr (json_response
                             (with_debug dbg (err_body (ascii ''catalog_unavailable'') cfg)
                                (PDict [(ascii ''build'', PStr (cfg_build cfg)),
                                        (ascii ''firestore_emulator_host'', env_val rt (ascii ''FIRESTORE_EMULATOR_HOST'')),
                                        (ascii ''gcloud_project'',
                                           py_or (env_val rt (ascii ''GCLOUD_PROJECT'')) (env_val rt (ascii ''GOOGLE_CLOUD_PROJECT'')))]))
                             500),
                           ho_cache = c', ho_calls = reads\<rparr>
                        else
                          (let api_key = env_or (rt_env rt) (ascii ''OPENAI_API_KEY'') []
                           in if api_key = [] then
                                \<lparr>ho_result = Inr (json_response
                                   (with_debug dbg (err_body (ascii ''missing_openai_api_key'') cfg)
                                      (PDict [(ascii ''build'', PStr (cfg_build cfg))])) 500),
                                 ho_cache = c', ho_calls = reads\<rparr>
                              else
                                \<lparr>ho_result = Inr (answer cfg rt oracle loads dbg api_key (handler_history msgs)
                                                          user_text sel c'),
                                 ho_cache = c', ho_calls = reads @ [Llm_call]\<rparr>)))
         | _ \<Rightarrow> \<lparr>ho_result = Inl AttributeError, ho_cache = c, ho_calls = []\<rparr>))"

text \<open>The store reads of a request that reaches the catalog: one unless the cache is
  fresh.\<close>

definition store_reads :: "config \<Rightarrow> real \<Rightarrow> cache \<Rightarrow> effect list" where
  "store_reads cfg now c = (if cache_fresh (of_int (cfg_ttl cfg)) now c then [] else [Store_stream])"

subsection \<open>Examples\<close>

text \<open>A deployment with a key, and three requests: one user message, a body that is
  a JSON array, and an empty object.\<close>

definition demo_runtime :: runtime where
  "demo_runtime = \<lparr>rt_env = [ascii ''OPENAI_API_KEY'' \<mapsto> ascii ''sk''], rt_err_text = (\<lambda>_. []), rt_trace = []\<rparr>"

definition demo_user_msg :: "(pystr \<times> pyval) list" where
  "demo_user_msg = [(ascii ''role'', PStr (ascii ''user'')), (ascii ''content'', PStr (ascii ''Just one book please''))]"

definition demo_request :: request where
  "demo_request = \<lparr>req_method = ascii ''POST'',
     req_json = Some (PDict [(ascii ''messages'', PList [PDict demo_user_msg])])\<rparr>"

definition array_request :: request where
  "array_request = \<lparr>req_method = ascii ''POST'', req_json = Some (PList [PInt 1])\<rparr>"

definition empty_request :: request where
  "empty_request = \<lparr>req_method = ascii ''POST'', req_json = Some (PDict [])\<rparr>"

subsection \<open>Lemmas\<close>

lemma with_debug_False [simp]: "with_debug False b i = b"
  by (simp add: with_debug_def)

lemma msg_apology_length: "length msg_apology \<le> md_limit"
  by (simp add: msg_apology_def md_limit_def)

lemma fixed_envelope_ok:
  "envelope_ok by_id ws (prompt_envelope cfg)" "envelope_ok by_id ws (apology_envelope cfg)"
  using msg_lengths msg_apology_length
  by (simp_all add: envelope_ok_def prompt_envelope_def apology_envelope_def msg_apology_def)

lemma answer_status: "resp_status (answer cfg rt oracle loads dbg k hist ut sel c) = 200"
  by (simp add: answer_def json_response_def split: sum.splits)

lemma answer_envelope:
  "\<exists>e info. resp_body (answer cfg rt oracle loads dbg k hist ut sel c) = with_debug dbg (envelope_json e) info \<and>
            envelope_ok (cache_by_id c) (user_wants_single ut) e"
proof (cases "recommend_with_llm cfg oracle loads k hist ut sel (cache_countries c) (cache_books c)")
  case (Inl e)
  then show ?thesis by (simp add: answer_def json_response_def) (blast intro: fixed_envelope_ok)
next
  case (Inr parsed)
  then show ?thesis by (simp add: answer_def json_response_def) (blast intro: validate_payload_ok)
qed

lemma atlas_chat_cases:
  fixes cfg rt pc orc loads now rd req c
  defines "out \<equiv> atlas_chat cfg rt pc orc loads now rd req c"
    and "load \<equiv> load_atlas_books_cached (of_int (cfg_ttl cfg)) pc now rd c"
    and "key \<equiv> env_or (rt_env rt) (ascii ''OPENAI_API_KEY'') []"
  obtains
    (not_post) "req_method req \<noteq> ascii ''POST''" "ho_calls out = []" "ho_cache out = c"
      "\<exists>r. ho_result out = Inr r \<and> resp_status r \<in> {204, 405}"
  | (not_dict) "req_method req = ascii ''POST''" "\<not> is_dict (request_body req)"
      "out = \<lparr>ho_result = Inl AttributeError, ho_cache = c, ho_calls = []\<rparr>"
  | (no_text) "req_method req = ascii ''POST''" "is_dict (request_body req)" "request_user_text req = []"
      "out = \<lparr>ho_result = Inr (json_response (envelope_json (prompt_envelope cfg)) 200), ho_cache = c, ho_calls = []\<rparr>"
  | (load_error) e where "req_method req = ascii ''POST''" "is_dict (request_body req)" "request_user_text req \<noteq> []"
      "load = Inl e" "out = \<lparr>ho_result = Inl e, ho_cache = c, ho_calls = store_reads cfg now c\<rparr>"
  | (no_catalog) c' r where "req_method req = ascii ''POST''" "is_dict (request_body req)" "request_user_text req \<noteq> []"
      "load = Inr c'" "cache_books c' = []" "ho_result out = Inr r" "resp_status r = 500"
      "field_of (resp_body r) (ascii ''error'') = PStr (ascii ''catalog_unavailable'')"
      "ho_cache out = c'" "ho_calls out = store_reads cfg now c"
  | (no_key) c' r where "req_method req = ascii ''POST''" "is_dict (request_body req)" "request_user_text req \<noteq> []"
      "load = Inr c'" "cache_books c' \<noteq> []" "key = []" "ho_result out = Inr r" "resp_status r = 500"
      "field_of (resp_body r) (ascii ''error'') = PStr (ascii ''missing_openai_api_key'')"
      "ho_cache out = c'" "ho_calls out = store_reads cfg now c"
  | (answered) c' bd dbg where "req_method req = ascii ''POST''" "request_body req = PDict bd"
      "request_user_text req \<noteq> []" "load = Inr c'" "cache_books c' \<noteq> []" "key \<noteq> []"
      "out = \<lparr>ho_result = Inr (answer cfg rt orc loads dbg key (handler_history (messages_of bd))
                                       (request_user_text req)
                                       (selected_iso2_of (case dict_get bd (ascii ''context'') of PDict x \<Rightarrow> PDict x | _ \<Rightarrow> PDict []))
                                       c'),
              ho_cache = c', ho_calls = store_reads cfg now c @ [Llm_call]\<rparr>"
proof (cases "req_method req = ascii ''POST''")
  case False
  then show ?thesis using not_post unfolding out_def by (simp add: atlas_chat_def json_response_def)
next
  case post: True
  show ?thesis
  proof (cases "request_body req")
    case (PDict bd)
    then have dict: "is_dict (request_body req)" by (simp add: is_dict_def)
    have ut: "request_user_text req = last_user_text (messages_of bd)" by (simp add: request_user_text_def PDict)
    show ?thesis
    proof (cases "last_user_text (messages_of bd) = []")
      case True
      then show ?thesis using no_text post dict ut PDict unfolding out_def by (simp add: atlas_chat_def Let_def)
    next
      case has_text: False
      show ?thesis
      proof (cases load)
        case (Inl e)
        then show ?thesis using load_error[of e] post dict ut PDict has_text
          unfolding out_def load_def by (simp add: atlas_chat_def Let_def store_reads_def)
      next
        case (Inr c')
        have o: "out = (if cache_books c' = [] then
                    \<lparr>ho_result = Inr (json_response
                       (with_debug ((dict_get bd (ascii ''debug'') = PBool True) \<or> cfg_debug cfg)
                          (err_body (ascii ''catalog_unavailable'') cfg)
                          (PDict [(ascii ''build'', PStr (cfg_build cfg)),
                                  (ascii ''firestore_emulator_host'', env_val rt (ascii ''FIRESTORE_EMULATOR_HOST'')),
                                  (ascii ''gcloud_project'',
                                     py_or (env_val rt (ascii ''GCLOUD_PROJECT'')) (env_val rt (ascii ''GOOGLE_CLOUD_PROJECT'')))]))
                       500),
                     ho_cache = c', ho_calls = store_reads cfg now c\<rparr>
                  else if key = [] then
                    \<lparr>ho_result = Inr (json_response
                       (with_debug ((dict_get bd (ascii ''debug'') = PBool True) \<or> cfg_debug cfg)
                          (err_body (ascii ''missing_openai_api_key'') cfg)
                          (PDict [(ascii ''build'', PStr (cfg_build cfg))])) 500),
                     ho_cache = c', ho_calls = store_reads cfg now c\<rparr>
                  else
                    \<lparr>ho_result = Inr (answer cfg rt orc loads ((dict_get bd (ascii ''debug'') = PBool True) \<or> cfg_debug cfg)
                                         key (handler_history (messages_of bd)) (request_user_text req)
                                         (selected_iso2_of (case dict_get bd (ascii ''context'') of PDict x \<Rightarrow> PDict x | _ \<Rightarrow> PDict []))
                                         c'),
                     ho_cache = c', ho_calls = store_reads cfg now c @ [Llm_call]\<rparr>)"
          using post PDict has_text Inr ut unfolding out_def load_def key_def
          by (simp add: atlas_chat_def Let_def store_reads_def)
        have err: "field_of (with_debug dbg (err_body code cfg) info) (ascii ''error'') = PStr code" for dbg code info
          by (simp add: with_debug_def err_body_def field_of_def dict_get_def)
        show ?thesis
        proof (cases "cache_books c' = []")
          case True
          then show ?thesis using no_catalog[of c'] post dict ut has_text Inr o err
            by (simp add: json_response_def)
        next
          case books: False
          show ?thesis
          proof (cases "key = []")
            case True
            then show ?thesis using no_key[of c'] post dict ut has_text Inr o err books
              by (simp add: json_response_def)
          next
            case False
            then show ?thesis using answered[of bd c'] post PDict ut has_text Inr o books by simp
          qed
        qed
      qed
    qed
  qed (use post not_dict in \<open>simp_all add: out_def atlas_chat_def is_dict_def\<close>)
qed


lemma store_reads_cases: "store_reads cfg now c \<in> {[], [Store_stream]}"
  by (simp add: store_reads_def)

lemma last_user_text_snoc:
  assumes "dict_get d (ascii ''role'') = PStr (ascii ''user'')" "dict_get d (ascii ''content'') = PStr t"
    "py_strip t \<noteq> []"
  shows "last_user_text (ms @ [PDict d]) = py_strip t"
  using assms by (induction ms) (simp_all add: Let_def)

lemma item_user:
  assumes "dict_get d (ascii ''role'') = PStr (ascii ''user'')" "dict_get d (ascii ''content'') = PStr t"
    and "py_strip t \<noteq> []"
  shows "handler_hist_item (PDict d) = [\<lparr>h_role = ascii ''user'', h_content = py_strip t\<rparr>]"
proof -
  have "py_lower (py_strip (py_str (py_or (PStr (ascii ''user'')) (PStr [])))) = ascii ''user''"
    by (simp add: eval_simps py_str_def)
  then show ?thesis using assms by (simp add: handler_hist_item_def Let_def)
qed

lemma py_lower_strip_user: "py_lower (py_strip (ascii ''user'')) = ascii ''user''"
  by (simp add: eval_simps)

lemma hist_item_user:
  "py_strip t \<noteq> [] \<Longrightarrow> hist_item \<lparr>h_role = ascii ''user'', h_content = py_strip t\<rparr> =
     [\<lparr>ii_role = ascii ''user'', ii_type = ascii ''input_text'', ii_text = py_strip t\<rparr>]"
  unfolding hist_item_def Let_def hmsg.select_convs py_lower_strip_user py_strip_idem by simp

lemma length_handler_history: "length (handler_history msgs) \<le> 12"
proof -
  have "length (concat (map handler_hist_item xs)) \<le> length xs" for xs
  proof (induction xs)
    case (Cons a xs)
    have "length (handler_hist_item a) \<le> 1"
      by (simp add: handler_hist_item_def Let_def split: pyval.splits)
    with Cons show ?case by simp
  qed simp
  then show ?thesis unfolding handler_history_def using length_py_last order_trans by blast
qed

lemma atlas_chat_answers:
  assumes "req_method req = ascii ''POST''" "request_body req = PDict bd" "request_user_text req \<noteq> []"
    and "load_atlas_books_cached (of_int (cfg_ttl cfg)) pc now rd c = Inr c'" "cache_books c' \<noteq> []"
    and "env_or (rt_env rt) (ascii ''OPENAI_API_KEY'') [] \<noteq> []"
  shows "ho_calls (atlas_chat cfg rt pc orc loads now rd req c) = store_reads cfg now c @ [Llm_call] \<and>
         ho_cache (atlas_chat cfg rt pc orc loads now rd req c) = c' \<and>
         resp_status (projr (ho_result (atlas_chat cfg rt pc orc loads now rd req c))) = 200 \<and>
         \<not> isl (ho_result (atlas_chat cfg rt pc orc loads now rd req c))"
  using assms answer_status
  by (cases rule: atlas_chat_cases[where cfg = cfg and rt = rt and pc = pc and orc = orc and loads = loads and now = now and rd = rd and req = req and c = c])
     (auto simp: is_dict_def)

lemma demo_request_facts:
  "req_method demo_request = ascii ''POST''"
  "request_body demo_request = PDict [(ascii ''messages'', PList [PDict demo_user_msg])]"
  "request_user_text demo_request = ascii ''Just one book please''"
  "is_dict (request_body demo_request)"
  by (simp_all add: demo_request_def request_body_def request_user_text_def messages_of_def
      demo_user_msg_def is_dict_def eval_simps)

lemma demo_key: "env_or (rt_env demo_runtime) (ascii ''OPENAI_API_KEY'') [] = ascii ''sk''"
  by (simp add: demo_runtime_def env_or_def)

lemma demo_handler_load:
  "\<exists>c. load_atlas_books_cached (of_int (cfg_ttl demo_config)) None 1000 (Stream [demo_doc]) cache_init = Inr c
       \<and> cache_books c \<noteq> []"
proof -
  obtain c where c: "load_atlas_books_cached 600 None 1000 (Stream [demo_doc]) cache_init = Inr c"
    using demo_refresh by blast
  have "map book_id (cache_books c) = [ascii ''b1'']"
    using refresh_result[OF demo_stale c] by (simp add: demo_doc_def)
  then have "cache_books c \<noteq> []" by auto
  with c show ?thesis by (auto simp: demo_config_def)
qed

lemma demo_handler_answers:
  "ho_calls (atlas_chat demo_config demo_runtime None orc loads 1000 (Stream [demo_doc]) demo_request cache_init)
     = [Store_stream, Llm_call] \<and>
   resp_status (projr (ho_result (atlas_chat demo_config demo_runtime None orc loads 1000 (Stream [demo_doc])
     demo_request cache_init))) = 200 \<and>
   \<not> isl (ho_result (atlas_chat demo_config demo_runtime None orc loads 1000 (Stream [demo_doc]) demo_request cache_init))"
proof -
  obtain c where "load_atlas_books_cached (of_int (cfg_ttl demo_config)) None 1000 (Stream [demo_doc]) cache_init = Inr c"
    "cache_books c \<noteq> []" using demo_handler_load by blast
  from atlas_chat_answers[OF demo_request_facts(1,2) _ this, of demo_runtime orc loads] demo_request_facts(3) demo_key
  show ?thesis by (simp add: store_reads_def demo_config_def cache_fresh_def cache_init_def)
qed

subsection \<open>Properties\<close>

text \<open>C29: One request makes at most one store read and at most one model call, the
  model call last. The model is called exactly when the request is a POST with a JSON
  object holding a user message, the catalog it loads is non-empty and the API key is
  set; and then the handler answers with status 200.\<close>

theorem handler_calls:
  "ho_calls (atlas_chat cfg rt pc orc loads now rd req c) \<in> {[], [Store_stream], [Llm_call], [Store_stream, Llm_call]} \<and>
   (Llm_call \<in> set (ho_calls (atlas_chat cfg rt pc orc loads now rd req c)) \<longleftrightarrow>
      req_method req = ascii ''POST'' \<and> is_dict (request_body req) \<and> request_user_text req \<noteq> [] \<and>
      (\<exists>c'. load_atlas_books_cached (of_int (cfg_ttl cfg)) pc now rd c = Inr c' \<and> cache_books c' \<noteq> []) \<and>
      env_or (rt_env rt) (ascii ''OPENAI_API_KEY'') [] \<noteq> []) \<and>
   (Llm_call \<in> set (ho_calls (atlas_chat cfg rt pc orc loads now rd req c)) \<longrightarrow>
      (\<exists>r. ho_result (atlas_chat cfg rt pc orc loads now rd req c) = Inr r \<and> resp_status r = 200))"
  using store_reads_cases[of cfg now c] answer_status
  by (cases rule: atlas_chat_cases[where cfg = cfg and rt = rt and pc = pc and orc = orc and loads = loads and now = now and rd = rd and req = req and c = c])
     (auto simp: is_dict_def)

lemma handler_calls_witness:
  "Llm_call \<in> set (ho_calls (atlas_chat demo_config demo_runtime None (\<lambda>_ _. Net_failure) (\<lambda>_. None) 1000
      (Stream [demo_doc]) demo_request cache_init)) \<and>
   (\<exists>r. ho_result (atlas_chat demo_config demo_runtime None (\<lambda>_ _. Net_failure) (\<lambda>_. None) 1000
      (Stream [demo_doc]) demo_request cache_init) = Inr r \<and> resp_status r = 200)"
proof -
  have l: "Llm_call \<in> set (ho_calls (atlas_chat demo_config demo_runtime None (\<lambda>_ _. Net_failure) (\<lambda>_. None) 1000
      (Stream [demo_doc]) demo_request cache_init))"
    using demo_handler_answers[of "\<lambda>_ _. Net_failure" "\<lambda>_. None"] by simp
  show ?thesis using l handler_calls[of demo_config demo_runtime None "\<lambda>_ _. Net_failure" "\<lambda>_. None" 1000
      "Stream [demo_doc]" demo_request cache_init] by blast
qed

text \<open>C30: A failed model call (network error, HTTP error, a body that is not JSON or
  not an object) is absorbed: the handler answers 200 with the fixed apology and no
  recommendation.\<close>

theorem answer_provider_error:
  assumes "recommend_with_llm cfg orc loads k hist ut sel (cache_countries c) (cache_books c) = Inl e"
  shows "answer cfg rt orc loads False k hist ut sel c = json_response (envelope_json (apology_envelope cfg)) 200"
  using assms by (simp add: answer_def)

lemma answer_provider_error_witness:
  "recommend_with_llm demo_config (\<lambda>_ _. Net_failure) (\<lambda>_. None) (ascii ''sk'') [] (ascii ''hi'') None
     (cache_countries cache_init) (cache_books cache_init) = Inl NetworkError \<and>
   answer demo_config demo_runtime (\<lambda>_ _. Net_failure) (\<lambda>_. None) False (ascii ''sk'') [] (ascii ''hi'') None cache_init
     = json_response (envelope_json (apology_envelope demo_config)) 200"
proof -
  have e: "recommend_with_llm demo_config (\<lambda>_ _. Net_failure) (\<lambda>_. None) (ascii ''sk'') [] (ascii ''hi'') None
     (cache_countries cache_init) (cache_books cache_init) = Inl NetworkError"
    by (simp add: recommend_with_llm_def call_openai_def)
  show ?thesis using e answer_provider_error[OF e, of demo_runtime] by simp
qed

text \<open>C31: The handler lets an exception escape only for a POST whose JSON body is not
  an object (\<open>body.get\<close> on a list, string or number) or when loading the catalog
  raises; every other failure becomes a response.\<close>

theorem handler_raises_only:
  assumes "ho_result (atlas_chat cfg rt pc orc loads now rd req c) = Inl e"
  shows "req_method req = ascii ''POST'' \<and>
         (\<not> is_dict (request_body req) \<or> load_atlas_books_cached (of_int (cfg_ttl cfg)) pc now rd c = Inl e)"
  using assms by (cases rule: atlas_chat_cases[where cfg = cfg and rt = rt and pc = pc and orc = orc and loads = loads and now = now and rd = rd and req = req and c = c]) auto

lemma handler_raises_only_witness:
  "ho_result (atlas_chat demo_config demo_runtime None (\<lambda>_ _. Net_failure) (\<lambda>_. None) 0 Stream_fail
      array_request cache_init) = Inl AttributeError \<and>
   req_method array_request = ascii ''POST'' \<and> \<not> is_dict (request_body array_request)"
proof -
  have r: "ho_result (atlas_chat demo_config demo_runtime None (\<lambda>_ _. Net_failure) (\<lambda>_. None) 0 Stream_fail
      array_request cache_init) = Inl AttributeError"
    by (simp add: atlas_chat_def array_request_def request_body_def py_or_def)
  have "\<not> is_dict (request_body array_request)"
    by (simp add: array_request_def request_body_def is_dict_def py_or_def)
  then show ?thesis using handler_raises_only[OF r] r by simp
qed

text \<open>C32: A POST without a user message (no \<open>messages\<close>, or none with role
  \<open>user\<close> and non-blank text) gets the prompt envelope with status 200, without
  reading the store or calling the model, and leaves the cache as it was.\<close>

theorem handler_no_user_text:
  assumes "req_method req = ascii ''POST''" "is_dict (request_body req)" "request_user_text req = []"
  shows "atlas_chat cfg rt pc orc loads now rd req c =
           \<lparr>ho_result = Inr (json_response (envelope_json (prompt_envelope cfg)) 200), ho_cache = c, ho_calls = []\<rparr>"
  using assms by (cases rule: atlas_chat_cases[where cfg = cfg and rt = rt and pc = pc and orc = orc and loads = loads and now = now and rd = rd and req = req and c = c]) auto

lemma handler_no_user_text_witness:
  "req_method empty_request = ascii ''POST'' \<and> is_dict (request_body empty_request) \<and>
   request_user_text empty_request = [] \<and>
   ho_calls (atlas_chat demo_config demo_runtime None (\<lambda>_ _. Net_failure) (\<lambda>_. None) 0 Stream_fail
      empty_request cache_init) = []"
proof -
  have h: "req_method empty_request = ascii ''POST''" "is_dict (request_body empty_request)"
    "request_user_text empty_request = []"
    by (simp_all add: empty_request_def request_body_def is_dict_def request_user_text_def messages_of_def
        dict_get_def py_or_def)
  show ?thesis using h handler_no_user_text[OF h, of demo_config demo_runtime None "\<lambda>_ _. Net_failure"
      "\<lambda>_. None" 0 Stream_fail cache_init] by simp
qed

text \<open>C33: With an empty cache and a failing store, a request with a user message gets
  status 500 with error \<open>catalog_unavailable\<close>, and the model is not called: the
  stale-but-available policy serves the empty snapshot, which the handler refuses.\<close>

theorem handler_catalog_unavailable:
  assumes "req_method req = ascii ''POST''" "is_dict (request_body req)" "request_user_text req \<noteq> []"
    and "cache_books c = []"
  shows "\<exists>r. ho_result (atlas_chat cfg rt pc orc loads now Stream_fail req c) = Inr r \<and> resp_status r = 500 \<and>
             field_of (resp_body r) (ascii ''error'') = PStr (ascii ''catalog_unavailable'') \<and>
             Llm_call \<notin> set (ho_calls (atlas_chat cfg rt pc orc loads now Stream_fail req c))"
proof -
  have l: "load_atlas_books_cached (of_int (cfg_ttl cfg)) pc now Stream_fail c = Inr c"
    by (simp add: load_atlas_books_cached_def)
  show ?thesis
    using assms l store_reads_cases[of cfg now c]
    by (cases rule: atlas_chat_cases[where cfg = cfg and rt = rt and pc = pc and orc = orc and loads = loads and now = now and rd = Stream_fail and req = req and c = c]) auto
qed


lemma handler_catalog_unavailable_witness:
  "\<exists>r. ho_result (atlas_chat demo_config demo_runtime None (\<lambda>_ _. Net_failure) (\<lambda>_. None) 0 Stream_fail
          demo_request cache_init) = Inr r \<and> resp_status r = 500"
  using handler_catalog_unavailable[OF demo_request_facts(1,4) _ , of cache_init demo_config demo_runtime None
      "\<lambda>_ _. Net_failure" "\<lambda>_. None" 0] demo_request_facts(3)
  by (auto simp: cache_init_def)

text \<open>C34: The current user message is sent to the model twice: as \<open>user_text\<close> in
  the CONTEXT block and again as the last conversation turn, because the history is
  built from the last twelve messages including the current one.\<close>

theorem current_turn_sent_twice:
  assumes "dict_get d (ascii ''role'') = PStr (ascii ''user'')" "dict_get d (ascii ''content'') = PStr t"
    and "py_strip t \<noteq> []"
  shows "last_user_text (ms @ [PDict d]) = py_strip t \<and>
         last (history_items (handler_history (ms @ [PDict d]))) =
           \<lparr>ii_role = ascii ''user'', ii_type = ascii ''input_text'', ii_text = py_strip t\<rparr>"
proof
  show "last_user_text (ms @ [PDict d]) = py_strip t" using assms by (rule last_user_text_snoc)
next
  have "handler_history (ms @ [PDict d]) = concat (map handler_hist_item (py_last 11 ms)) @
              [\<lparr>h_role = ascii ''user'', h_content = py_strip t\<rparr>]"
    unfolding handler_history_def py_last_12_snoc using item_user[OF assms] by simp
  then have "history_items (handler_history (ms @ [PDict d])) =
          concat (map hist_item (concat (map handler_hist_item (py_last 11 ms)))) @
          hist_item \<lparr>h_role = ascii ''user'', h_content = py_strip t\<rparr>"
    unfolding history_items_def py_last_short[OF length_handler_history] by simp
  then show "last (history_items (handler_history (ms @ [PDict d]))) =
           \<lparr>ii_role = ascii ''user'', ii_type = ascii ''input_text'', ii_text = py_strip t\<rparr>"
    using hist_item_user[OF assms(3)] by simp
qed

lemma current_turn_sent_twice_witness:
  "dict_get demo_user_msg (ascii ''role'') = PStr (ascii ''user'') \<and>
   dict_get demo_user_msg (ascii ''content'') = PStr (ascii ''Just one book please'') \<and>
   py_strip (ascii ''Just one book please'') \<noteq> [] \<and>
   last_user_text [PDict demo_user_msg] = ascii ''Just one book please'' \<and>
   last (history_items (handler_history [PDict demo_user_msg])) =
     \<lparr>ii_role = ascii ''user'', ii_type = ascii ''input_text'', ii_text = ascii ''Just one book please''\<rparr>"
proof -
  have h: "dict_get demo_user_msg (ascii ''role'') = PStr (ascii ''user'')"
    "dict_get demo_user_msg (ascii ''content'') = PStr (ascii ''Just one book please'')"
    "py_strip (ascii ''Just one book please'') \<noteq> []"
    "py_strip (ascii ''Just one book please'') = ascii ''Just one book please''"
    by (simp_all add: demo_user_msg_def eval_simps)
  show ?thesis using current_turn_sent_twice[OF h(1-3), of "[]"] h by simp
qed

end
