(* ===== verification/Spec2Isabelle.thy ===== *)
theory Spec2Isabelle
  imports Validator Geo Catalog Requester Handler
begin

text \<open>
  A verification development for the Atlas book-recommendation endpoint
  (\<open>src/functions/atlas_chat.py\<close>; \<open>src/functions/main.py\<close> only initialises the
  framework and re-exports the handler).

  \<^bold>\<open>The program.\<close> One HTTP handler, \<open>atlasChat\<close>, turns a chat request into at
  most three book recommendations from a catalog held in a document store. Data flows one
  way: the store's documents are indexed into catalog records (geography normalised to
  ISO2 codes by the Geo normaliser) and cached with a time-to-live; the handler sends the
  catalog and the conversation to a language model in one blocking call; the parsed model
  output is filtered and repaired by the validator into the response envelope.

  \<^bold>\<open>Theories, in import order.\<close>
  \<^item> \<open>Atlas_Prelude\<close>: Python text as lists of Unicode code points, the string
    methods the code calls (\<open>strip\<close>, \<open>lower\<close>, \<open>upper\<close>, \<open>isalpha\<close>,
    \<open>in\<close>, \<open>startswith\<close>, \<open>re.split\<close>, \<open>join\<close>), and the order-preserving
    duplicate removal \<open>dedup\<close> that specifies the code's "seen set" loops.
  \<^item> \<open>PyVal\<close>: Python values from outside (store documents, request body, parsed
    model output) as the datatype \<open>pyval\<close>; truthiness, \<open>dict.get\<close>, \<open>str()\<close>,
    \<open>int()\<close> and the exceptions, which the model returns as \<open>Inl\<close> values.
  \<^item> \<open>Json\<close>: \<open>json.dumps\<close> with \<open>ensure_ascii=False\<close>, and a reader for JSON
    strings with the round trip \<open>json_string_str\<close>.
  \<^item> \<open>Text\<close>: \<open>_normalize_text\<close> and the intent classifier \<open>_user_wants_single\<close>;
    the normal form of normalised text (C21) and the trigger set (C22).
  \<^item> \<open>Markdown\<close>: the prose sanitiser \<open>_sanitize_assistant_markdown\<close>; each
    multi-line regular expression is a scanner (\<open>strip_marks\<close>) with a matcher;
    the bounds of its output: length, stripped ends, no run of three newlines (C8).
  \<^item> \<open>Book\<close>: the catalog record built by the indexer.
  \<^item> \<open>Validator\<close>: \<open>_build_synced_markdown\<close> and \<open>_validate_payload\<close>, the
    response contract \<open>envelope_ok\<close> and the theorem that every output meets it,
    refinements of the recommendations (IDs, then reasons) and of the follow-up
    questions against list-level specifications (\<open>dedup\<close>, \<open>dedup_by\<close>,
    \<open>str_items\<close>), the single-intent cap and the synthesised prose (C1--C7).
  \<^item> \<open>Geo\<close>: \<open>_country_string_to_iso2\<close>, \<open>_extract_iso2_candidates\<close> and
    \<open>_iso2_to_country_name\<close> over an interface record for the optional
    \<open>pycountry\<close> tables: the shape of every code for ASCII input, for a single
    value and for every candidate of a nested value (\<open>pyval_ascii\<close>), the
    duplicate removal, and the raw-text look-up of longer names (C9--C12).
  \<^item> \<open>Catalog\<close>: \<open>_places_for_book\<close>, \<open>_iso2_sets_for_book\<close>,
    \<open>_build_book_search_blob\<close> and \<open>_load_atlas_books_cached\<close>; the four cache
    globals are the record \<open>cache\<close>, passed in and returned, the clock and the outcome
    of the store's stream are inputs; the snapshot invariant \<open>cache_wf\<close> and the
    loader's behaviour on every store outcome, the time-to-live test included (C13--C20).
  \<^item> \<open>Requester\<close>: the configuration of lines 28--31, \<open>_recommend_with_llm\<close>
    (the request as a record), \<open>_call_openai\<close> with the network call as an oracle
    parameter, and \<open>_parse_output_text_json\<close> with \<open>json.loads\<close> as a parameter
    (C23--C27, C35).
  \<^item> \<open>Handler\<close>: \<open>atlasChat\<close> and \<open>_json_response\<close>: one request is one call of
    \<open>atlas_chat\<close>, which returns the response or the escaping exception, the new
    cache and the trace of external calls (store read, model call). The case lemma
    \<open>atlas_chat_cases\<close> lists its seven outcomes; the properties C29--C34 are stated
    over it.
  \<^item> This theory: the property that spans the handler and the validator (C28).

  \<^bold>\<open>Modelling choices.\<close> A Python \<open>str\<close> is a list of code points, so slices
  such as \<open>[:900]\<close> count as Python counts. Character classes are exact on Latin-1;
  \<open>str.isspace\<close> and the regular-expression class \<open>\s\<close> are exact on all of
  Unicode; \<open>str.lower\<close> is exact on Latin-1 and on the two code points above it whose
  lower case contains ASCII letters (U+0130, U+212A), which is all that the normaliser's
  ASCII filter can observe; above Latin-1, letters are not classified and \<open>upper\<close>
  leaves them unchanged. Every loop of the code runs over a finite list, so every
  definition is total (structural recursion, or \<open>function\<close> with a length measure for
  the scanners and the JSON string reader); no fuel is needed. The model temperature
  (a Python float) is a real.

  \<^bold>\<open>Not modelled.\<close> \<open>main.py\<close> (framework initialisation, no behaviour of its
  own); logging; the constant CORS headers of \<open>_json_response\<close>; the text of
  exceptions and tracebacks in debug output (a parameter); the network and the store
  themselves (their outcomes are inputs); \<open>json.loads\<close> beyond strings (a parameter of
  the requester); concurrent requests racing on the cache (the model runs one request
  at a time, with the cache threaded through).
\<close>

subsection \<open>Across components\<close>

text \<open>C28: End to end, every response with status 200 carries the response envelope
  (with a \<open>debug\<close> entry when debugging is on), and the envelope meets the contract
  of the validator for the catalog the handler holds afterwards: non-empty prose of at
  most 900 code points, catalog books only and each once, at most one book when the user
  asked for one and three otherwise, short reasons and follow-ups, no action. This holds
  on the prompt path, on the apology path and on the validated model answer.\<close>

theorem handler_envelope_ok:
  assumes "ho_result (atlas_chat cfg rt pc orc loads now rd req c) = Inr r" and "resp_status r = 200"
  shows "\<exists>e dbg info. resp_body r = with_debug dbg (envelope_json e) info \<and>
           envelope_ok (cache_by_id (ho_cache (atlas_chat cfg rt pc orc loads now rd req c)))
                       (user_wants_single (request_user_text req)) e"
proof (cases rule: atlas_chat_cases[where cfg = cfg and rt = rt and pc = pc and orc = orc and loads = loads and now = now and rd = rd and req = req and c = c])
  case no_text
  then have b: "resp_body r = with_debug False (envelope_json (prompt_envelope cfg)) PNone"
    using assms by (auto simp: json_response_def)
  show ?thesis
  proof (intro exI conjI)
    show "resp_body r = with_debug False (envelope_json (prompt_envelope cfg)) PNone" by (fact b)
    show "envelope_ok (cache_by_id (ho_cache (atlas_chat cfg rt pc orc loads now rd req c)))
            (user_wants_single (request_user_text req)) (prompt_envelope cfg)"
      by (rule fixed_envelope_ok(1))
  qed
next
  case (answered c' bd dbg)
  then show ?thesis using assms by simp (meson answer_envelope)
qed (use assms in auto)

theorem handler_envelope_ok_witness:
  "\<exists>r. ho_result (atlas_chat demo_config demo_runtime None (\<lambda>_ _. Net_failure) (\<lambda>_. None) 1000
          (Stream [demo_doc]) demo_request cache_init) = Inr r \<and> resp_status r = 200 \<and>
       (\<exists>e dbg info. resp_body r = with_debug dbg (envelope_json e) info \<and>
          envelope_ok (cache_by_id (ho_cache (atlas_chat demo_config demo_runtime None (\<lambda>_ _. Net_failure)
            (\<lambda>_. None) 1000 (Stream [demo_doc]) demo_request cache_init)))
            (user_wants_single (request_user_text demo_request)) e)"
proof -
  have a: "\<not> isl (ho_result (atlas_chat demo_config demo_runtime None (\<lambda>_ _. Net_failure) (\<lambda>_. None) 1000
          (Stream [demo_doc]) demo_request cache_init))"
    "resp_status (projr (ho_result (atlas_chat demo_config demo_runtime None (\<lambda>_ _. Net_failure) (\<lambda>_. None) 1000
          (Stream [demo_doc]) demo_request cache_init))) = 200"
    using demo_handler_answers by simp_all
  then obtain r where r: "ho_result (atlas_chat demo_config demo_runtime None (\<lambda>_ _. Net_failure) (\<lambda>_. None) 1000
          (Stream [demo_doc]) demo_request cache_init) = Inr r" and st: "resp_status r = 200"
    by (cases "ho_result (atlas_chat demo_config demo_runtime None (\<lambda>_ _. Net_failure) (\<lambda>_. None) 1000
          (Stream [demo_doc]) demo_request cache_init)") auto
  show ?thesis using handler_envelope_ok[OF r st] r st by blast
qed

end
